theory Spec2Isabelle
  imports Complex_Main "HOL-Library.Word" "HOL-Library.Sublist"
begin

section \<open>Data model (models.py)\<close>

text \<open>
  The tables of \<^verbatim>\<open>models.py\<close> as records; a table is the list of its rows in
  insertion order. Only the columns that the modelled routes read or write are kept
  (\<^verbatim>\<open>created_at\<close> is filled by a column default and never read by them).
\<close>

record algorithm =
  alg_id :: nat
  alg_name :: string
  alg_type :: string
  category :: string
  key_size :: int
  description :: string
  quantum_safe :: bool

text \<open>A decoded JSON value: what \<^verbatim>\<open>json.loads\<close> and \<^verbatim>\<open>request.get_json()\<close>
  return. A float is held as the rational it denotes, so the non-finite floats that
  \<^verbatim>\<open>json.loads\<close> also accepts are not modelled. A dict is the list of its members in
  their order, with distinct keys.\<close>

datatype json =
  JNull | JBool bool | JInt int | JFloat rat | JString string
| JArray "json list" | JObject "(string \<times> json) list"

text \<open>A row of the tests table. \<^verbatim>\<open>input_data\<close> is the value that the route binds to
  the column: the member of the request body as it was decoded, a str in the usual
  case.\<close>

record test =
  test_id :: nat
  user_id :: nat
  algorithm_id :: nat
  test_type :: string
  input_data :: json
  output_data :: "string option"
  execution_time :: rat
  success :: bool
  error_message :: "string option"
  metadata_key_size :: int
  metadata_algorithm_type :: string

text \<open>A Python number: an \<^verbatim>\<open>int\<close> or a \<^verbatim>\<open>float\<close>. Floats are modelled by the
  rationals they approximate.\<close>

datatype number = Int_num int | Float_num rat

text \<open>One entry of \<^verbatim>\<open>algorithm_analysis\<close> in the content of a security report.\<close>

record security_analysis =
  sa_algorithm :: algorithm
  total_tests :: nat
  successful_tests :: nat
  success_rate :: number
  security_level :: string
  security_notes :: "string list"
  sa_quantum_safe :: bool

text \<open>The content of a security report: the overview, the analysis of every algorithm
  and the number of algorithms at each level.\<close>

record report_content =
  total_algorithms_analyzed :: nat
  classical_algorithms_count :: nat
  post_quantum_algorithms_count :: nat
  quantum_readiness_score :: number
  algorithm_analysis :: "security_analysis list"
  security_distribution :: "(string \<times> nat) list"

record report =
  report_id :: nat
  report_user_id :: nat
  title :: string
  report_type :: string
  content :: report_content
  algorithms_tested :: "nat list"
  summary :: string
  recommendations :: string

text \<open>The reports table holds the security reports only: the other two kinds of report
  are not modelled.\<close>

record database =
  algorithms :: "algorithm list"
  tests :: "test list"
  reports :: "report list"

text \<open>\<^verbatim>\<open>Algorithm.query.get(id)\<close>: the row with that primary key, or None.\<close>

definition algorithm_get :: "database \<Rightarrow> nat \<Rightarrow> algorithm option" where
  "algorithm_get db i = find (\<lambda>a. alg_id a = i) (algorithms db)"

text \<open>An integer primary key: a new row gets the largest id in the table plus one.\<close>

definition next_id :: "nat list \<Rightarrow> nat" where
  "next_id ids = fold max ids 0 + 1"

definition add_algorithm :: "algorithm \<Rightarrow> database \<Rightarrow> database" where
  "add_algorithm a db =
     db\<lparr>algorithms := algorithms db @ [a\<lparr>alg_id := next_id (map alg_id (algorithms db))\<rparr>]\<rparr>"

definition add_test :: "test \<Rightarrow> database \<Rightarrow> test \<times> database" where
  "add_test t db =
     (let t' = t\<lparr>test_id := next_id (map test_id (tests db))\<rparr>
      in (t', db\<lparr>tests := tests db @ [t']\<rparr>))"

definition add_report :: "report \<Rightarrow> database \<Rightarrow> report \<times> database" where
  "add_report r db =
     (let r' = r\<lparr>report_id := next_id (map report_id (reports db))\<rparr>
      in (r', db\<lparr>reports := reports db @ [r']\<rparr>))"

text \<open>\<^verbatim>\<open>db.session.delete(test)\<close>: the row with the primary key of \<open>t\<close> goes.\<close>

definition delete_test :: "test \<Rightarrow> database \<Rightarrow> database" where
  "delete_test t db = db\<lparr>tests := filter (\<lambda>r. test_id r \<noteq> test_id t) (tests db)\<rparr>"

text \<open>The primary-key constraint of the tests table.\<close>

definition tests_keyed :: "database \<Rightarrow> bool" where
  "tests_keyed db = distinct (map test_id (tests db))"

section \<open>Seeding the catalogue (routes/algorithms.py, init_db.py)\<close>

text \<open>A seed literal: the keyword arguments of \<^verbatim>\<open>Algorithm(**algo_data)\<close>; the id is
  assigned on insertion.\<close>

definition seed :: "string \<Rightarrow> string \<Rightarrow> string \<Rightarrow> int \<Rightarrow> string \<Rightarrow> bool \<Rightarrow> algorithm" where
  "seed n t c k d q =
     \<lparr>alg_id = 0, alg_name = n, alg_type = t, category = c, key_size = k,
      description = d, quantum_safe = q\<rparr>"

definition classical_algorithms :: "algorithm list" where
  "classical_algorithms =
    [seed ''RSA-2048'' ''classical'' ''RSA'' 2048 ''RSA encryption with 2048-bit key'' False,
     seed ''RSA-4096'' ''classical'' ''RSA'' 4096 ''RSA encryption with 4096-bit key'' False,
     seed ''ECC-P256'' ''classical'' ''ECC'' 256
       ''Elliptic Curve Cryptography with P-256 curve'' False,
     seed ''ECC-P384'' ''classical'' ''ECC'' 384
       ''Elliptic Curve Cryptography with P-384 curve'' False,
     seed ''AES-128'' ''classical'' ''AES'' 128
       ''Advanced Encryption Standard with 128-bit key'' False,
     seed ''AES-256'' ''classical'' ''AES'' 256
       ''Advanced Encryption Standard with 256-bit key'' False]"

definition post_quantum_algorithms :: "algorithm list" where
  "post_quantum_algorithms =
    [seed ''Kyber-512'' ''post-quantum'' ''Kyber'' 512
       ''CRYSTALS-Kyber with security level 1'' True,
     seed ''Kyber-768'' ''post-quantum'' ''Kyber'' 768
       ''CRYSTALS-Kyber with security level 3'' True,
     seed ''Kyber-1024'' ''post-quantum'' ''Kyber'' 1024
       ''CRYSTALS-Kyber with security level 5'' True,
     seed ''Dilithium-2'' ''post-quantum'' ''Dilithium'' 2
       ''CRYSTALS-Dilithium with security level 2'' True,
     seed ''Dilithium-3'' ''post-quantum'' ''Dilithium'' 3
       ''CRYSTALS-Dilithium with security level 3'' True,
     seed ''Falcon-512'' ''post-quantum'' ''Falcon'' 512
       ''Falcon signature scheme with 512-bit security'' True,
     seed ''Falcon-1024'' ''post-quantum'' ''Falcon'' 1024
       ''Falcon signature scheme with 1024-bit security'' True]"

definition all_algorithms :: "algorithm list" where
  "all_algorithms = classical_algorithms @ post_quantum_algorithms"

text \<open>The response of the seed route: the status code and what the body reports.\<close>

datatype seed_response =
  Already_seeded  \<comment> \<open>200, message "Algorithms already seeded", no count in the body\<close>
| Seeded nat nat nat  \<comment> \<open>201: the numbers seeded in all, classical, post-quantum\<close>

definition seed_algorithms :: "database \<Rightarrow> seed_response \<times> database" where
  "seed_algorithms db =
     (if length (algorithms db) > 0 then (Already_seeded, db)
      else (Seeded (length all_algorithms) (length classical_algorithms)
              (length post_quantum_algorithms),
            fold add_algorithm all_algorithms db))"

text \<open>\<^verbatim>\<open>init_database\<close> of init_db.py: the same list and the same guard; it prints
  and returns nothing, so the model returns the database only.\<close>

definition init_database :: "database \<Rightarrow> database" where
  "init_database db =
     (if length (algorithms db) > 0 then db else fold add_algorithm all_algorithms db)"

text \<open>The number of catalogue rows of a family.\<close>

definition family_count :: "string \<Rightarrow> database \<Rightarrow> nat" where
  "family_count c db = length (filter (\<lambda>a. category a = c) (algorithms db))"

section \<open>Bulk deletion of tests (routes/tests.py)\<close>

datatype bulk_delete_response =
  No_test_ids  \<comment> \<open>400, "No test IDs provided"\<close>
| Not_found_or_denied  \<comment> \<open>404, "Some tests not found or access denied"\<close>
| Deleted nat  \<comment> \<open>200, \<^verbatim>\<open>deleted_count\<close>\<close>

definition bulk_delete_tests ::
  "database \<Rightarrow> nat \<Rightarrow> nat list \<Rightarrow> bulk_delete_response \<times> database" where
  "bulk_delete_tests db current_user_id test_ids =
     (if test_ids = [] then (No_test_ids, db)
      else
        let found = filter (\<lambda>t. test_id t \<in> set test_ids \<and> user_id t = current_user_id)
                      (tests db)
        in if length found \<noteq> length test_ids then (Not_found_or_denied, db)
           else (Deleted (length found), fold delete_test found db))"

text \<open>An id resolves for a user when a test with that id exists and is theirs.\<close>

definition resolves :: "database \<Rightarrow> nat \<Rightarrow> nat \<Rightarrow> bool" where
  "resolves db u i = (\<exists>t \<in> set (tests db). test_id t = i \<and> user_id t = u)"


subsection \<open>Example databases\<close>

definition empty_db :: database where
  "empty_db = \<lparr>algorithms = [], tests = [], reports = []\<rparr>"

definition two_tests_db :: database where
  "two_tests_db =
     \<lparr>algorithms = [],
      tests = [\<lparr>test_id = 1, user_id = 7, algorithm_id = 1, test_type = ''encryption'',
                 input_data = JString ''a'', output_data = None, execution_time = 0, success = False,
                 error_message = None, metadata_key_size = 128,
                 metadata_algorithm_type = ''classical''\<rparr>,
               \<lparr>test_id = 2, user_id = 8, algorithm_id = 1, test_type = ''encryption'',
                 input_data = JString ''b'', output_data = None, execution_time = 0, success = False,
                 error_message = None, metadata_key_size = 128,
                 metadata_algorithm_type = ''classical''\<rparr>],
      reports = []\<rparr>"


text \<open>The seeded catalogue, with the two tests above (of the users 7 and 8).\<close>

definition seeded_db :: database where
  "seeded_db = (snd (seed_algorithms empty_db))\<lparr>tests := tests two_tests_db\<rparr>"

section \<open>The Python values and library calls that crypto_implementations.py uses\<close>

type_synonym byte = "8 word"
type_synonym bytes = "byte list"

text \<open>
  An exception is modelled by its message, \<^verbatim>\<open>str(e)\<close>: the only thing the program
  does with a caught exception is to put its message into a new one or into a record.
  A call that may raise returns \<open>string + 'a\<close>, with \<open>Inl\<close> for the message.
\<close>

type_synonym 'a raising = "string + 'a"

definition bind :: "'a raising \<Rightarrow> ('a \<Rightarrow> 'b raising) \<Rightarrow> 'b raising" where
  "bind r f = (case r of Inl e \<Rightarrow> Inl e | Inr x \<Rightarrow> f x)"

text \<open>\<^verbatim>\<open>try: ... except Exception as e: raise Exception(f"<prefix>{str(e)}")\<close>\<close>

definition reraise :: "string \<Rightarrow> 'a raising \<Rightarrow> 'a raising" where
  "reraise msg r = (case r of Inl e \<Rightarrow> Inl (msg @ e) | Inr x \<Rightarrow> Inr x)"

subsection \<open>Randomness and time\<close>

text \<open>
  The outside world of a run: the randomness of the operating system, as a sequence of
  independent sources (each call that draws random bytes takes the next source, itself an
  unbounded sequence of bytes), and the successive readings of \<^verbatim>\<open>time.time()\<close>.
\<close>

type_synonym entropy = "nat \<Rightarrow> byte"

record world =
  sources :: "nat \<Rightarrow> entropy"
  clock :: "nat \<Rightarrow> rat"

definition fresh_entropy :: "world \<Rightarrow> entropy \<times> world" where
  "fresh_entropy w = (sources w 0, w\<lparr>sources := (\<lambda>i. sources w (Suc i))\<rparr>)"

definition time_time :: "world \<Rightarrow> rat \<times> world" where
  "time_time w = (clock w 0, w\<lparr>clock := (\<lambda>i. clock w (Suc i))\<rparr>)"

text \<open>\<^verbatim>\<open>get_random_bytes(n)\<close> and \<^verbatim>\<open>os.urandom(n)\<close>: \<open>n\<close> bytes of a fresh source; a
  negative \<open>n\<close> raises.\<close>

definition get_random_bytes :: "int \<Rightarrow> world \<Rightarrow> bytes raising \<times> world" where
  "get_random_bytes n w =
     (if n < 0 then (Inl ''negative argument not allowed'', w)
      else let (e, w') = fresh_entropy w in (Inr (map e [0..<nat n]), w'))"

subsection \<open>JSON values\<close>

text \<open>The name of the Python type of a decoded JSON value, as error messages show it.\<close>

fun type_name :: "json \<Rightarrow> string" where
  "type_name JNull = ''NoneType''"
| "type_name (JBool _) = ''bool''"
| "type_name (JInt _) = ''int''"
| "type_name (JFloat _) = ''float''"
| "type_name (JString _) = ''str''"
| "type_name (JArray _) = ''list''"
| "type_name (JObject _) = ''dict''"

text \<open>\<^verbatim>\<open>key in data\<close> for a string key: membership among the keys of a dict, among the
  elements of a list, substring of a string; a TypeError for every other value.\<close>

fun py_in :: "string \<Rightarrow> json \<Rightarrow> bool raising" where
  "py_in k (JObject kvs) = Inr (k \<in> set (map fst kvs))"
| "py_in k (JArray xs) = Inr (JString k \<in> set xs)"
| "py_in k (JString s) = Inr (sublist k s)"
| "py_in k v = Inl (''argument of type '' @ [CHR 0x27] @ type_name v @ [CHR 0x27] @ '' is not iterable'')"

text \<open>\<^verbatim>\<open>data[key]\<close> for a string key: the member of a dict (a KeyError, whose message
  is the quoted key, when it is missing); a TypeError for every other value, with the
  messages of Python 3.11.\<close>

fun py_getitem :: "json \<Rightarrow> string \<Rightarrow> json raising" where
  "py_getitem (JObject kvs) k =
     (case map_of kvs k of
        None \<Rightarrow> Inl ([CHR 0x27] @ k @ [CHR 0x27])
      | Some v \<Rightarrow> Inr v)"
| "py_getitem (JArray xs) k = Inl ''list indices must be integers or slices, not str''"
| "py_getitem (JString s) k =
     Inl (''string indices must be integers, not '' @ [CHR 0x27] @ ''str'' @ [CHR 0x27])"
| "py_getitem v k = Inl ([CHR 0x27] @ type_name v @ [CHR 0x27] @ '' object is not subscriptable'')"

text \<open>The dict that a route or a method returns with string and integer members.\<close>

datatype pyval = PStr string | PInt int

subsection \<open>The libraries\<close>

text \<open>
  The calls into \<^verbatim>\<open>cryptography\<close>, \<^verbatim>\<open>Crypto\<close> (PyCryptodome), \<^verbatim>\<open>base64\<close>, \<^verbatim>\<open>json\<close>
  and the \<^verbatim>\<open>str\<close>/\<^verbatim>\<open>bytes\<close> codecs are parameters of the model. Key objects are opaque:
  the model holds them as the byte strings the library would serialise them to.
  A call that consumes randomness takes the source it reads. The messages of the
  exceptions that the libraries, the interpreter and the database session raise on a
  value they refuse are parameters too, where the source does not fix them.
\<close>

datatype curve = SECP256R1 | SECP384R1 | SECP521R1

record lib =
  utf8_encode :: "string \<Rightarrow> bytes"  \<comment> \<open>\<^verbatim>\<open>s.encode("utf-8")\<close>\<close>
  utf8_decode :: "bytes \<Rightarrow> string raising"  \<comment> \<open>\<^verbatim>\<open>b.decode("utf-8")\<close>\<close>
  b64encode :: "bytes \<Rightarrow> string"  \<comment> \<open>\<^verbatim>\<open>base64.b64encode(b).decode("utf-8")\<close>\<close>
  b64decode :: "string \<Rightarrow> bytes raising"  \<comment> \<open>\<^verbatim>\<open>base64.b64decode(s)\<close> of a str\<close>
  b64decode_bytes :: "bytes \<Rightarrow> bytes raising"  \<comment> \<open>\<^verbatim>\<open>base64.b64decode(b)\<close> of bytes\<close>
  json_dumps :: "(string \<times> string) list \<Rightarrow> string"
    \<comment> \<open>\<^verbatim>\<open>json.dumps(d)\<close> of a dict literal with string members, in their order\<close>
  json_loads :: "string \<Rightarrow> json raising"
  sha256 :: "bytes \<Rightarrow> bytes"  \<comment> \<open>the SHA-256 digest of the bytes fed to the hash\<close>
  aes_encrypt_block :: "bytes \<Rightarrow> bytes \<Rightarrow> bytes"  \<comment> \<open>key, 16-byte block\<close>
  aes_decrypt_block :: "bytes \<Rightarrow> bytes \<Rightarrow> bytes"
  rsa_generate_private_key :: "int \<Rightarrow> entropy \<Rightarrow> bytes raising"
    \<comment> \<open>\<^verbatim>\<open>rsa.generate_private_key(public_exponent=65537, key_size=...)\<close>\<close>
  rsa_public_key :: "bytes \<Rightarrow> bytes"
  rsa_private_pem :: "bytes \<Rightarrow> bytes"
  rsa_public_pem :: "bytes \<Rightarrow> bytes"
  rsa_oaep_encrypt :: "bytes \<Rightarrow> bytes \<Rightarrow> entropy \<Rightarrow> bytes raising"
    \<comment> \<open>public key, plaintext; OAEP with MGF1-SHA256 and SHA-256\<close>
  rsa_oaep_decrypt :: "bytes \<Rightarrow> bytes \<Rightarrow> bytes raising"
  ec_generate_private_key :: "curve \<Rightarrow> entropy \<Rightarrow> bytes"
  ec_public_key :: "bytes \<Rightarrow> bytes"
  ec_private_pem :: "bytes \<Rightarrow> bytes"
  ec_public_pem :: "bytes \<Rightarrow> bytes"
  load_pem_public_key :: "bytes \<Rightarrow> bytes raising"
  ec_exchange :: "bytes \<Rightarrow> bytes \<Rightarrow> bytes raising"  \<comment> \<open>ECDH: private key, peer public key\<close>
  ecdsa_sign :: "bytes \<Rightarrow> bytes \<Rightarrow> entropy \<Rightarrow> bytes"  \<comment> \<open>ECDSA over SHA-256\<close>
  ecdsa_verify :: "bytes \<Rightarrow> bytes \<Rightarrow> bytes \<Rightarrow> bool"  \<comment> \<open>public key, signature, message\<close>
  utf8_encode_error :: "string \<Rightarrow> string option"
    \<comment> \<open>the message of the UnicodeEncodeError of \<^verbatim>\<open>s.encode("utf-8")\<close> on a str
       with a lone surrogate; None when the str encodes, to \<open>utf8_encode\<close> of it\<close>
  rsa_encrypt_type_error :: "json \<Rightarrow> string"
    \<comment> \<open>the message of the TypeError of \<^verbatim>\<open>public_key.encrypt\<close> on a plaintext that is
       not bytes\<close>
  ecdsa_sign_type_error :: "json \<Rightarrow> string"
    \<comment> \<open>the message of the TypeError of \<^verbatim>\<open>private_key.sign\<close> on data that is not bytes\<close>
  py_repr :: "json \<Rightarrow> string"  \<comment> \<open>\<^verbatim>\<open>str(v)\<close> of a float, a list or a dict\<close>
  sqlite_bind_error :: "json \<Rightarrow> string option"
    \<comment> \<open>the message of the exception of \<^verbatim>\<open>db.session.commit()\<close> when the driver
       refuses to bind the value to a text column (a list, a dict, a str that it cannot
       encode, an int beyond 64 bits); None when it binds it\<close>
  pending_rollback_error :: "string \<Rightarrow> string"
    \<comment> \<open>the message of the exception of a second \<^verbatim>\<open>commit\<close> on the session after
       a commit that failed with the given message and no rollback\<close>

text \<open>\<^verbatim>\<open>base64.b64decode(v)\<close> of a decoded JSON member: only a str is accepted.\<close>

definition b64decode_json :: "lib \<Rightarrow> json \<Rightarrow> bytes raising" where
  "b64decode_json L v =
     (case v of
        JString s \<Rightarrow> b64decode L s
      | _ \<Rightarrow> Inl (''argument should be a bytes-like object or ASCII string, not ''
                 @ [CHR 0x27] @ type_name v @ [CHR 0x27]))"

subsection \<open>Instances\<close>

text \<open>
  The attributes of a \<^verbatim>\<open>CryptoBase\<close> object. \<^verbatim>\<open>key\<close> exists on an \<^verbatim>\<open>AESCrypto\<close>
  object only after it has been set (\<^verbatim>\<open>hasattr(self, "key")\<close>).
\<close>

record crypto_base =
  inst_key_size :: int
  public_key :: "bytes option"
  private_key :: "bytes option"
  key :: "bytes option"

definition new_instance :: "int \<Rightarrow> crypto_base" where
  "new_instance ks = \<lparr>inst_key_size = ks, public_key = None, private_key = None, key = None\<rparr>"

text \<open>\<^verbatim>\<open>not self.public_key\<close> where the attribute is None or a bytes object: true for
  None and for the empty bytes. (A key object of \<^verbatim>\<open>cryptography\<close> is always true.)\<close>

definition not_bytes :: "bytes option \<Rightarrow> bool" where
  "not_bytes k = (k = None \<or> k = Some [])"


subsection \<open>Decimal numerals in messages\<close>

definition digit :: "nat \<Rightarrow> char" where
  "digit d = char_of (48 + d)"

function show_nat :: "nat \<Rightarrow> string" where
  "show_nat n = (if n < 10 then [digit n] else show_nat (n div 10) @ [digit (n mod 10)])"
  by pat_completeness auto
termination
  by (relation "measure id") auto

definition show_int :: "int \<Rightarrow> string" where
  "show_int i = (if i < 0 then CHR ''-'' # show_nat (nat (- i)) else show_nat (nat i))"

section \<open>RSACrypto\<close>

definition RSA_generate_keys ::
  "lib \<Rightarrow> crypto_base \<Rightarrow> world \<Rightarrow> (string \<times> pyval) list raising \<times> crypto_base \<times> world" where
  "RSA_generate_keys L s w =
     (let (e, w') = fresh_entropy w in
      case rsa_generate_private_key L (inst_key_size s) e of
        Inl m \<Rightarrow> (Inl (''RSA key generation failed: '' @ m), s, w')
      | Inr sk \<Rightarrow>
          (Inr [(''public_key'', PStr (b64encode L (rsa_public_pem L (rsa_public_key L sk)))),
                (''private_key'', PStr (b64encode L (rsa_private_pem L sk))),
                (''key_size'', PInt (inst_key_size s))],
           s\<lparr>private_key := Some sk, public_key := Some (rsa_public_key L sk)\<rparr>, w'))"

text \<open>\<^verbatim>\<open>if not self.public_key: self.generate_keys()\<close>, then the read of
  \<^verbatim>\<open>self.public_key\<close>.\<close>

definition RSA_ensure_public_key ::
  "lib \<Rightarrow> crypto_base \<Rightarrow> world \<Rightarrow> bytes raising \<times> crypto_base \<times> world" where
  "RSA_ensure_public_key L s w =
     (case public_key s of
        Some pk \<Rightarrow> (Inr pk, s, w)
      | None \<Rightarrow>
          (case RSA_generate_keys L s w of
             (Inl m, s', w') \<Rightarrow> (Inl m, s', w')
           | (Inr _, s', w') \<Rightarrow>
               (case public_key s' of
                  Some pk \<Rightarrow> (Inr pk, s', w')
                | None \<Rightarrow> (Inl (''NoneType object has no attribute encrypt''), s', w'))))"

definition RSA_encrypt ::
  "lib \<Rightarrow> crypto_base \<Rightarrow> string \<Rightarrow> world \<Rightarrow> string raising \<times> crypto_base \<times> world" where
  "RSA_encrypt L s plaintext w =
     (case RSA_ensure_public_key L s w of
        (Inl m, s1, w1) \<Rightarrow> (Inl (''RSA encryption failed: '' @ m), s1, w1)
      | (Inr pk, s1, w1) \<Rightarrow>
          (let (e, w2) = fresh_entropy w1 in
           (reraise ''RSA encryption failed: ''
              (bind (rsa_oaep_encrypt L pk (utf8_encode L plaintext) e)
                 (\<lambda>ciphertext. Inr (b64encode L ciphertext))),
            s1, w2)))"

definition RSA_decrypt :: "lib \<Rightarrow> crypto_base \<Rightarrow> string \<Rightarrow> string raising" where
  "RSA_decrypt L s ciphertext =
     reraise ''RSA decryption failed: ''
       (case private_key s of
          None \<Rightarrow> Inl ''Private key not available for decryption''
        | Some sk \<Rightarrow>
            bind (b64decode_bytes L (utf8_encode L ciphertext)) (\<lambda>ciphertext_bytes.
            bind (rsa_oaep_decrypt L sk ciphertext_bytes) (\<lambda>plaintext.
            utf8_decode L plaintext)))"

section \<open>Block padding and CBC mode\<close>

text \<open>\<^verbatim>\<open>Crypto.Util.Padding.pad\<close> and \<^verbatim>\<open>unpad\<close> with the default style, PKCS#7.\<close>

definition pad :: "bytes \<Rightarrow> nat \<Rightarrow> bytes" where
  "pad data_to_pad block_size =
     (let padding_len = block_size - length data_to_pad mod block_size
      in data_to_pad @ replicate padding_len (of_nat padding_len))"

definition unpad :: "bytes \<Rightarrow> nat \<Rightarrow> bytes raising" where
  "unpad padded_data block_size =
     (let pdata_len = length padded_data in
      if pdata_len = 0 then Inl ''Zero-length input cannot be unpadded''
      else if pdata_len mod block_size \<noteq> 0 then Inl ''Input data is not padded''
      else
        let padding_len = unat (last padded_data) in
        if padding_len < 1 \<or> padding_len > min block_size pdata_len
        then Inl ''Padding is incorrect.''
        else if drop (pdata_len - padding_len) padded_data
                  \<noteq> replicate padding_len (of_nat padding_len)
        then Inl ''PKCS#7 padding is incorrect.''
        else Inr (take (pdata_len - padding_len) padded_data))"

definition xor_bytes :: "bytes \<Rightarrow> bytes \<Rightarrow> bytes" where
  "xor_bytes a b = map2 (\<lambda>x y. xor x y) a b"

function split_blocks :: "bytes \<Rightarrow> bytes list" where
  "split_blocks xs = (if xs = [] then [] else take 16 xs # split_blocks (drop 16 xs))"
  by pat_completeness auto
termination
  by (relation "measure length") auto

fun cbc_encrypt_blocks :: "lib \<Rightarrow> bytes \<Rightarrow> bytes \<Rightarrow> bytes list \<Rightarrow> bytes" where
  "cbc_encrypt_blocks L k prev [] = []"
| "cbc_encrypt_blocks L k prev (p # ps) =
     (let c = aes_encrypt_block L k (xor_bytes p prev) in c @ cbc_encrypt_blocks L k c ps)"

fun cbc_decrypt_blocks :: "lib \<Rightarrow> bytes \<Rightarrow> bytes \<Rightarrow> bytes list \<Rightarrow> bytes" where
  "cbc_decrypt_blocks L k prev [] = []"
| "cbc_decrypt_blocks L k prev (c # cs) =
     xor_bytes (aes_decrypt_block L k c) prev @ cbc_decrypt_blocks L k c cs"

text \<open>\<^verbatim>\<open>CryptoAES.new(key, CryptoAES.MODE_CBC, iv)\<close>: the checks of the constructor.\<close>

definition CryptoAES_new :: "bytes \<Rightarrow> bytes \<Rightarrow> unit raising" where
  "CryptoAES_new k iv =
     (if length k \<notin> {16, 24, 32}
      then Inl (''Incorrect AES key length ('' @ show_nat (length k) @ '' bytes)'')
      else if length iv \<noteq> 16 then Inl ''Incorrect IV length (it must be 16 bytes long)''
      else Inr ())"

text \<open>\<^verbatim>\<open>cipher.encrypt(data)\<close> and \<^verbatim>\<open>cipher.decrypt(data)\<close> of a CBC cipher object.\<close>

definition CryptoAES_encrypt :: "lib \<Rightarrow> bytes \<Rightarrow> bytes \<Rightarrow> bytes \<Rightarrow> bytes raising" where
  "CryptoAES_encrypt L k iv data =
     (if length data mod 16 \<noteq> 0
      then Inl ''Data must be padded to 16 byte boundary in CBC mode''
      else Inr (cbc_encrypt_blocks L k iv (split_blocks data)))"

definition CryptoAES_decrypt :: "lib \<Rightarrow> bytes \<Rightarrow> bytes \<Rightarrow> bytes \<Rightarrow> bytes raising" where
  "CryptoAES_decrypt L k iv data =
     (if length data mod 16 \<noteq> 0
      then Inl ''Data must be padded to 16 byte boundary in CBC mode''
      else Inr (cbc_decrypt_blocks L k iv (split_blocks data)))"

section \<open>AESCrypto\<close>

definition AES_generate_keys ::
  "lib \<Rightarrow> crypto_base \<Rightarrow> world \<Rightarrow> (string \<times> pyval) list raising \<times> crypto_base \<times> world" where
  "AES_generate_keys L s w =
     (case get_random_bytes (inst_key_size s div 8) w of
        (Inl m, w') \<Rightarrow> (Inl (''AES key generation failed: '' @ m), s, w')
      | (Inr k, w') \<Rightarrow>
          (Inr [(''key'', PStr (b64encode L k)), (''key_size'', PInt (inst_key_size s))],
           s\<lparr>key := Some k\<rparr>, w'))"

text \<open>\<^verbatim>\<open>if not hasattr(self, "key"): self.generate_keys()\<close>, then the read of
  \<^verbatim>\<open>self.key\<close>.\<close>

definition AES_ensure_key ::
  "lib \<Rightarrow> crypto_base \<Rightarrow> world \<Rightarrow> bytes raising \<times> crypto_base \<times> world" where
  "AES_ensure_key L s w =
     (case key s of
        Some k \<Rightarrow> (Inr k, s, w)
      | None \<Rightarrow>
          (case AES_generate_keys L s w of
             (Inl m, s', w') \<Rightarrow> (Inl m, s', w')
           | (Inr _, s', w') \<Rightarrow>
               (case key s' of
                  Some k \<Rightarrow> (Inr k, s', w')
                | None \<Rightarrow> (Inl ''AESCrypto object has no attribute key'', s', w'))))"

definition AES_encrypt ::
  "lib \<Rightarrow> crypto_base \<Rightarrow> string \<Rightarrow> world \<Rightarrow> string raising \<times> crypto_base \<times> world" where
  "AES_encrypt L s plaintext w =
     (case AES_ensure_key L s w of
        (Inl m, s1, w1) \<Rightarrow> (Inl (''AES encryption failed: '' @ m), s1, w1)
      | (Inr k, s1, w1) \<Rightarrow>
          (case get_random_bytes 16 w1 of
             (Inl m, w2) \<Rightarrow> (Inl (''AES encryption failed: '' @ m), s1, w2)
           | (Inr iv, w2) \<Rightarrow>
               (reraise ''AES encryption failed: ''
                  (bind (CryptoAES_new k iv) (\<lambda>_.
                   bind (CryptoAES_encrypt L k iv (pad (utf8_encode L plaintext) 16))
                     (\<lambda>ciphertext.
                   Inr (json_dumps L [(''ciphertext'', b64encode L ciphertext),
                                      (''iv'', b64encode L iv)])))),
                s1, w2)))"

definition AES_decrypt :: "lib \<Rightarrow> crypto_base \<Rightarrow> string \<Rightarrow> string raising" where
  "AES_decrypt L s encrypted_data =
     reraise ''AES decryption failed: ''
       (case key s of
          None \<Rightarrow> Inl ''AES key not available for decryption''
        | Some k \<Rightarrow>
            bind (json_loads L encrypted_data) (\<lambda>data.
            bind (py_getitem data ''ciphertext'') (\<lambda>c64.
            bind (b64decode_json L c64) (\<lambda>ciphertext.
            bind (py_getitem data ''iv'') (\<lambda>iv64.
            bind (b64decode_json L iv64) (\<lambda>iv.
            bind (CryptoAES_new k iv) (\<lambda>_.
            bind (CryptoAES_decrypt L k iv ciphertext) (\<lambda>padded_plaintext.
            bind (unpad padded_plaintext 16) (\<lambda>plaintext.
            utf8_decode L plaintext)))))))))"


section \<open>ECCCrypto\<close>

definition curve_map_get :: "int \<Rightarrow> curve" where
  "curve_map_get ks =
     (if ks = 256 then SECP256R1 else if ks = 384 then SECP384R1
      else if ks = 521 then SECP521R1 else SECP256R1)"

fun curve_name :: "curve \<Rightarrow> string" where
  "curve_name SECP256R1 = ''secp256r1''"
| "curve_name SECP384R1 = ''secp384r1''"
| "curve_name SECP521R1 = ''secp521r1''"

definition ECC_generate_keys ::
  "lib \<Rightarrow> crypto_base \<Rightarrow> world \<Rightarrow> (string \<times> pyval) list raising \<times> crypto_base \<times> world" where
  "ECC_generate_keys L s w =
     (let (e, w') = fresh_entropy w;
          sk = ec_generate_private_key L (curve_map_get (inst_key_size s)) e;
          pk = ec_public_key L sk
      in (Inr [(''public_key'', PStr (b64encode L (ec_public_pem L pk))),
               (''private_key'', PStr (b64encode L (ec_private_pem L sk))),
               (''curve'', PStr (curve_name (curve_map_get (inst_key_size s)))),
               (''key_size'', PInt (inst_key_size s))],
          s\<lparr>private_key := Some sk, public_key := Some pk\<rparr>, w'))"

text \<open>\<^verbatim>\<open>if not self.private_key: self.generate_keys()\<close> of \<^verbatim>\<open>sign\<close>, and
  \<^verbatim>\<open>if not self.public_key: self.generate_keys()\<close> of \<^verbatim>\<open>encrypt\<close>, each with the
  read of the attribute that follows.\<close>

definition ECC_ensure_private_key ::
  "lib \<Rightarrow> crypto_base \<Rightarrow> world \<Rightarrow> bytes raising \<times> crypto_base \<times> world" where
  "ECC_ensure_private_key L s w =
     (case private_key s of
        Some sk \<Rightarrow> (Inr sk, s, w)
      | None \<Rightarrow>
          (case ECC_generate_keys L s w of
             (Inl m, s', w') \<Rightarrow> (Inl m, s', w')
           | (Inr _, s', w') \<Rightarrow>
               (case private_key s' of
                  Some sk \<Rightarrow> (Inr sk, s', w')
                | None \<Rightarrow> (Inl ''NoneType object has no attribute sign'', s', w'))))"

definition ECC_ensure_public_key ::
  "lib \<Rightarrow> crypto_base \<Rightarrow> world \<Rightarrow> bytes raising \<times> crypto_base \<times> world" where
  "ECC_ensure_public_key L s w =
     (case public_key s of
        Some pk \<Rightarrow> (Inr pk, s, w)
      | None \<Rightarrow>
          (case ECC_generate_keys L s w of
             (Inl m, s', w') \<Rightarrow> (Inl m, s', w')
           | (Inr _, s', w') \<Rightarrow>
               (case public_key s' of
                  Some pk \<Rightarrow> (Inr pk, s', w')
                | None \<Rightarrow> (Inl ''unsupported peer public key'', s', w'))))"

definition ECC_sign ::
  "lib \<Rightarrow> crypto_base \<Rightarrow> string \<Rightarrow> world \<Rightarrow> string raising \<times> crypto_base \<times> world" where
  "ECC_sign L s message w =
     (case ECC_ensure_private_key L s w of
        (Inl m, s1, w1) \<Rightarrow> (Inl (''ECC signing failed: '' @ m), s1, w1)
      | (Inr sk, s1, w1) \<Rightarrow>
          (let (e, w2) = fresh_entropy w1;
               signature = ecdsa_sign L sk (utf8_encode L message) e
           in (Inr (b64encode L signature), s1, w2)))"

definition ECC_verify :: "lib \<Rightarrow> crypto_base \<Rightarrow> string \<Rightarrow> string \<Rightarrow> bool raising" where
  "ECC_verify L s message signature =
     reraise ''ECC verification failed: ''
       (case public_key s of
          None \<Rightarrow> Inl ''Public key not available for verification''
        | Some pk \<Rightarrow>
            bind (b64decode_bytes L (utf8_encode L signature)) (\<lambda>signature_bytes.
            Inr (ecdsa_verify L pk signature_bytes (utf8_encode L message))))"

text \<open>\<^verbatim>\<open>Cipher(algorithms.AES(aes_key), modes.CBC(iv), ...)\<close> of \<^verbatim>\<open>cryptography\<close>:
  the checks of the constructors, with the sizes in bits and bytes as they report them.\<close>

definition hazmat_Cipher :: "bytes \<Rightarrow> bytes \<Rightarrow> unit raising" where
  "hazmat_Cipher k iv =
     (if length k \<notin> {16, 24, 32, 64}
      then Inl (''Invalid key size ('' @ show_nat (length k * 8) @ '') for AES.'')
      else if length iv \<noteq> 16
      then Inl (''Invalid IV size ('' @ show_nat (length iv) @ '') for CBC.'')
      else Inr ())"

text \<open>\<^verbatim>\<open>encryptor.update(data) + encryptor.finalize()\<close>, and the same of a decryptor:
  CBC without padding, so \<^verbatim>\<open>finalize\<close> raises on a partial last block.\<close>

definition hazmat_encrypt :: "lib \<Rightarrow> bytes \<Rightarrow> bytes \<Rightarrow> bytes \<Rightarrow> bytes raising" where
  "hazmat_encrypt L k iv data =
     (if length data mod 16 \<noteq> 0
      then Inl ''The length of the provided data is not a multiple of the block length.''
      else Inr (cbc_encrypt_blocks L k iv (split_blocks data)))"

definition hazmat_decrypt :: "lib \<Rightarrow> bytes \<Rightarrow> bytes \<Rightarrow> bytes \<Rightarrow> bytes raising" where
  "hazmat_decrypt L k iv data =
     (if length data mod 16 \<noteq> 0
      then Inl ''The length of the provided data is not a multiple of the block length.''
      else Inr (cbc_decrypt_blocks L k iv (split_blocks data)))"

text \<open>\<^verbatim>\<open>plaintext + b" " * (16 - len(plaintext) % 16)\<close> and \<^verbatim>\<open>rstrip(b" ")\<close>.\<close>

definition space_pad :: "bytes \<Rightarrow> bytes" where
  "space_pad plaintext = plaintext @ replicate (16 - length plaintext mod 16) 0x20"

definition rstrip_space :: "bytes \<Rightarrow> bytes" where
  "rstrip_space b = rev (dropWhile (\<lambda>x. x = 0x20) (rev b))"

definition ECC_encrypt ::
  "lib \<Rightarrow> crypto_base \<Rightarrow> string \<Rightarrow> world \<Rightarrow> string raising \<times> crypto_base \<times> world" where
  "ECC_encrypt L s plaintext w =
     (case ECC_ensure_public_key L s w of
        (Inl m, s1, w1) \<Rightarrow> (Inl (''ECC encryption failed: '' @ m), s1, w1)
      | (Inr pk, s1, w1) \<Rightarrow>
          (let (e, w2) = fresh_entropy w1;
               ephemeral_private_key =
                 ec_generate_private_key L (curve_map_get (inst_key_size s1)) e;
               ephemeral_public_key = ec_public_key L ephemeral_private_key
           in case ec_exchange L ephemeral_private_key pk of
                Inl m \<Rightarrow> (Inl (''ECC encryption failed: '' @ m), s1, w2)
              | Inr shared_key \<Rightarrow>
                  (let aes_key = take 32 (sha256 L shared_key) in
                   case get_random_bytes 16 w2 of
                     (Inl m, w3) \<Rightarrow> (Inl (''ECC encryption failed: '' @ m), s1, w3)
                   | (Inr iv, w3) \<Rightarrow>
                       (reraise ''ECC encryption failed: ''
                          (bind (hazmat_Cipher aes_key iv) (\<lambda>_.
                           bind (hazmat_encrypt L aes_key iv
                                   (space_pad (utf8_encode L plaintext))) (\<lambda>ciphertext.
                           Inr (json_dumps L
                                  [(''ciphertext'', b64encode L ciphertext),
                                   (''iv'', b64encode L iv),
                                   (''ephemeral_public_key'',
                                    b64encode L (ec_public_pem L ephemeral_public_key))])))),
                        s1, w3))))"

definition ECC_decrypt :: "lib \<Rightarrow> crypto_base \<Rightarrow> string \<Rightarrow> string raising" where
  "ECC_decrypt L s encrypted_data =
     reraise ''ECC decryption failed: ''
       (case private_key s of
          None \<Rightarrow> Inl ''Private key not available for decryption''
        | Some sk \<Rightarrow>
            bind (json_loads L encrypted_data) (\<lambda>data.
            bind (py_getitem data ''ciphertext'') (\<lambda>c64.
            bind (b64decode_json L c64) (\<lambda>ciphertext.
            bind (py_getitem data ''iv'') (\<lambda>iv64.
            bind (b64decode_json L iv64) (\<lambda>iv.
            bind (py_getitem data ''ephemeral_public_key'') (\<lambda>e64.
            bind (b64decode_json L e64) (\<lambda>ephemeral_public_pem.
            bind (load_pem_public_key L ephemeral_public_pem) (\<lambda>ephemeral_public_key.
            bind (ec_exchange L sk ephemeral_public_key) (\<lambda>shared_key.
            bind (hazmat_Cipher (take 32 (sha256 L shared_key)) iv) (\<lambda>_.
            bind (hazmat_decrypt L (take 32 (sha256 L shared_key)) iv ciphertext)
              (\<lambda>padded_plaintext.
            utf8_decode L (rstrip_space padded_plaintext)))))))))))))"

section \<open>KyberCrypto\<close>

definition Kyber_public_key_size :: "int \<Rightarrow> int" where
  "Kyber_public_key_size ks =
     (if ks = 512 then 800 else if ks = 768 then 1184 else if ks = 1024 then 1568 else 800)"

definition Kyber_private_key_size :: "int \<Rightarrow> int" where
  "Kyber_private_key_size ks =
     (if ks = 512 then 1632 else if ks = 768 then 2400 else if ks = 1024 then 3168 else 1632)"

text \<open>The result dict of the mock key generations: the two keys, the name of the
  algorithm, the security level and the two lengths.\<close>

definition mock_key_dict :: "lib \<Rightarrow> string \<Rightarrow> int \<Rightarrow> bytes \<Rightarrow> bytes \<Rightarrow> (string \<times> pyval) list" where
  "mock_key_dict L name ks pub priv =
     [(''public_key'', PStr (b64encode L pub)),
      (''private_key'', PStr (b64encode L priv)),
      (''algorithm'', PStr name),
      (''security_level'', PInt ks),
      (''public_key_size'', PInt (int (length pub))),
      (''private_key_size'', PInt (int (length priv)))]"

text \<open>The body shared by the three mock key generations: the public key, then the
  private key, each of random bytes of the given length.\<close>

definition mock_generate_keys ::
  "lib \<Rightarrow> string \<Rightarrow> int \<Rightarrow> int \<Rightarrow> crypto_base \<Rightarrow> world
   \<Rightarrow> (string \<times> pyval) list raising \<times> crypto_base \<times> world" where
  "mock_generate_keys L name public_size private_size s w =
     (case get_random_bytes public_size w of
        (Inl m, w1) \<Rightarrow> (Inl (name @ '' key generation failed: '' @ m), s, w1)
      | (Inr pub, w1) \<Rightarrow>
          (case get_random_bytes private_size w1 of
             (Inl m, w2) \<Rightarrow>
               (Inl (name @ '' key generation failed: '' @ m), s\<lparr>public_key := Some pub\<rparr>, w2)
           | (Inr priv, w2) \<Rightarrow>
               (Inr (mock_key_dict L name (inst_key_size s) pub priv),
                s\<lparr>public_key := Some pub, private_key := Some priv\<rparr>, w2)))"

definition Kyber_generate_keys ::
  "lib \<Rightarrow> crypto_base \<Rightarrow> world \<Rightarrow> (string \<times> pyval) list raising \<times> crypto_base \<times> world" where
  "Kyber_generate_keys L s w =
     mock_generate_keys L ''Kyber'' (Kyber_public_key_size (inst_key_size s))
       (Kyber_private_key_size (inst_key_size s)) s w"

text \<open>\<^verbatim>\<open>aes_crypto = AESCrypto(256); aes_crypto.key = shared_secret\<close>\<close>

definition AESCrypto_with_key :: "bytes \<Rightarrow> crypto_base" where
  "AESCrypto_with_key shared_secret = (new_instance 256)\<lparr>key := Some shared_secret\<rparr>"

definition Kyber_encrypt ::
  "lib \<Rightarrow> crypto_base \<Rightarrow> string \<Rightarrow> world \<Rightarrow> string raising \<times> crypto_base \<times> world" where
  "Kyber_encrypt L s plaintext w =
     (case (if not_bytes (public_key s) then Kyber_generate_keys L s w else (Inr [], s, w)) of
        (Inl m, s1, w1) \<Rightarrow> (Inl (''Kyber encryption failed: '' @ m), s1, w1)
      | (Inr _, s1, w1) \<Rightarrow>
          (case get_random_bytes 32 w1 of
             (Inl m, w2) \<Rightarrow> (Inl (''Kyber encryption failed: '' @ m), s1, w2)
           | (Inr shared_secret, w2) \<Rightarrow>
               (case AES_encrypt L (AESCrypto_with_key shared_secret) plaintext w2 of
                  (Inl m, _, w3) \<Rightarrow> (Inl (''Kyber encryption failed: '' @ m), s1, w3)
                | (Inr encrypted_message, _, w3) \<Rightarrow>
                    (case get_random_bytes 64 w3 of
                       (Inl m, w4) \<Rightarrow> (Inl (''Kyber encryption failed: '' @ m), s1, w4)
                     | (Inr encapsulated_secret, w4) \<Rightarrow>
                         (Inr (json_dumps L
                                 [(''encapsulated_secret'', b64encode L encapsulated_secret),
                                  (''encrypted_message'', encrypted_message),
                                  (''algorithm'', ''Kyber'')]),
                          s1, w4)))))"

text \<open>\<^verbatim>\<open>aes_crypto.decrypt(encrypted_message)\<close> on a member of the decoded envelope:
  \<^verbatim>\<open>json.loads\<close> inside it accepts a str only.\<close>

definition AES_decrypt_json :: "lib \<Rightarrow> crypto_base \<Rightarrow> json \<Rightarrow> string raising" where
  "AES_decrypt_json L s v =
     (case v of
        JString encrypted_data \<Rightarrow> AES_decrypt L s encrypted_data
      | _ \<Rightarrow> Inl (''AES decryption failed: the JSON object must be str, bytes or bytearray, not ''
                 @ type_name v))"

definition Kyber_decrypt ::
  "lib \<Rightarrow> crypto_base \<Rightarrow> string \<Rightarrow> world \<Rightarrow> string raising \<times> world" where
  "Kyber_decrypt L s encrypted_data w =
     (if not_bytes (private_key s)
      then (Inl ''Kyber decryption failed: Private key not available for decryption'', w)
      else
        case bind (json_loads L encrypted_data) (\<lambda>data.
             bind (py_getitem data ''encapsulated_secret'') (\<lambda>e64.
             bind (b64decode_json L e64) (\<lambda>encapsulated_secret.
             py_getitem data ''encrypted_message''))) of
          Inl m \<Rightarrow> (Inl (''Kyber decryption failed: '' @ m), w)
        | Inr encrypted_message \<Rightarrow>
            (case get_random_bytes 32 w of
               (Inl m, w1) \<Rightarrow> (Inl (''Kyber decryption failed: '' @ m), w1)
             | (Inr shared_secret, w1) \<Rightarrow>
                 (reraise ''Kyber decryption failed: ''
                    (AES_decrypt_json L (AESCrypto_with_key shared_secret) encrypted_message),
                  w1)))"

section \<open>DilithiumCrypto and FalconCrypto\<close>

definition Dilithium_key_sizes :: "int \<Rightarrow> int \<times> int" where
  "Dilithium_key_sizes ks =
     (if ks = 2 then (1312, 2528) else if ks = 3 then (1952, 4000)
      else if ks = 5 then (2592, 4864) else (1312, 2528))"

definition Dilithium_generate_keys ::
  "lib \<Rightarrow> crypto_base \<Rightarrow> world \<Rightarrow> (string \<times> pyval) list raising \<times> crypto_base \<times> world" where
  "Dilithium_generate_keys L s w =
     mock_generate_keys L ''Dilithium'' (fst (Dilithium_key_sizes (inst_key_size s)))
       (snd (Dilithium_key_sizes (inst_key_size s))) s w"

definition Dilithium_signature_size :: "int \<Rightarrow> int" where
  "Dilithium_signature_size ks =
     (if ks = 2 then 2420 else if ks = 3 then 3293 else if ks = 5 then 4595 else 2420)"

definition Falcon_key_sizes :: "int \<Rightarrow> int \<times> int" where
  "Falcon_key_sizes ks =
     (if ks = 512 then (897, 1281) else if ks = 1024 then (1793, 2305) else (897, 1281))"

definition Falcon_generate_keys ::
  "lib \<Rightarrow> crypto_base \<Rightarrow> world \<Rightarrow> (string \<times> pyval) list raising \<times> crypto_base \<times> world" where
  "Falcon_generate_keys L s w =
     mock_generate_keys L ''Falcon'' (fst (Falcon_key_sizes (inst_key_size s)))
       (snd (Falcon_key_sizes (inst_key_size s))) s w"

definition Falcon_signature_size :: "int \<Rightarrow> int" where
  "Falcon_signature_size ks = (if ks = 512 then 690 else if ks = 1024 then 1330 else 690)"

text \<open>
  The body shared by \<^verbatim>\<open>DilithiumCrypto.sign\<close> and \<^verbatim>\<open>FalconCrypto.sign\<close>, which
  differ in the name, the key generation and the signature length. The message is
  encoded and then not used: the hash object is finalized with nothing fed to it, so
  \<^verbatim>\<open>message_hash\<close> is the digest of the empty input.
\<close>

definition mock_sign ::
  "lib \<Rightarrow> string
   \<Rightarrow> (lib \<Rightarrow> crypto_base \<Rightarrow> world \<Rightarrow> (string \<times> pyval) list raising \<times> crypto_base \<times> world)
   \<Rightarrow> int \<Rightarrow> crypto_base \<Rightarrow> string \<Rightarrow> world \<Rightarrow> string raising \<times> crypto_base \<times> world" where
  "mock_sign L name generate_keys signature_size s message w =
     (case (if not_bytes (private_key s) then generate_keys L s w else (Inr [], s, w)) of
        (Inl m, s1, w1) \<Rightarrow> (Inl (name @ '' signing failed: '' @ m), s1, w1)
      | (Inr _, s1, w1) \<Rightarrow>
          (let message_bytes = utf8_encode L message in
           case get_random_bytes signature_size w1 of
             (Inl m, w2) \<Rightarrow> (Inl (name @ '' signing failed: '' @ m), s1, w2)
           | (Inr signature, w2) \<Rightarrow>
               (Inr (json_dumps L
                       [(''signature'', b64encode L signature),
                        (''message_hash'', b64encode L (sha256 L [])),
                        (''algorithm'', name)]),
                s1, w2)))"

definition Dilithium_sign ::
  "lib \<Rightarrow> crypto_base \<Rightarrow> string \<Rightarrow> world \<Rightarrow> string raising \<times> crypto_base \<times> world" where
  "Dilithium_sign L s message w =
     mock_sign L ''Dilithium'' Dilithium_generate_keys
       (Dilithium_signature_size (inst_key_size s)) s message w"

definition Falcon_sign ::
  "lib \<Rightarrow> crypto_base \<Rightarrow> string \<Rightarrow> world \<Rightarrow> string raising \<times> crypto_base \<times> world" where
  "Falcon_sign L s message w =
     mock_sign L ''Falcon'' Falcon_generate_keys
       (Falcon_signature_size (inst_key_size s)) s message w"

text \<open>The body shared by the two \<^verbatim>\<open>verify\<close> methods. Python's \<^verbatim>\<open>and\<close> does not
  evaluate its second operand when the first is false.\<close>

definition mock_verify :: "lib \<Rightarrow> string \<Rightarrow> crypto_base \<Rightarrow> string \<Rightarrow> string \<Rightarrow> bool raising" where
  "mock_verify L name s message signature_data =
     reraise (name @ '' verification failed: '')
       (if not_bytes (public_key s) then Inl ''Public key not available for verification''
        else
          bind (json_loads L signature_data) (\<lambda>data.
          bind (py_in ''signature'' data) (\<lambda>has_signature.
          if has_signature then py_in ''algorithm'' data else Inr False)))"

definition Dilithium_verify :: "lib \<Rightarrow> crypto_base \<Rightarrow> string \<Rightarrow> string \<Rightarrow> bool raising" where
  "Dilithium_verify L s message signature_data = mock_verify L ''Dilithium'' s message signature_data"

definition Falcon_verify :: "lib \<Rightarrow> crypto_base \<Rightarrow> string \<Rightarrow> string \<Rightarrow> bool raising" where
  "Falcon_verify L s message signature_data = mock_verify L ''Falcon'' s message signature_data"

definition Dilithium_encrypt :: "string raising" where
  "Dilithium_encrypt =
     Inl ''Dilithium is a signature algorithm, not for encryption. Use sign() method instead.''"

definition Dilithium_decrypt :: "string raising" where
  "Dilithium_decrypt =
     Inl ''Dilithium is a signature algorithm, not for decryption. Use verify() method instead.''"

definition Falcon_encrypt :: "string raising" where
  "Falcon_encrypt =
     Inl ''Falcon is a signature algorithm, not for encryption. Use sign() method instead.''"

definition Falcon_decrypt :: "string raising" where
  "Falcon_decrypt =
     Inl ''Falcon is a signature algorithm, not for decryption. Use verify() method instead.''"


section \<open>The test route (routes/algorithms.py)\<close>

datatype impl_class =
  RSACrypto | ECCCrypto | AESCrypto | KyberCrypto | DilithiumCrypto | FalconCrypto

definition ALGORITHM_IMPLEMENTATIONS :: "string \<Rightarrow> impl_class option" where
  "ALGORITHM_IMPLEMENTATIONS c =
     (if c = ''RSA'' then Some RSACrypto
      else if c = ''ECC'' then Some ECCCrypto
      else if c = ''AES'' then Some AESCrypto
      else if c = ''Kyber'' then Some KyberCrypto
      else if c = ''Dilithium'' then Some DilithiumCrypto
      else if c = ''Falcon'' then Some FalconCrypto
      else None)"

subsection \<open>Method calls on an object of one of the six classes\<close>

fun generate_keys ::
  "lib \<Rightarrow> impl_class \<Rightarrow> crypto_base \<Rightarrow> world
   \<Rightarrow> (string \<times> pyval) list raising \<times> crypto_base \<times> world" where
  "generate_keys L RSACrypto s w = RSA_generate_keys L s w"
| "generate_keys L ECCCrypto s w = ECC_generate_keys L s w"
| "generate_keys L AESCrypto s w = AES_generate_keys L s w"
| "generate_keys L KyberCrypto s w = Kyber_generate_keys L s w"
| "generate_keys L DilithiumCrypto s w = Dilithium_generate_keys L s w"
| "generate_keys L FalconCrypto s w = Falcon_generate_keys L s w"

fun encrypt ::
  "lib \<Rightarrow> impl_class \<Rightarrow> crypto_base \<Rightarrow> string \<Rightarrow> world
   \<Rightarrow> string raising \<times> crypto_base \<times> world" where
  "encrypt L RSACrypto s m w = RSA_encrypt L s m w"
| "encrypt L ECCCrypto s m w = ECC_encrypt L s m w"
| "encrypt L AESCrypto s m w = AES_encrypt L s m w"
| "encrypt L KyberCrypto s m w = Kyber_encrypt L s m w"
| "encrypt L DilithiumCrypto s m w = (Dilithium_encrypt, s, w)"
| "encrypt L FalconCrypto s m w = (Falcon_encrypt, s, w)"

text \<open>No \<^verbatim>\<open>decrypt\<close> method changes the object; only Kyber's draws random bytes.\<close>

fun decrypt ::
  "lib \<Rightarrow> impl_class \<Rightarrow> crypto_base \<Rightarrow> string \<Rightarrow> world \<Rightarrow> string raising \<times> world" where
  "decrypt L RSACrypto s c w = (RSA_decrypt L s c, w)"
| "decrypt L ECCCrypto s c w = (ECC_decrypt L s c, w)"
| "decrypt L AESCrypto s c w = (AES_decrypt L s c, w)"
| "decrypt L KyberCrypto s c w = Kyber_decrypt L s c w"
| "decrypt L DilithiumCrypto s c w = (Dilithium_decrypt, w)"
| "decrypt L FalconCrypto s c w = (Falcon_decrypt, w)"

text \<open>\<^verbatim>\<open>hasattr(crypto_impl, "sign")\<close> and \<^verbatim>\<open>hasattr(crypto_impl, "verify")\<close>: the
  classes that define the two methods are the same three.\<close>

fun has_sign :: "impl_class \<Rightarrow> bool" where
  "has_sign ECCCrypto = True"
| "has_sign DilithiumCrypto = True"
| "has_sign FalconCrypto = True"
| "has_sign _ = False"

definition has_verify :: "impl_class \<Rightarrow> bool" where
  "has_verify c = has_sign c"

subsection \<open>Method calls with the value of a request\<close>

text \<open>
  The route passes \<^verbatim>\<open>input_data\<close> as it was decoded from the request, so a method
  may receive a value that is not a str, or a str that UTF-8 cannot encode. The
  definitions above are the methods on a str that encodes. On a str that does not,
  \<^verbatim>\<open>plaintext.encode("utf-8")\<close> raises where it stands in the method. On a value
  that is not a str, \<^verbatim>\<open>isinstance(plaintext, str)\<close> is false, nothing is encoded, and
  the first operation on the value raises a TypeError. Both happen inside the
  \<^verbatim>\<open>try\<close> of the method, which raises the exception again under its own prefix.
\<close>

text \<open>The message of \<^verbatim>\<open>plaintext + b" " * (16 - len(plaintext) % 16)\<close> and of
  \<^verbatim>\<open>pad(plaintext, 16)\<close> on a value that is not a str: \<^verbatim>\<open>len\<close> fails on a
  number, a bool and None; on a list and a dict it is the concatenation with bytes that
  fails.\<close>

fun plaintext_type_error :: "json \<Rightarrow> string" where
  "plaintext_type_error (JArray xs) =
     ''can only concatenate list (not '' @ [CHR 0x22] @ ''bytes'' @ [CHR 0x22] @ '') to list''"
| "plaintext_type_error (JObject kvs) =
     ''unsupported operand type(s) for +: '' @ [CHR 0x27] @ ''dict'' @ [CHR 0x27] @ '' and ''
     @ [CHR 0x27] @ ''bytes'' @ [CHR 0x27]"
| "plaintext_type_error v =
     ''object of type '' @ [CHR 0x27] @ type_name v @ [CHR 0x27] @ '' has no len()''"

text \<open>\<^verbatim>\<open>RSACrypto.encrypt\<close>: the key is generated if absent; then the str is encoded, or
  the library refuses the value.\<close>

definition RSA_encrypt_value ::
  "lib \<Rightarrow> crypto_base \<Rightarrow> json \<Rightarrow> world \<Rightarrow> string raising \<times> crypto_base \<times> world" where
  "RSA_encrypt_value L s v w =
     (case v of
        JString plaintext \<Rightarrow>
          (case utf8_encode_error L plaintext of
             None \<Rightarrow> RSA_encrypt L s plaintext w
           | Some e \<Rightarrow>
               (case RSA_ensure_public_key L s w of
                  (Inl m, s1, w1) \<Rightarrow> (Inl (''RSA encryption failed: '' @ m), s1, w1)
                | (Inr pk, s1, w1) \<Rightarrow> (Inl (''RSA encryption failed: '' @ e), s1, w1)))
      | _ \<Rightarrow>
          (case RSA_ensure_public_key L s w of
             (Inl m, s1, w1) \<Rightarrow> (Inl (''RSA encryption failed: '' @ m), s1, w1)
           | (Inr pk, s1, w1) \<Rightarrow>
               (Inl (''RSA encryption failed: '' @ rsa_encrypt_type_error L v), s1, w1)))"

text \<open>\<^verbatim>\<open>AESCrypto.encrypt\<close>: the str is encoded before the IV is drawn; a value that
  is not a str reaches \<^verbatim>\<open>pad\<close>, after the IV and the cipher.\<close>

definition AES_encrypt_value ::
  "lib \<Rightarrow> crypto_base \<Rightarrow> json \<Rightarrow> world \<Rightarrow> string raising \<times> crypto_base \<times> world" where
  "AES_encrypt_value L s v w =
     (case v of
        JString plaintext \<Rightarrow>
          (case utf8_encode_error L plaintext of
             None \<Rightarrow> AES_encrypt L s plaintext w
           | Some e \<Rightarrow>
               (case AES_ensure_key L s w of
                  (Inl m, s1, w1) \<Rightarrow> (Inl (''AES encryption failed: '' @ m), s1, w1)
                | (Inr k, s1, w1) \<Rightarrow> (Inl (''AES encryption failed: '' @ e), s1, w1)))
      | _ \<Rightarrow>
          (case AES_ensure_key L s w of
             (Inl m, s1, w1) \<Rightarrow> (Inl (''AES encryption failed: '' @ m), s1, w1)
           | (Inr k, s1, w1) \<Rightarrow>
               (case get_random_bytes 16 w1 of
                  (Inl m, w2) \<Rightarrow> (Inl (''AES encryption failed: '' @ m), s1, w2)
                | (Inr iv, w2) \<Rightarrow>
                    (reraise ''AES encryption failed: ''
                       (bind (CryptoAES_new k iv) (\<lambda>_. Inl (plaintext_type_error v))),
                     s1, w2))))"

text \<open>\<^verbatim>\<open>ECCCrypto.encrypt\<close>: the str is encoded after the key exchange and before the
  IV is drawn; a value that is not a str reaches the padding, after the IV and the
  cipher.\<close>

definition ECC_encrypt_value ::
  "lib \<Rightarrow> crypto_base \<Rightarrow> json \<Rightarrow> world \<Rightarrow> string raising \<times> crypto_base \<times> world" where
  "ECC_encrypt_value L s v w =
     (case v of
        JString plaintext \<Rightarrow>
          (case utf8_encode_error L plaintext of
             None \<Rightarrow> ECC_encrypt L s plaintext w
           | Some e \<Rightarrow>
               (case ECC_ensure_public_key L s w of
                  (Inl m, s1, w1) \<Rightarrow> (Inl (''ECC encryption failed: '' @ m), s1, w1)
                | (Inr pk, s1, w1) \<Rightarrow>
                    (let (en, w2) = fresh_entropy w1;
                         ephemeral_private_key =
                           ec_generate_private_key L (curve_map_get (inst_key_size s1)) en
                     in case ec_exchange L ephemeral_private_key pk of
                          Inl m \<Rightarrow> (Inl (''ECC encryption failed: '' @ m), s1, w2)
                        | Inr shared_key \<Rightarrow> (Inl (''ECC encryption failed: '' @ e), s1, w2))))
      | _ \<Rightarrow>
          (case ECC_ensure_public_key L s w of
             (Inl m, s1, w1) \<Rightarrow> (Inl (''ECC encryption failed: '' @ m), s1, w1)
           | (Inr pk, s1, w1) \<Rightarrow>
               (let (en, w2) = fresh_entropy w1;
                    ephemeral_private_key =
                      ec_generate_private_key L (curve_map_get (inst_key_size s1)) en
                in case ec_exchange L ephemeral_private_key pk of
                     Inl m \<Rightarrow> (Inl (''ECC encryption failed: '' @ m), s1, w2)
                   | Inr shared_key \<Rightarrow>
                       (case get_random_bytes 16 w2 of
                          (Inl m, w3) \<Rightarrow> (Inl (''ECC encryption failed: '' @ m), s1, w3)
                        | (Inr iv, w3) \<Rightarrow>
                            (reraise ''ECC encryption failed: ''
                               (bind (hazmat_Cipher (take 32 (sha256 L shared_key)) iv)
                                  (\<lambda>_. Inl (plaintext_type_error v))),
                             s1, w3)))))"

text \<open>\<^verbatim>\<open>KyberCrypto.encrypt\<close> hands the value to \<^verbatim>\<open>AESCrypto.encrypt\<close>.\<close>

definition Kyber_encrypt_value ::
  "lib \<Rightarrow> crypto_base \<Rightarrow> json \<Rightarrow> world \<Rightarrow> string raising \<times> crypto_base \<times> world" where
  "Kyber_encrypt_value L s v w =
     (case (if not_bytes (public_key s) then Kyber_generate_keys L s w else (Inr [], s, w)) of
        (Inl m, s1, w1) \<Rightarrow> (Inl (''Kyber encryption failed: '' @ m), s1, w1)
      | (Inr _, s1, w1) \<Rightarrow>
          (case get_random_bytes 32 w1 of
             (Inl m, w2) \<Rightarrow> (Inl (''Kyber encryption failed: '' @ m), s1, w2)
           | (Inr shared_secret, w2) \<Rightarrow>
               (case AES_encrypt_value L (AESCrypto_with_key shared_secret) v w2 of
                  (Inl m, _, w3) \<Rightarrow> (Inl (''Kyber encryption failed: '' @ m), s1, w3)
                | (Inr encrypted_message, _, w3) \<Rightarrow>
                    (case get_random_bytes 64 w3 of
                       (Inl m, w4) \<Rightarrow> (Inl (''Kyber encryption failed: '' @ m), s1, w4)
                     | (Inr encapsulated_secret, w4) \<Rightarrow>
                         (Inr (json_dumps L
                                 [(''encapsulated_secret'', b64encode L encapsulated_secret),
                                  (''encrypted_message'', encrypted_message),
                                  (''algorithm'', ''Kyber'')]),
                          s1, w4)))))"

fun encrypt_value ::
  "lib \<Rightarrow> impl_class \<Rightarrow> crypto_base \<Rightarrow> json \<Rightarrow> world
   \<Rightarrow> string raising \<times> crypto_base \<times> world" where
  "encrypt_value L RSACrypto s v w = RSA_encrypt_value L s v w"
| "encrypt_value L ECCCrypto s v w = ECC_encrypt_value L s v w"
| "encrypt_value L AESCrypto s v w = AES_encrypt_value L s v w"
| "encrypt_value L KyberCrypto s v w = Kyber_encrypt_value L s v w"
| "encrypt_value L DilithiumCrypto s v w = (Dilithium_encrypt, s, w)"
| "encrypt_value L FalconCrypto s v w = (Falcon_encrypt, s, w)"

text \<open>\<^verbatim>\<open>ECCCrypto.sign\<close>: the key is generated if absent; then the str is encoded, or
  the library refuses the value.\<close>

definition ECC_sign_value ::
  "lib \<Rightarrow> crypto_base \<Rightarrow> json \<Rightarrow> world \<Rightarrow> string raising \<times> crypto_base \<times> world" where
  "ECC_sign_value L s v w =
     (case v of
        JString message \<Rightarrow>
          (case utf8_encode_error L message of
             None \<Rightarrow> ECC_sign L s message w
           | Some e \<Rightarrow>
               (case ECC_ensure_private_key L s w of
                  (Inl m, s1, w1) \<Rightarrow> (Inl (''ECC signing failed: '' @ m), s1, w1)
                | (Inr sk, s1, w1) \<Rightarrow> (Inl (''ECC signing failed: '' @ e), s1, w1)))
      | _ \<Rightarrow>
          (case ECC_ensure_private_key L s w of
             (Inl m, s1, w1) \<Rightarrow> (Inl (''ECC signing failed: '' @ m), s1, w1)
           | (Inr sk, s1, w1) \<Rightarrow>
               (Inl (''ECC signing failed: '' @ ecdsa_sign_type_error L v), s1, w1)))"

text \<open>
  The two mock \<^verbatim>\<open>sign\<close> methods encode a str and never use the message, so they sign
  a value that is not a str as they sign the empty str. On a str that does not encode
  they raise, after the keys have been generated if absent.
\<close>

definition mock_sign_value ::
  "lib \<Rightarrow> string
   \<Rightarrow> (lib \<Rightarrow> crypto_base \<Rightarrow> world \<Rightarrow> (string \<times> pyval) list raising \<times> crypto_base \<times> world)
   \<Rightarrow> int \<Rightarrow> crypto_base \<Rightarrow> json \<Rightarrow> world \<Rightarrow> string raising \<times> crypto_base \<times> world" where
  "mock_sign_value L name keygen signature_size s v w =
     (case v of
        JString message \<Rightarrow>
          (case utf8_encode_error L message of
             None \<Rightarrow> mock_sign L name keygen signature_size s message w
           | Some e \<Rightarrow>
               (case (if not_bytes (private_key s) then keygen L s w
                      else (Inr [], s, w)) of
                  (Inl m, s1, w1) \<Rightarrow> (Inl (name @ '' signing failed: '' @ m), s1, w1)
                | (Inr _, s1, w1) \<Rightarrow> (Inl (name @ '' signing failed: '' @ e), s1, w1)))
      | _ \<Rightarrow> mock_sign L name keygen signature_size s [] w)"

fun sign_value ::
  "lib \<Rightarrow> impl_class \<Rightarrow> crypto_base \<Rightarrow> json \<Rightarrow> world
   \<Rightarrow> string raising \<times> crypto_base \<times> world" where
  "sign_value L ECCCrypto s v w = ECC_sign_value L s v w"
| "sign_value L DilithiumCrypto s v w =
     mock_sign_value L ''Dilithium'' Dilithium_generate_keys
       (Dilithium_signature_size (inst_key_size s)) s v w"
| "sign_value L FalconCrypto s v w =
     mock_sign_value L ''Falcon'' Falcon_generate_keys
       (Falcon_signature_size (inst_key_size s)) s v w"
| "sign_value L _ s v w = (Inl ''object has no attribute sign'', s, w)"

text \<open>\<^verbatim>\<open>ECCCrypto.verify\<close>: a str that does not encode raises after the check of the
  key; on a message that is not a str the library raises inside the inner \<^verbatim>\<open>try\<close>,
  whose bare \<^verbatim>\<open>except\<close> returns False.\<close>

definition ECC_verify_value :: "lib \<Rightarrow> crypto_base \<Rightarrow> json \<Rightarrow> string \<Rightarrow> bool raising" where
  "ECC_verify_value L s v signature =
     (case v of
        JString message \<Rightarrow>
          (case utf8_encode_error L message of
             None \<Rightarrow> ECC_verify L s message signature
           | Some e \<Rightarrow>
               reraise ''ECC verification failed: ''
                 (case public_key s of
                    None \<Rightarrow> Inl ''Public key not available for verification''
                  | Some pk \<Rightarrow> Inl e))
      | _ \<Rightarrow>
          reraise ''ECC verification failed: ''
            (case public_key s of
               None \<Rightarrow> Inl ''Public key not available for verification''
             | Some pk \<Rightarrow>
                 bind (b64decode_bytes L (utf8_encode L signature)) (\<lambda>signature_bytes.
                 Inr False)))"

text \<open>The two mock \<^verbatim>\<open>verify\<close> methods never touch the message.\<close>

fun verify_value :: "lib \<Rightarrow> impl_class \<Rightarrow> crypto_base \<Rightarrow> json \<Rightarrow> string \<Rightarrow> bool raising" where
  "verify_value L ECCCrypto s v sg = ECC_verify_value L s v sg"
| "verify_value L DilithiumCrypto s v sg = mock_verify L ''Dilithium'' s [] sg"
| "verify_value L FalconCrypto s v sg = mock_verify L ''Falcon'' s [] sg"
| "verify_value L _ s v sg = Inl ''object has no attribute verify''"

subsection \<open>The operation under test\<close>

text \<open>\<^verbatim>\<open>output_data\<close>: the string an operation returns, or one of the two dicts the
  route builds.\<close>

datatype output_value =
  Out_str string
| Out_keys nat nat  \<comment> \<open>\<^verbatim>\<open>public_key_size\<close>, \<^verbatim>\<open>private_key_size\<close>; \<^verbatim>\<open>generated\<close> is True\<close>
| Out_verified bool

definition show_bool :: "bool \<Rightarrow> string" where
  "show_bool b = (if b then ''True'' else ''False'')"

text \<open>\<^verbatim>\<open>str(output_data)\<close>\<close>

fun str_output :: "output_value \<Rightarrow> string" where
  "str_output (Out_str s) = s"
| "str_output (Out_keys a b) =
     ''{'' @ [CHR 0x27] @ ''public_key_size'' @ [CHR 0x27] @ '': '' @ show_nat a @ '', ''
     @ [CHR 0x27] @ ''private_key_size'' @ [CHR 0x27] @ '': '' @ show_nat b @ '', ''
     @ [CHR 0x27] @ ''generated'' @ [CHR 0x27] @ '': True}''"
| "str_output (Out_verified b) =
     ''{'' @ [CHR 0x27] @ ''verified'' @ [CHR 0x27] @ '': '' @ show_bool b @ ''}''"

text \<open>\<^verbatim>\<open>len(str(result.get(k, "")))\<close>\<close>

definition str_len_of :: "(string \<times> pyval) list \<Rightarrow> string \<Rightarrow> nat" where
  "str_len_of result k =
     (case map_of result k of
        None \<Rightarrow> 0
      | Some (PStr s) \<Rightarrow> length s
      | Some (PInt i) \<Rightarrow> length (show_int i))"

text \<open>
  What the body of the inner \<^verbatim>\<open>try\<close> does up to the computation of
  \<^verbatim>\<open>output_data\<close>: it raises, it leaves through the \<^verbatim>\<open>else\<close> branch (an
  unsupported test type), or it has an output. The test type is the decoded value of
  the request: a value that is not a str equals none of the five names.
\<close>

datatype outcome = Unsupported | Raised string | Done output_value

definition run_operation ::
  "lib \<Rightarrow> impl_class \<Rightarrow> crypto_base \<Rightarrow> json \<Rightarrow> json \<Rightarrow> world \<Rightarrow> outcome \<times> world" where
  "run_operation L cls crypto_impl ttype indata w =
     (if ttype = JString ''encryption'' then
        (case encrypt_value L cls crypto_impl indata w of
           (Inl e, _, w1) \<Rightarrow> (Raised e, w1)
         | (Inr result, _, w1) \<Rightarrow> (Done (Out_str result), w1))
      else if ttype = JString ''decryption'' then
        (case encrypt_value L cls crypto_impl indata w of
           (Inl e, _, w1) \<Rightarrow> (Raised e, w1)
         | (Inr encrypted, s1, w1) \<Rightarrow>
             (case decrypt L cls s1 encrypted w1 of
                (Inl e, w2) \<Rightarrow> (Raised e, w2)
              | (Inr result, w2) \<Rightarrow> (Done (Out_str result), w2)))
      else if ttype = JString ''key_generation'' then
        (case generate_keys L cls crypto_impl w of
           (Inl e, _, w1) \<Rightarrow> (Raised e, w1)
         | (Inr result, _, w1) \<Rightarrow>
             (Done (Out_keys (str_len_of result ''public_key'')
                      (str_len_of result ''private_key'')), w1))
      else if ttype = JString ''signing'' \<and> has_sign cls then
        (case sign_value L cls crypto_impl indata w of
           (Inl e, _, w1) \<Rightarrow> (Raised e, w1)
         | (Inr result, _, w1) \<Rightarrow> (Done (Out_str result), w1))
      else if ttype = JString ''verification'' \<and> has_verify cls then
        (case sign_value L cls crypto_impl indata w of
           (Inl e, _, w1) \<Rightarrow> (Raised e, w1)
         | (Inr signature, s1, w1) \<Rightarrow>
             (case verify_value L cls s1 indata signature of
                Inl e \<Rightarrow> (Raised e, w1)
              | Inr result \<Rightarrow> (Done (Out_verified result), w1)))
      else (Unsupported, w))"

subsection \<open>The request\<close>

text \<open>Python's truth value of a decoded JSON value.\<close>

fun py_truthy :: "json \<Rightarrow> bool" where
  "py_truthy JNull = False"
| "py_truthy (JBool b) = b"
| "py_truthy (JInt i) = (i \<noteq> 0)"
| "py_truthy (JFloat q) = (q \<noteq> 0)"
| "py_truthy (JString s) = (s \<noteq> [])"
| "py_truthy (JArray xs) = (xs \<noteq> [])"
| "py_truthy (JObject kvs) = (kvs \<noteq> [])"

text \<open>
  \<^verbatim>\<open>data = request.get_json() or {}\<close>, as far as the two \<^verbatim>\<open>data.get\<close> calls that
  follow need it: a false value gives the empty dict, a dict gives itself, and on any
  other value the first \<^verbatim>\<open>data.get\<close> raises an AttributeError.
\<close>

definition request_data :: "json \<Rightarrow> (string \<times> json) list raising" where
  "request_data v =
     (if \<not> py_truthy v then Inr []
      else case v of
             JObject kvs \<Rightarrow> Inr kvs
           | _ \<Rightarrow> Inl ([CHR 0x27] @ type_name v @ [CHR 0x27] @ '' object has no attribute ''
                        @ [CHR 0x27] @ ''get'' @ [CHR 0x27]))"

text \<open>\<^verbatim>\<open>data.get(k, default)\<close>\<close>

definition dict_get :: "(string \<times> json) list \<Rightarrow> string \<Rightarrow> json \<Rightarrow> json" where
  "dict_get d k dflt = (case map_of d k of None \<Rightarrow> dflt | Some v \<Rightarrow> v)"

text \<open>\<^verbatim>\<open>str(v)\<close>, as an f-string formats a decoded JSON value.\<close>

fun py_str :: "lib \<Rightarrow> json \<Rightarrow> string" where
  "py_str L (JString s) = s"
| "py_str L JNull = ''None''"
| "py_str L (JBool b) = show_bool b"
| "py_str L (JInt i) = show_int i"
| "py_str L v = py_repr L v"

subsection \<open>The route\<close>

datatype test_response =
  Algorithm_not_found  \<comment> \<open>404\<close>
| Implementation_not_available string  \<comment> \<open>400\<close>
| Unsupported_test_type string  \<comment> \<open>400, no record\<close>
| Test_completed test output_value  \<comment> \<open>200, the record and the result\<close>
| Test_failed test string  \<comment> \<open>400, the record and the error\<close>
| Failed_to_test_algorithm string  \<comment> \<open>500 after a rollback, with the details\<close>

text \<open>\<^verbatim>\<open>db.session.add(test_record); db.session.commit()\<close>: the row is inserted, or the
  driver refuses to bind the input and the commit raises.\<close>

definition commit_test :: "lib \<Rightarrow> test \<Rightarrow> database \<Rightarrow> (test \<times> database) raising" where
  "commit_test L t db =
     (case sqlite_bind_error L (input_data t) of
        Some m \<Rightarrow> Inl m
      | None \<Rightarrow> Inr (add_test t db))"

text \<open>
  The route. \<open>request_json\<close> is what \<^verbatim>\<open>request.get_json()\<close> does: it returns the
  decoded body or raises. An exception outside the inner \<^verbatim>\<open>try\<close> is caught by the
  outer \<^verbatim>\<open>except\<close>, which rolls the session back and answers 500. The commit of the
  record of a completed test is inside the inner \<^verbatim>\<open>try\<close>: when it raises, the inner
  \<^verbatim>\<open>except\<close> reads the clock again and commits a failed record on the same session,
  which raises in turn, and that exception reaches the outer \<^verbatim>\<open>except\<close>. A record
  is built only after one of the five branches was taken, so its test type is a str,
  which \<open>py_str\<close> reads.
\<close>

definition test_algorithm ::
  "lib \<Rightarrow> database \<Rightarrow> nat \<Rightarrow> nat \<Rightarrow> json raising \<Rightarrow> world
   \<Rightarrow> test_response \<times> database \<times> world" where
  "test_algorithm L db current_user_id algorithm_id' request_json w =
     (case algorithm_get db algorithm_id' of
        None \<Rightarrow> (Algorithm_not_found, db, w)
      | Some algorithm \<Rightarrow>
          (case bind request_json request_data of
             Inl e \<Rightarrow> (Failed_to_test_algorithm e, db, w)
           | Inr data \<Rightarrow>
               (let test_type0 = dict_get data ''test_type'' (JString ''encryption'');
                    indata = dict_get data ''input_data'' (JString ''Hello, Quantum World!'');
                    test_type' =
                      (if category algorithm \<in> {''Dilithium'', ''Falcon''}
                          \<and> test_type0 = JString ''encryption''
                       then JString ''signing'' else test_type0)
                in case ALGORITHM_IMPLEMENTATIONS (category algorithm) of
                     None \<Rightarrow>
                       (Implementation_not_available
                          (''Implementation not available for '' @ category algorithm), db, w)
                   | Some implementation_class \<Rightarrow>
                       (let crypto_impl = new_instance (key_size algorithm);
                            (start_time, w0) = time_time w
                        in case run_operation L implementation_class crypto_impl test_type'
                                  indata w0 of
                             (Unsupported, w1) \<Rightarrow>
                               (Unsupported_test_type
                                  (''Unsupported test type: '' @ py_str L test_type'), db, w1)
                           | (Done output_data', w1) \<Rightarrow>
                               (let (now, w2) = time_time w1 in
                                case commit_test L
                                       \<lparr>test_id = 0, user_id = current_user_id,
                                        algorithm_id = algorithm_id',
                                        test_type = py_str L test_type',
                                        input_data = indata,
                                        output_data = Some (str_output output_data'),
                                        execution_time = (now - start_time) * 1000,
                                        success = True, error_message = None,
                                        metadata_key_size = key_size algorithm,
                                        metadata_algorithm_type = alg_type algorithm\<rparr> db of
                                  Inr (test_record, db') \<Rightarrow>
                                    (Test_completed test_record output_data', db', w2)
                                | Inl commit_error \<Rightarrow>
                                    (let (now', w3) = time_time w2 in
                                     (Failed_to_test_algorithm
                                        (pending_rollback_error L commit_error), db, w3)))
                           | (Raised crypto_error, w1) \<Rightarrow>
                               (let (now, w2) = time_time w1 in
                                case commit_test L
                                       \<lparr>test_id = 0, user_id = current_user_id,
                                        algorithm_id = algorithm_id',
                                        test_type = py_str L test_type',
                                        input_data = indata, output_data = None,
                                        execution_time = (now - start_time) * 1000,
                                        success = False, error_message = Some crypto_error,
                                        metadata_key_size = key_size algorithm,
                                        metadata_algorithm_type = alg_type algorithm\<rparr> db of
                                  Inr (test_record, db') \<Rightarrow>
                                    (Test_failed test_record crypto_error, db', w2)
                                | Inl commit_error \<Rightarrow>
                                    (Failed_to_test_algorithm commit_error, db, w2))))))"

section \<open>The comparison route (routes/algorithms.py)\<close>

record performance =
  encryption_time_ms :: rat
  decryption_time_ms :: rat
  key_generation_time_ms :: rat
  total_time_ms :: rat

record comparison_row =
  row_algorithm :: algorithm
  row_performance :: "performance option"
  row_success :: bool
  row_error :: "string option"

definition failed_row :: "algorithm \<Rightarrow> string \<Rightarrow> comparison_row" where
  "failed_row a e =
     \<lparr>row_algorithm = a, row_performance = None, row_success = False, row_error = Some e\<rparr>"

text \<open>The \<^verbatim>\<open>try\<close> of the loop body for one algorithm: encryption, decryption and
  key generation, each between two readings of the clock.\<close>

definition compare_one ::
  "lib \<Rightarrow> algorithm \<Rightarrow> impl_class \<Rightarrow> string \<Rightarrow> world \<Rightarrow> comparison_row \<times> world" where
  "compare_one L a cls test_data w =
     (let crypto_impl = new_instance (key_size a);
          (t0, w0) = time_time w
      in case encrypt L cls crypto_impl test_data w0 of
           (Inl e, _, w1) \<Rightarrow> (failed_row a e, w1)
         | (Inr encrypted, s1, w1) \<Rightarrow>
             (let (t1, w2) = time_time w1;
                  encryption_time = (t1 - t0) * 1000;
                  (t2, w3) = time_time w2
              in case decrypt L cls s1 encrypted w3 of
                   (Inl e, w4) \<Rightarrow> (failed_row a e, w4)
                 | (Inr decrypted, w4) \<Rightarrow>
                     (let (t3, w5) = time_time w4;
                          decryption_time = (t3 - t2) * 1000;
                          (t4, w6) = time_time w5
                      in case generate_keys L cls s1 w6 of
                           (Inl e, _, w7) \<Rightarrow> (failed_row a e, w7)
                         | (Inr keys, _, w7) \<Rightarrow>
                             (let (t5, w8) = time_time w7;
                                  key_gen_time = (t5 - t4) * 1000
                              in (\<lparr>row_algorithm = a,
                                   row_performance =
                                     Some \<lparr>encryption_time_ms = encryption_time,
                                           decryption_time_ms = decryption_time,
                                           key_generation_time_ms = key_gen_time,
                                           total_time_ms =
                                             encryption_time + decryption_time + key_gen_time\<rparr>,
                                   row_success = (decrypted = test_data),
                                   row_error = None\<rparr>, w8)))))"

text \<open>The loop over \<^verbatim>\<open>algorithm_ids\<close>: an id without a catalogue row, and a row whose
  category has no implementation, are passed over with \<^verbatim>\<open>continue\<close>.\<close>

fun compare_loop ::
  "lib \<Rightarrow> database \<Rightarrow> string \<Rightarrow> nat list \<Rightarrow> world \<Rightarrow> comparison_row list \<times> world" where
  "compare_loop L db test_data [] w = ([], w)"
| "compare_loop L db test_data (algo_id # ids) w =
     (case algorithm_get db algo_id of
        None \<Rightarrow> compare_loop L db test_data ids w
      | Some a \<Rightarrow>
          (case ALGORITHM_IMPLEMENTATIONS (category a) of
             None \<Rightarrow> compare_loop L db test_data ids w
           | Some cls \<Rightarrow>
               (let (row, w1) = compare_one L a cls test_data w;
                    (rows, w2) = compare_loop L db test_data ids w1
                in (row # rows, w2))))"

datatype compare_response =
  Insufficient_algorithms  \<comment> \<open>400, "At least 2 algorithms required for comparison"\<close>
| Comparison "comparison_row list" string rat  \<comment> \<open>200: the rows, the test data, the timestamp\<close>

definition compare_algorithms ::
  "lib \<Rightarrow> database \<Rightarrow> nat list \<Rightarrow> string option \<Rightarrow> world \<Rightarrow> compare_response \<times> world" where
  "compare_algorithms L db algorithm_ids req_test_data w =
     (let test_data = (case req_test_data of None \<Rightarrow> ''Hello, Quantum World!'' | Some d \<Rightarrow> d)
      in if algorithm_ids = [] \<or> length algorithm_ids < 2 then (Insufficient_algorithms, w)
         else
           let (comparison_results, w1) = compare_loop L db test_data algorithm_ids w;
               (timestamp, w2) = time_time w1
           in (Comparison comparison_results test_data timestamp, w2))"

text \<open>An id is resolvable when it has a catalogue row whose category has an
  implementation.\<close>

definition resolvable :: "database \<Rightarrow> nat \<Rightarrow> bool" where
  "resolvable db i =
     (case algorithm_get db i of
        None \<Rightarrow> False
      | Some a \<Rightarrow> ALGORITHM_IMPLEMENTATIONS (category a) \<noteq> None)"


section \<open>The security report (routes/reports.py)\<close>

fun number_value :: "number \<Rightarrow> rat" where
  "number_value (Int_num i) = of_int i"
| "number_value (Float_num q) = q"

text \<open>\<^verbatim>\<open>round(x, 2)\<close>: an int is returned as it is; a float goes to the nearest multiple
  of 0.01, a tie to the even one. (On the rationals: the binary rounding of a float
  that is not a multiple of 0.01 itself is not modelled.)\<close>

definition round_half_even :: "rat \<Rightarrow> int" where
  "round_half_even x =
     (let f = \<lfloor>x\<rfloor>; d = x - of_int f
      in if d < 1 / 2 then f else if d > 1 / 2 then f + 1 else if even f then f else f + 1)"

fun py_round2 :: "number \<Rightarrow> number" where
  "py_round2 (Int_num i) = Int_num i"
| "py_round2 (Float_num q) = Float_num (of_int (round_half_even (q * 100)) / 100)"

text \<open>\<^verbatim>\<open>str(x)\<close> of an int, and of a non-negative float with at most two decimals.\<close>

fun show_number :: "number \<Rightarrow> string" where
  "show_number (Int_num i) = show_int i"
| "show_number (Float_num q) =
     (let h = nat \<lfloor>q * 100\<rfloor>; c = h mod 100
      in show_nat (h div 100) @ ''.'' @
         (if c mod 10 = 0 then [digit (c div 10)] else [digit (c div 10), digit (c mod 10)]))"

fun join :: "string \<Rightarrow> string list \<Rightarrow> string" where
  "join sep [] = []"
| "join sep [x] = x"
| "join sep (x # y # ys) = x @ sep @ join sep (y # ys)"

text \<open>\<^verbatim>\<open>(successful_tests / total_tests * 100) if total_tests > 0 else 0\<close>, and the
  same shape for the adoption rate.\<close>

definition percentage :: "nat \<Rightarrow> nat \<Rightarrow> number" where
  "percentage part whole =
     (if whole > 0 then Float_num (of_nat part / of_nat whole * 100) else Int_num 0)"

text \<open>The rule table: the level and the first note, from \<^verbatim>\<open>quantum_safe\<close> and the
  success rate.\<close>

definition assess :: "bool \<Rightarrow> number \<Rightarrow> string \<times> string" where
  "assess qs rate =
     (if qs then
        (if number_value rate \<ge> 95 then (''high'', ''Quantum-safe with excellent reliability'')
         else if number_value rate \<ge> 80
         then (''medium-high'', ''Quantum-safe with good reliability'')
         else (''medium'', ''Quantum-safe but implementation issues detected''))
      else
        (if number_value rate \<ge> 95
         then (''medium'', ''Classical algorithm - vulnerable to quantum attacks'')
         else if number_value rate \<ge> 80
         then (''medium-low'', ''Classical algorithm with reliability concerns'')
         else (''low'', ''Classical algorithm with significant implementation issues'')))"

definition key_size_notes :: "algorithm \<Rightarrow> string list" where
  "key_size_notes a =
     (if category a = ''RSA'' then
        (if key_size a \<ge> 4096 then [''Strong key size for current threats'']
         else if key_size a \<ge> 2048 then [''Adequate key size but consider upgrading'']
         else [''Weak key size - upgrade recommended''])
      else if category a = ''AES'' then
        (if key_size a \<ge> 256 then [''Strong symmetric key size'']
         else [''Consider upgrading to AES-256''])
      else [])"

text \<open>The body of the loop over the algorithms.\<close>

definition analyse :: "database \<Rightarrow> nat \<Rightarrow> algorithm \<Rightarrow> security_analysis" where
  "analyse db current_user_id a =
     (let total = length (filter (\<lambda>t. user_id t = current_user_id \<and> algorithm_id t = alg_id a)
                            (tests db));
          successful = length (filter (\<lambda>t. user_id t = current_user_id
                                             \<and> algorithm_id t = alg_id a \<and> success t)
                                 (tests db));
          rate = percentage successful total;
          (lvl, note) = assess (quantum_safe a) rate
      in \<lparr>sa_algorithm = a, total_tests = total, successful_tests = successful,
          success_rate = py_round2 rate, security_level = lvl,
          security_notes = note # key_size_notes a, sa_quantum_safe = quantum_safe a\<rparr>)"

text \<open>\<^verbatim>\<open>Test.query.join(Algorithm).filter(Test.user_id == ..., Algorithm.quantum_safe
  == ...).count()\<close>: the pairs of a test of the user and the algorithm it refers to.\<close>

definition joined_count :: "database \<Rightarrow> nat \<Rightarrow> bool \<Rightarrow> nat" where
  "joined_count db current_user_id qs =
     length (concat (map (\<lambda>t. filter (\<lambda>a. alg_id a = algorithm_id t
                                           \<and> user_id t = current_user_id
                                           \<and> quantum_safe a = qs) (algorithms db))
                       (tests db)))"

definition level_count :: "security_analysis list \<Rightarrow> string \<Rightarrow> string \<times> nat" where
  "level_count analysis l = (l, length (filter (\<lambda>x. security_level x = l) analysis))"

definition generate_security_report ::
  "database \<Rightarrow> nat \<Rightarrow> string \<Rightarrow> report \<times> database" where
  "generate_security_report db current_user_id title' =
     (let algs = algorithms db;
          classical = filter (\<lambda>a. alg_type a = ''classical'') algs;
          post_quantum = filter (\<lambda>a. alg_type a = ''post-quantum'') algs;
          algorithm_security_analysis = map (analyse db current_user_id) algs;
          user_pq_tests = joined_count db current_user_id True;
          user_classical_tests = joined_count db current_user_id False;
          pq_adoption_rate = percentage user_pq_tests (user_pq_tests + user_classical_tests);
          adoption =
            (if number_value pq_adoption_rate < 25
             then ''Low post-quantum cryptography adoption detected. ''
                  @ ''Start evaluating and migrating to quantum-safe algorithms.''
             else if number_value pq_adoption_rate < 50
             then ''Moderate post-quantum cryptography adoption. ''
                  @ ''Accelerate migration to quantum-safe algorithms.''
             else ''Good post-quantum cryptography adoption. ''
                  @ ''Continue expanding quantum-safe algorithm usage.'');
          weak_algorithms = filter (\<lambda>x. security_level x \<in> {''low'', ''medium-low''})
                              algorithm_security_analysis;
          recs = adoption #
            (if weak_algorithms \<noteq> []
             then [''Review '' @ show_nat (length weak_algorithms)
                   @ '' algorithms with security concerns: ''
                   @ join '', '' (map (\<lambda>x. alg_name (sa_algorithm x)) weak_algorithms)]
             else []);
          report_content =
            \<lparr>total_algorithms_analyzed = length algs,
             classical_algorithms_count = length classical,
             post_quantum_algorithms_count = length post_quantum,
             quantum_readiness_score = py_round2 pq_adoption_rate,
             algorithm_analysis = algorithm_security_analysis,
             security_distribution =
               map (level_count algorithm_security_analysis)
                 [''high'', ''medium-high'', ''medium'', ''medium-low'', ''low'', ''unknown'']\<rparr>;
          high_security_count =
            length (filter (\<lambda>x. security_level x = ''high'') algorithm_security_analysis);
          summary' =
            ''Security analysis of '' @ show_nat (length algs) @ '' cryptographic algorithms. ''
            @ ''Quantum readiness score: '' @ show_number (py_round2 pq_adoption_rate) @ ''%. ''
            @ ''Post-quantum algorithms available: '' @ show_nat (length post_quantum) @ ''. ''
            @ ''High security algorithms: '' @ show_nat high_security_count @ ''.''
      in add_report
           \<lparr>report_id = 0, report_user_id = current_user_id, title = title',
            report_type = ''security'', content = report_content,
            algorithms_tested = map alg_id algs, summary = summary',
            recommendations = join ''. '' recs\<rparr> db)"

text \<open>The caller has no test records.\<close>

definition no_tests_of :: "database \<Rightarrow> nat \<Rightarrow> bool" where
  "no_tests_of db u = (\<forall>t \<in> set (tests db). user_id t \<noteq> u)"


section \<open>What the model assumes of the libraries\<close>

text \<open>The codecs invert: decoding an encoding gives the value back.
  \<^verbatim>\<open>json.loads\<close> of the \<^verbatim>\<open>json.dumps\<close> of a dict with string members gives a dict
  with the same members.\<close>

definition codec_ok :: "lib \<Rightarrow> bool" where
  "codec_ok L =
     ((\<forall>s. utf8_decode L (utf8_encode L s) = Inr s) \<and>
      (\<forall>b. b64decode L (b64encode L b) = Inr b) \<and>
      (\<forall>b. b64decode_bytes L (utf8_encode L (b64encode L b)) = Inr b) \<and>
      (\<forall>kvs. distinct (map fst kvs) \<longrightarrow>
         json_loads L (json_dumps L kvs) = Inr (JObject (map (\<lambda>(k, v). (k, JString v)) kvs))))"

text \<open>UTF-8 encodes character by character, the space as the byte 0x20, and no other
  character to bytes that end in 0x20.\<close>

definition utf8_space_ok :: "lib \<Rightarrow> bool" where
  "utf8_space_ok L =
     ((\<forall>s t. utf8_encode L (s @ t) = utf8_encode L s @ utf8_encode L t) \<and>
      utf8_encode L '' '' = [0x20] \<and>
      (\<forall>c. c \<noteq> CHR '' '' \<longrightarrow> utf8_encode L [c] \<noteq> [] \<and> last (utf8_encode L [c]) \<noteq> 0x20))"

text \<open>The AES block function maps 16-byte blocks to 16-byte blocks, and the inverse
  block function inverts it under the same key.\<close>

definition aes_ok :: "lib \<Rightarrow> bool" where
  "aes_ok L =
     (\<forall>k b. length b = 16 \<longrightarrow>
        length (aes_encrypt_block L k b) = 16 \<and>
        aes_decrypt_block L k (aes_encrypt_block L k b) = b)"

text \<open>
  RSA keys of 1024 bits and more can be generated. With a generated key of \<open>ks\<close> bits,
  OAEP encryption under SHA-256 accepts a plaintext of at most \<open>ks/8 - 66\<close> bytes, and
  decryption with the private key gives the plaintext back.
\<close>

definition rsa_ok :: "lib \<Rightarrow> bool" where
  "rsa_ok L =
     ((\<forall>ks e. 1024 \<le> ks \<longrightarrow> (\<exists>sk. rsa_generate_private_key L ks e = Inr sk)) \<and>
      (\<forall>ks e sk m e'.
         rsa_generate_private_key L ks e = Inr sk \<and> int (length m) + 66 \<le> ks div 8 \<longrightarrow>
         (\<exists>c. rsa_oaep_encrypt L (rsa_public_key L sk) m e' = Inr c \<and>
              rsa_oaep_decrypt L sk c = Inr m)))"

text \<open>
  Two keys generated on one curve agree on the ECDH shared secret; a public key
  serialised to PEM loads back; a SHA-256 digest has 32 bytes.
\<close>

definition ec_ok :: "lib \<Rightarrow> bool" where
  "ec_ok L =
     ((\<forall>c e1 e2. \<exists>shared.
         ec_exchange L (ec_generate_private_key L c e1)
           (ec_public_key L (ec_generate_private_key L c e2)) = Inr shared \<and>
         ec_exchange L (ec_generate_private_key L c e2)
           (ec_public_key L (ec_generate_private_key L c e1)) = Inr shared) \<and>
      (\<forall>pk. load_pem_public_key L (ec_public_pem L pk) = Inr pk) \<and>
      (\<forall>b. length (sha256 L b) = 32))"

section \<open>An executable instance of the libraries\<close>

text \<open>
  A small instance of the library parameters that satisfies the assumptions above, to
  run the model on concrete inputs. It is not the real cryptography: text is one byte
  per character, Base64 is the identity on byte values, a JSON object of strings is
  written as its escaped fields, the block cipher adds the sum of the key bytes, the
  asymmetric primitives are as weak as can be while obeying the laws, every str
  encodes, and the database driver refuses lists and dicts only.
\<close>

definition demo_utf8_encode :: "string \<Rightarrow> bytes" where
  "demo_utf8_encode s = map (\<lambda>c. of_nat (of_char c)) s"

definition demo_b64encode :: "bytes \<Rightarrow> string" where
  "demo_b64encode b = map (\<lambda>x. char_of (unat x)) b"

definition field_sep :: char where "field_sep = CHR 0x1F"
definition field_esc :: char where "field_esc = CHR 0x1B"

definition demo_field :: "string \<Rightarrow> string" where
  "demo_field s =
     concat (map (\<lambda>c. if c = field_sep \<or> c = field_esc then [field_esc, c] else [c]) s)
     @ [field_sep]"

definition demo_json_dumps :: "(string \<times> string) list \<Rightarrow> string" where
  "demo_json_dumps kvs = concat (map (\<lambda>(k, v). demo_field k @ demo_field v) kvs)"

fun demo_fields :: "string \<Rightarrow> string \<Rightarrow> string list option" where
  "demo_fields acc [] = (if acc = [] then Some [] else None)"
| "demo_fields acc (c # cs) =
     (if c = field_sep then map_option (Cons (rev acc)) (demo_fields [] cs)
      else if c = field_esc then
        (case cs of [] \<Rightarrow> None | d # ds \<Rightarrow> demo_fields (d # acc) ds)
      else demo_fields (c # acc) cs)"

fun demo_pairs :: "string list \<Rightarrow> (string \<times> string) list option" where
  "demo_pairs [] = Some []"
| "demo_pairs [x] = None"
| "demo_pairs (k # v # r) = map_option (Cons (k, v)) (demo_pairs r)"

definition demo_json_loads :: "string \<Rightarrow> json raising" where
  "demo_json_loads s =
     (case demo_fields [] s of
        None \<Rightarrow> Inl ''Expecting value''
      | Some fs \<Rightarrow>
          (case demo_pairs fs of
             None \<Rightarrow> Inl ''Expecting value''
           | Some kvs \<Rightarrow> Inr (JObject (map (\<lambda>(k, v). (k, JString v)) kvs))))"

definition demo_sha256 :: "bytes \<Rightarrow> bytes" where
  "demo_sha256 b = take 32 (b @ replicate 32 0)"

definition demo_rsa_generate :: "int \<Rightarrow> entropy \<Rightarrow> bytes raising" where
  "demo_rsa_generate ks e =
     (if ks < 1024 then Inl ''key_size must be at least 1024-bits.''
      else Inr (map e [0..<nat (ks div 8)]))"

definition demo_rsa_encrypt :: "bytes \<Rightarrow> bytes \<Rightarrow> entropy \<Rightarrow> bytes raising" where
  "demo_rsa_encrypt pk m e =
     (if length m + 66 > length pk then Inl ''Encryption failed''
      else Inr (map (\<lambda>x. x + 1) m))"

definition demo_ec_generate :: "curve \<Rightarrow> entropy \<Rightarrow> bytes" where
  "demo_ec_generate c e =
     (case c of SECP256R1 \<Rightarrow> 1 | SECP384R1 \<Rightarrow> 2 | SECP521R1 \<Rightarrow> 3) # map e [0..<4]"

definition demo_ec_exchange :: "bytes \<Rightarrow> bytes \<Rightarrow> bytes raising" where
  "demo_ec_exchange sk pk =
     (if take 1 sk \<noteq> take 1 pk then Inl ''unsupported peer public key''
      else Inr (map2 (\<lambda>x y. x + y) (drop 1 sk) (drop 1 pk)))"

definition demo_bind_error :: "json \<Rightarrow> string option" where
  "demo_bind_error v =
     (case v of
        JArray _ \<Rightarrow> Some ''Error binding parameter: type list is not supported''
      | JObject _ \<Rightarrow> Some ''Error binding parameter: type dict is not supported''
      | _ \<Rightarrow> None)"

definition demo_lib :: lib where
  "demo_lib =
     \<lparr>utf8_encode = demo_utf8_encode,
      utf8_decode = (\<lambda>b. Inr (demo_b64encode b)),
      b64encode = demo_b64encode,
      b64decode = (\<lambda>s. Inr (demo_utf8_encode s)),
      b64decode_bytes = (\<lambda>b. Inr b),
      json_dumps = demo_json_dumps,
      json_loads = demo_json_loads,
      sha256 = demo_sha256,
      aes_encrypt_block = (\<lambda>k b. map (\<lambda>x. x + sum_list k) b),
      aes_decrypt_block = (\<lambda>k b. map (\<lambda>x. x - sum_list k) b),
      rsa_generate_private_key = demo_rsa_generate,
      rsa_public_key = (\<lambda>sk. sk),
      rsa_private_pem = (\<lambda>sk. sk),
      rsa_public_pem = (\<lambda>pk. pk),
      rsa_oaep_encrypt = demo_rsa_encrypt,
      rsa_oaep_decrypt = (\<lambda>sk c. Inr (map (\<lambda>x. x - 1) c)),
      ec_generate_private_key = demo_ec_generate,
      ec_public_key = (\<lambda>sk. sk),
      ec_private_pem = (\<lambda>sk. sk),
      ec_public_pem = (\<lambda>pk. pk),
      load_pem_public_key = (\<lambda>b. Inr b),
      ec_exchange = demo_ec_exchange,
      ecdsa_sign = (\<lambda>sk m e. demo_sha256 (sk @ m)),
      ecdsa_verify = (\<lambda>pk sg m. sg = demo_sha256 (pk @ m)),
      utf8_encode_error = (\<lambda>s. None),
      rsa_encrypt_type_error = (\<lambda>v. ''plaintext must be bytes, not '' @ type_name v),
      ecdsa_sign_type_error = (\<lambda>v. ''data must be bytes, not '' @ type_name v),
      py_repr = (\<lambda>v. ''<'' @ type_name v @ ''>''),
      sqlite_bind_error = demo_bind_error,
      pending_rollback_error = (\<lambda>m. ''The transaction has been rolled back: '' @ m)\<rparr>"

text \<open>A world for concrete runs: the \<open>j\<close>-th byte of the \<open>i\<close>-th source is \<open>7 i + j + 1\<close>, and the
  clock advances by a quarter of a millisecond at each reading.\<close>

definition demo_world :: world where
  "demo_world =
     \<lparr>sources = (\<lambda>i j. of_nat (7 * i + j + 1)), clock = (\<lambda>i. of_nat i / 4000)\<rparr>"


section \<open>Predicates on instances\<close>

text \<open>Key material is present on an object of the mock classes: both attributes hold
  non-empty bytes.\<close>

definition has_keys :: "crypto_base \<Rightarrow> bool" where
  "has_keys s = (\<not> not_bytes (public_key s) \<and> \<not> not_bytes (private_key s))"

text \<open>The dict of a signature envelope, as \<^verbatim>\<open>sign\<close> builds it.\<close>

definition signature_envelope :: "lib \<Rightarrow> string \<Rightarrow> bytes \<Rightarrow> bytes \<Rightarrow> (string \<times> string) list" where
  "signature_envelope L name signature digest =
     [(''signature'', b64encode L signature),
      (''message_hash'', b64encode L digest),
      (''algorithm'', name)]"

text \<open>An instance with both keys set, for concrete runs of the mock classes.\<close>

definition keyed_instance :: "int \<Rightarrow> crypto_base" where
  "keyed_instance ks =
     \<lparr>inst_key_size = ks, public_key = Some [1, 2, 3], private_key = Some [4, 5, 6], key = None\<rparr>"


section \<open>Predicates and examples for the routes\<close>

text \<open>The test types that the chain of branches of the test route runs on an object of
  a class: the three that every class has, and signing and verification on the classes
  that define \<^verbatim>\<open>sign\<close> and \<^verbatim>\<open>verify\<close>.\<close>

definition supported :: "impl_class \<Rightarrow> json \<Rightarrow> bool" where
  "supported cls tt =
     (tt = JString ''encryption'' \<or> tt = JString ''decryption'' \<or>
      tt = JString ''key_generation'' \<or>
      (tt = JString ''signing'' \<and> has_sign cls) \<or>
      (tt = JString ''verification'' \<and> has_verify cls))"

text \<open>The test type that the route runs and records, from the dict of the request: the
  requested one (by default encryption), with encryption replaced by signing for the two
  signature categories.\<close>

definition executed_test_type :: "algorithm \<Rightarrow> (string \<times> json) list \<Rightarrow> json" where
  "executed_test_type a data =
     (let requested = dict_get data ''test_type'' (JString ''encryption'')
      in if category a \<in> {''Dilithium'', ''Falcon''} \<and> requested = JString ''encryption''
         then JString ''signing'' else requested)"

definition requested_input :: "(string \<times> json) list \<Rightarrow> json" where
  "requested_input data = dict_get data ''input_data'' (JString ''Hello, Quantum World!'')"


text \<open>
  The two ways a recorded run ends, given the caller, the algorithm, the executed test
  type, the input, the start time and the world in which the operation ended: the clock
  is read, one row is added to the tests table, and the response carries the row. A run
  that failed has \<^verbatim>\<open>success\<close> false, no output and the message of the exception; a run
  that completed has \<^verbatim>\<open>success\<close> true, the output as a str and no message.
\<close>

definition failed_run ::
  "database \<Rightarrow> nat \<Rightarrow> nat \<Rightarrow> algorithm \<Rightarrow> string \<Rightarrow> json \<Rightarrow> rat \<Rightarrow> string \<Rightarrow> world
   \<Rightarrow> test_response \<times> database \<times> world" where
  "failed_run db uid aid a kind indata start e w1 =
     (let t = \<lparr>test_id = next_id (map test_id (tests db)), user_id = uid,
               algorithm_id = aid, test_type = kind, input_data = indata,
               output_data = None,
               execution_time = (fst (time_time w1) - start) * 1000,
               success = False, error_message = Some e,
               metadata_key_size = key_size a, metadata_algorithm_type = alg_type a\<rparr>
      in (Test_failed t e, db\<lparr>tests := tests db @ [t]\<rparr>, snd (time_time w1)))"

definition completed_run ::
  "database \<Rightarrow> nat \<Rightarrow> nat \<Rightarrow> algorithm \<Rightarrow> string \<Rightarrow> json \<Rightarrow> rat \<Rightarrow> output_value \<Rightarrow> world
   \<Rightarrow> test_response \<times> database \<times> world" where
  "completed_run db uid aid a kind indata start out w1 =
     (let t = \<lparr>test_id = next_id (map test_id (tests db)), user_id = uid,
               algorithm_id = aid, test_type = kind, input_data = indata,
               output_data = Some (str_output out),
               execution_time = (fst (time_time w1) - start) * 1000,
               success = True, error_message = None,
               metadata_key_size = key_size a, metadata_algorithm_type = alg_type a\<rparr>
      in (Test_completed t out, db\<lparr>tests := tests db @ [t]\<rparr>, snd (time_time w1)))"

fun comparison_rows :: "compare_response \<Rightarrow> comparison_row list" where
  "comparison_rows Insufficient_algorithms = []"
| "comparison_rows (Comparison rows _ _) = rows"

text \<open>A catalogue of three rows: AES-256, Dilithium-2, and a row of a category that
  has no implementation.\<close>

definition small_db :: database where
  "small_db =
     \<lparr>algorithms =
        [(seed ''AES-256'' ''classical'' ''AES'' 256
            ''Advanced Encryption Standard with 256-bit key'' False)\<lparr>alg_id := 6\<rparr>,
         (seed ''Dilithium-2'' ''post-quantum'' ''Dilithium'' 2
            ''CRYSTALS-Dilithium with security level 2'' True)\<lparr>alg_id := 10\<rparr>,
         (seed ''SPHINCS-128'' ''post-quantum'' ''SPHINCS'' 128 ''No implementation'' True)
           \<lparr>alg_id := 14\<rparr>],
      tests = [], reports = []\<rparr>"


section \<open>Predicates on instances of the encrypting classes\<close>

text \<open>An AES object is usable when its key, present or still to be generated from the
  key size, has one of the three AES key lengths.\<close>

definition aes_instance_ok :: "crypto_base \<Rightarrow> bool" where
  "aes_instance_ok s =
     (case key s of
        Some k \<Rightarrow> length k \<in> {16, 24, 32}
      | None \<Rightarrow> inst_key_size s div 8 \<in> {16, 24, 32})"

text \<open>An RSA object either has no public key yet and a key size that the library
  generates, or holds a key pair that the library generated for its key size.\<close>

definition rsa_instance_ok :: "lib \<Rightarrow> crypto_base \<Rightarrow> bool" where
  "rsa_instance_ok L s =
     (case public_key s of
        None \<Rightarrow> 1024 \<le> inst_key_size s
      | Some pk \<Rightarrow>
          (\<exists>e sk. rsa_generate_private_key L (inst_key_size s) e = Inr sk \<and>
                  private_key s = Some sk \<and> pk = rsa_public_key L sk))"

text \<open>An ECC object either has no public key yet, or holds a key pair generated on
  the curve of its key size.\<close>

definition ecc_instance_ok :: "lib \<Rightarrow> crypto_base \<Rightarrow> bool" where
  "ecc_instance_ok L s =
     (case public_key s of
        None \<Rightarrow> True
      | Some pk \<Rightarrow>
          (\<exists>e. private_key s
                 = Some (ec_generate_private_key L (curve_map_get (inst_key_size s)) e) \<and>
               pk = ec_public_key L
                      (ec_generate_private_key L (curve_map_get (inst_key_size s)) e)))"

text \<open>A string without its trailing spaces.\<close>

definition strip_spaces :: "string \<Rightarrow> string" where
  "strip_spaces m = rev (dropWhile (\<lambda>c. c = CHR '' '') (rev m))"


text \<open>Request bodies for concrete runs of the test route.\<close>

definition decryption_body :: json where
  "decryption_body =
     JObject [(''test_type'', JString ''decryption''), (''input_data'', JString ''hi'')]"

definition key_generation_body :: json where
  "key_generation_body = JObject [(''test_type'', JString ''key_generation'')]"

definition signing_body :: json where
  "signing_body = JObject [(''test_type'', JString ''signing'')]"


definition null_test_type_body :: json where
  "null_test_type_body = JObject [(''test_type'', JNull)]"

definition array_input_body :: json where
  "array_input_body = JObject [(''input_data'', JArray [JInt 1, JInt 2])]"

text \<open>The record of a decryption test on Dilithium-2 by user 7 in \<open>small_db\<close> and
  \<open>demo_world\<close>: the run fails in \<^verbatim>\<open>encrypt\<close>, a quarter of a millisecond after its
  start.\<close>

definition dilithium_decryption_record :: test where
  "dilithium_decryption_record =
     \<lparr>test_id = 1, user_id = 7, algorithm_id = 10, test_type = ''decryption'',
      input_data = JString ''hi'', output_data = None, execution_time = 1 / 4,
      success = False,
      error_message = Some (''Dilithium is a signature algorithm, not for encryption. ''
                            @ ''Use sign() method instead.''),
      metadata_key_size = 2, metadata_algorithm_type = ''post-quantum''\<rparr>"

text \<open>The record of a key generation test on AES-256 with the default input: the dict
  of an AES key has neither \<^verbatim>\<open>public_key\<close> nor \<^verbatim>\<open>private_key\<close>, so both sizes are
  0.\<close>

definition aes_key_generation_record :: test where
  "aes_key_generation_record =
     \<lparr>test_id = 1, user_id = 7, algorithm_id = 6, test_type = ''key_generation'',
      input_data = JString ''Hello, Quantum World!'',
      output_data = Some (str_output (Out_keys 0 0)), execution_time = 1 / 4,
      success = True, error_message = None,
      metadata_key_size = 256, metadata_algorithm_type = ''classical''\<rparr>"

text \<open>The row of the comparison for an algorithm of a signature-only family: no
  performance, no success, and the message of the exception that \<^verbatim>\<open>encrypt\<close> raised.\<close>

definition signature_only_row :: "comparison_row \<Rightarrow> bool" where
  "signature_only_row r =
     (row_performance r = None \<and> \<not> row_success r \<and>
      row_error r = Some (category (row_algorithm r)
        @ '' is a signature algorithm, not for encryption. Use sign() method instead.''))"

section \<open>Properties: catalogue seeding and bulk deletion\<close>


lemma fold_add_algorithm_rows:
  "map (alg_id_update (\<lambda>_. 0)) (algorithms (fold add_algorithm xs db)) =
   map (alg_id_update (\<lambda>_. 0)) (algorithms db) @ map (alg_id_update (\<lambda>_. 0)) xs"
  by (induction xs arbitrary: db) (simp_all add: add_algorithm_def)

lemma length_fold_add_algorithm:
  "length (algorithms (fold add_algorithm xs db)) = length (algorithms db) + length xs"
  by (induction xs arbitrary: db) (simp_all add: add_algorithm_def)

lemma fold_add_algorithm_tests: "tests (fold add_algorithm xs db) = tests db"
  by (induction xs arbitrary: db) (simp_all add: add_algorithm_def)

lemma all_algorithms_unnumbered: "map (alg_id_update (\<lambda>_. 0)) all_algorithms = all_algorithms"
  by (simp add: all_algorithms_def classical_algorithms_def post_quantum_algorithms_def seed_def)

lemma all_algorithms_counts:
  "length all_algorithms = 13" "length classical_algorithms = 6"
  "length post_quantum_algorithms = 7"
  by (simp_all add: all_algorithms_def classical_algorithms_def post_quantum_algorithms_def)

lemma all_algorithms_categories:
  "map category all_algorithms =
    [''RSA'', ''RSA'', ''ECC'', ''ECC'', ''AES'', ''AES'', ''Kyber'', ''Kyber'', ''Kyber'',
     ''Dilithium'', ''Dilithium'', ''Falcon'', ''Falcon'']"
  by (simp add: all_algorithms_def classical_algorithms_def post_quantum_algorithms_def seed_def)

lemma seeded_categories:
  assumes "algorithms db = []"
  shows "map category (algorithms (fold add_algorithm all_algorithms db)) = map category all_algorithms"
proof -
  have "map category (map (alg_id_update (\<lambda>_. 0)) (algorithms (fold add_algorithm all_algorithms db)))
      = map category all_algorithms"
    unfolding fold_add_algorithm_rows using assms by (simp add: all_algorithms_unnumbered)
  then show ?thesis by (simp add: comp_def)
qed

lemma family_count_map: "family_count c db = length (filter (\<lambda>x. x = c) (map category (algorithms db)))"
  by (simp add: family_count_def filter_map comp_def)

text \<open>
  Claim C8, as amended. Seeding an empty catalogue inserts the fixed list of 13
  descriptors (two RSA, two ECC, two AES, three Kyber, two Dilithium, two Falcon), the
  route reports 13 seeded (6 classical, 7 post-quantum), and the tests are untouched;
  \<^verbatim>\<open>init_database\<close> does the same. Seeding a catalogue that already has entries
  inserts nothing, leaves the database as it is and answers "already seeded".
\<close>

theorem seed_catalogue:
  "(algorithms db = [] \<longrightarrow>
      fst (seed_algorithms db) = Seeded 13 6 7 \<and>
      map (alg_id_update (\<lambda>_. 0)) (algorithms (snd (seed_algorithms db))) = all_algorithms \<and>
      length (algorithms (snd (seed_algorithms db))) = 13 \<and>
      map (\<lambda>c. family_count c (snd (seed_algorithms db)))
        [''RSA'', ''ECC'', ''AES'', ''Kyber'', ''Dilithium'', ''Falcon''] = [2, 2, 2, 3, 2, 2] \<and>
      tests (snd (seed_algorithms db)) = tests db \<and>
      init_database db = snd (seed_algorithms db)) \<and>
   (algorithms db \<noteq> [] \<longrightarrow> seed_algorithms db = (Already_seeded, db) \<and> init_database db = db)"
proof (intro conjI impI)
  assume e: "algorithms db = []"
  show "fst (seed_algorithms db) = Seeded 13 6 7"
    using e by (simp add: seed_algorithms_def all_algorithms_counts)
  show rows: "map (alg_id_update (\<lambda>_. 0)) (algorithms (snd (seed_algorithms db))) = all_algorithms"
    using e by (simp add: seed_algorithms_def fold_add_algorithm_rows all_algorithms_unnumbered)
  from arg_cong[OF rows, of length]
  show "length (algorithms (snd (seed_algorithms db))) = 13"
    by (simp add: all_algorithms_counts)
  show "map (\<lambda>c. family_count c (snd (seed_algorithms db)))
        [''RSA'', ''ECC'', ''AES'', ''Kyber'', ''Dilithium'', ''Falcon''] = [2, 2, 2, 3, 2, 2]"
    using e by (simp add: seed_algorithms_def family_count_map seeded_categories
        all_algorithms_categories)
  show "tests (snd (seed_algorithms db)) = tests db"
    by (simp add: seed_algorithms_def fold_add_algorithm_tests)
  show "init_database db = snd (seed_algorithms db)"
    by (simp add: seed_algorithms_def init_database_def)
next
  assume "algorithms db \<noteq> []"
  then show "seed_algorithms db = (Already_seeded, db)" "init_database db = db"
    by (simp_all add: seed_algorithms_def init_database_def)
qed

theorem seed_catalogue_witness:
  "algorithms empty_db = [] \<and>
   fst (seed_algorithms empty_db) = Seeded 13 6 7 \<and>
   length (algorithms (snd (seed_algorithms empty_db))) = 13 \<and>
   algorithms (snd (seed_algorithms empty_db)) \<noteq> [] \<and>
   seed_algorithms (snd (seed_algorithms empty_db)) = (Already_seeded, snd (seed_algorithms empty_db))"
proof -
  have e: "algorithms empty_db = []" by (simp add: empty_db_def)
  from seed_catalogue [of empty_db] e
  have f: "fst (seed_algorithms empty_db) = Seeded 13 6 7"
    and l: "length (algorithms (snd (seed_algorithms empty_db))) = 13"
    by blast+
  from l have ne: "algorithms (snd (seed_algorithms empty_db)) \<noteq> []" by auto
  from seed_catalogue [of "snd (seed_algorithms empty_db)"] ne
  have "seed_algorithms (snd (seed_algorithms empty_db)) =
          (Already_seeded, snd (seed_algorithms empty_db))"
    by blast
  with e f l ne show ?thesis by blast
qed

text \<open>The claim as written counts 17 descriptors; the seed list has 13.\<close>

theorem seed_count_counterexample:
  "fst (seed_algorithms empty_db) = Seeded 13 6 7 \<and>
   length (algorithms (snd (seed_algorithms empty_db))) \<noteq> 17"
  by (simp add: seed_algorithms_def empty_db_def all_algorithms_def classical_algorithms_def
      post_quantum_algorithms_def add_algorithm_def)

(* bulk delete *)

lemma fold_delete_test:
  "fold delete_test xs db = db\<lparr>tests := filter (\<lambda>r. test_id r \<notin> test_id ` set xs) (tests db)\<rparr>"
  by (induction xs arbitrary: db) (auto simp: delete_test_def intro: filter_cong)

lemma found_ids:
  assumes "distinct (map test_id ts)"
  shows "distinct (map test_id (filter (\<lambda>t. test_id t \<in> set ids \<and> user_id t = u) ts))"
    and "set (map test_id (filter (\<lambda>t. test_id t \<in> set ids \<and> user_id t = u) ts)) =
          {i \<in> set ids. \<exists>t \<in> set ts. test_id t = i \<and> user_id t = u}"
  using assms by (auto simp: distinct_map_filter)

lemma found_length_iff:
  assumes k: "tests_keyed db"
  shows "length (filter (\<lambda>t. test_id t \<in> set ids \<and> user_id t = u) (tests db)) = length ids
         \<longleftrightarrow> distinct ids \<and> (\<forall>i \<in> set ids. resolves db u i)"
proof -
  let ?f = "filter (\<lambda>t. test_id t \<in> set ids \<and> user_id t = u) (tests db)"
  let ?R = "{i \<in> set ids. resolves db u i}"
  from k have d: "distinct (map test_id ?f)" and s: "set (map test_id ?f) = ?R"
    unfolding tests_keyed_def resolves_def by (rule found_ids)+
  have len: "length ?f = card ?R"
    using distinct_card[OF d] s by simp
  have sub: "?R \<subseteq> set ids" by blast
  have le: "card ?R \<le> card (set ids)" by (rule card_mono) (simp, rule sub)
  have le2: "card (set ids) \<le> length ids" by (rule card_length)
  show ?thesis
  proof
    assume eq: "length ?f = length ids"
    with len le le2 have c1: "card ?R = card (set ids)" and c2: "card (set ids) = length ids"
      by simp_all
    from c2 have "distinct ids" by (rule card_distinct)
    moreover from c1 sub have "?R = set ids" by (simp add: card_subset_eq)
    ultimately show "distinct ids \<and> (\<forall>i \<in> set ids. resolves db u i)" by blast
  next
    assume a: "distinct ids \<and> (\<forall>i \<in> set ids. resolves db u i)"
    then have "?R = set ids" by blast
    with len a show "length ?f = length ids" by (simp add: distinct_card)
  qed
qed

lemma found_image:
  assumes "\<forall>i \<in> set ids. resolves db u i"
  shows "test_id ` set (filter (\<lambda>t. test_id t \<in> set ids \<and> user_id t = u) (tests db)) = set ids"
  using assms unfolding resolves_def by force

text \<open>
  Claim C10, as amended. On a tests table with unique ids, bulk deletion of a non-empty
  list of ids is all-or-nothing: when the ids are pairwise different and each resolves to
  a test of the calling user, exactly the tests with those ids are deleted and
  \<^verbatim>\<open>deleted_count\<close> is their number; when some id does not resolve, or an id is
  repeated, nothing is deleted and the 404 error is returned. An empty list is rejected
  with the 400 error and deletes nothing.
\<close>

theorem bulk_delete_all_or_nothing:
  assumes "tests_keyed db"
  shows "bulk_delete_tests db u test_ids =
     (if test_ids = [] then (No_test_ids, db)
      else if distinct test_ids \<and> (\<forall>i \<in> set test_ids. resolves db u i)
      then (Deleted (length test_ids),
            db\<lparr>tests := filter (\<lambda>t. test_id t \<notin> set test_ids) (tests db)\<rparr>)
      else (Not_found_or_denied, db))"
proof (cases "test_ids = []")
  case True
  then show ?thesis by (simp add: bulk_delete_tests_def)
next
  case ne: False
  show ?thesis
  proof (cases "distinct test_ids \<and> (\<forall>i \<in> set test_ids. resolves db u i)")
    case True
    with found_length_iff[OF assms, of test_ids u] found_image[of test_ids db u] ne
    show ?thesis
      by (simp add: bulk_delete_tests_def Let_def fold_delete_test)
  next
    case False
    with found_length_iff[OF assms, of test_ids u] ne
    show ?thesis
      by (simp add: bulk_delete_tests_def Let_def)
  qed
qed


theorem bulk_delete_all_or_nothing_witness:
  "tests_keyed two_tests_db \<and>
   bulk_delete_tests two_tests_db 7 [1] = (Deleted 1, two_tests_db\<lparr>tests := [tests two_tests_db ! 1]\<rparr>) \<and>
   bulk_delete_tests two_tests_db 7 [1, 2] = (Not_found_or_denied, two_tests_db) \<and>
   bulk_delete_tests two_tests_db 7 [1, 1] = (Not_found_or_denied, two_tests_db)"
proof -
  have k: "tests_keyed two_tests_db" by (simp add: tests_keyed_def two_tests_db_def)
  show ?thesis
    using k bulk_delete_all_or_nothing [OF k, of 7 "[1]"]
      bulk_delete_all_or_nothing [OF k, of 7 "[1, 2]"]
      bulk_delete_all_or_nothing [OF k, of 7 "[1, 1]"]
    by (simp add: resolves_def two_tests_db_def)
qed

text \<open>
  The claim as written promises, for a list none of whose ids fails to resolve, a
  successful deletion with \<^verbatim>\<open>deleted_count\<close> the length of the list; for the empty
  list the route answers with an error instead.
\<close>

theorem bulk_delete_empty_counterexample:
  "distinct ([] :: nat list) \<and> list_all (resolves two_tests_db 7) [] \<and>
   bulk_delete_tests two_tests_db 7 [] = (No_test_ids, two_tests_db) \<and>
   fst (bulk_delete_tests two_tests_db 7 []) \<noteq> Deleted (length ([] :: nat list))"
  by (simp add: bulk_delete_tests_def)

section \<open>The executable instance satisfies the assumptions\<close>



lemma unat_byte_of_char: "unat (of_nat (of_char c) :: byte) = of_char c"
proof -
  have "(of_char c :: nat) < 256" by simp
  then show ?thesis by (simp add: unsigned_of_nat take_bit_nat_eq_self)
qed

lemma byte_char_roundtrip: "of_nat (of_char (char_of (unat (x :: byte)))) = x"
proof -
  have "unat x < 256" using unsigned_less[of x] by simp
  then have "unat x mod 256 = unat x" by simp
  then show ?thesis by simp
qed


lemma space_byte: "(of_nat (of_char c) :: byte) = 0x20 \<longleftrightarrow> c = CHR '' ''"
proof
  assume e: "(of_nat (of_char c) :: byte) = 0x20"
  then have "unat (of_nat (of_char c) :: byte) = unat (0x20 :: byte)" by simp
  then have "(of_char c :: nat) = of_char (CHR '' '')" by (simp add: unat_byte_of_char)
  then show "c = CHR '' ''" by (simp only: of_char_eq_iff)
next
  assume "c = CHR '' ''" then show "(of_nat (of_char c) :: byte) = 0x20" by simp
qed

lemma map2_add_commute: "map2 (\<lambda>x y. x + y) a b = map2 (\<lambda>x y. x + y) b (a :: byte list)"
proof (induction a arbitrary: b)
  case Nil then show ?case by simp
next
  case (Cons x a) then show ?case by (cases b) (simp_all add: add.commute)
qed

lemma demo_sha256_length: "length (demo_sha256 b) = 32"
  by (simp add: demo_sha256_def min_def)


lemma demo_utf8_roundtrip: "demo_b64encode (demo_utf8_encode s) = s"
  by (simp add: demo_b64encode_def demo_utf8_encode_def comp_def unat_byte_of_char)

lemma demo_b64_roundtrip: "demo_utf8_encode (demo_b64encode b) = b"
proof -
  have "map (\<lambda>x. of_nat (of_char (char_of (unat x))) :: byte) b = b"
    by (rule map_idI) (rule byte_char_roundtrip)
  then show ?thesis
    by (simp only: demo_b64encode_def demo_utf8_encode_def map_map comp_def)
qed

lemma demo_fields_field:
  "demo_fields acc (concat (map (\<lambda>c. if c = field_sep \<or> c = field_esc then [field_esc, c] else [c]) s)
      @ field_sep # rest)
   = map_option (Cons (rev acc @ s)) (demo_fields [] rest)"
proof (induction s arbitrary: acc)
  case Nil
  then show ?case by simp
next
  case (Cons c s)
  have ne: "field_esc \<noteq> field_sep" by (simp add: field_esc_def field_sep_def)
  show ?case using Cons[of "c # acc"] ne by simp
qed

lemma demo_fields_dumps:
  "demo_fields [] (demo_json_dumps kvs @ rest)
   = map_option (\<lambda>fs. concat (map (\<lambda>(k, v). [k, v]) kvs) @ fs) (demo_fields [] rest)"
proof (induction kvs)
  case Nil
  then show ?case by (simp add: demo_json_dumps_def option.map_ident)
next
  case (Cons kv kvs)
  obtain k v where kv: "kv = (k, v)" by (cases kv)
  have "demo_json_dumps (kv # kvs) @ rest
      = concat (map (\<lambda>c. if c = field_sep \<or> c = field_esc then [field_esc, c] else [c]) k)
        @ field_sep #
        (concat (map (\<lambda>c. if c = field_sep \<or> c = field_esc then [field_esc, c] else [c]) v)
        @ field_sep # (demo_json_dumps kvs @ rest))"
    by (simp add: kv demo_json_dumps_def demo_field_def)
  then show ?case
    using Cons by (simp add: demo_fields_field kv option.map_comp comp_def)
qed

lemma demo_pairs_flat: "demo_pairs (concat (map (\<lambda>(k, v). [k, v]) kvs)) = Some kvs"
  by (induction kvs) auto

lemma demo_json_roundtrip:
  "demo_json_loads (demo_json_dumps kvs) = Inr (JObject (map (\<lambda>(k, v). (k, JString v)) kvs))"
  using demo_fields_dumps[of kvs "[]"]
  by (simp add: demo_json_loads_def demo_pairs_flat)

lemma demo_codec_ok: "codec_ok demo_lib"
  by (simp add: codec_ok_def demo_lib_def demo_utf8_roundtrip demo_b64_roundtrip
      demo_json_roundtrip)

lemma demo_utf8_space_ok: "utf8_space_ok demo_lib"
  by (simp add: utf8_space_ok_def demo_lib_def demo_utf8_encode_def space_byte)

lemma demo_aes_ok: "aes_ok demo_lib"
  by (simp add: aes_ok_def demo_lib_def comp_def)

lemma demo_rsa_ok: "rsa_ok demo_lib"
  unfolding rsa_ok_def
proof (intro conjI allI impI)
  fix ks :: int and e
  assume "1024 \<le> ks"
  then show "\<exists>sk. rsa_generate_private_key demo_lib ks e = Inr sk"
    by (simp add: demo_lib_def demo_rsa_generate_def)
next
  fix ks e sk and m :: bytes and e'
  assume a: "rsa_generate_private_key demo_lib ks e = Inr sk \<and> int (length m) + 66 \<le> ks div 8"
  then have "length sk = nat (ks div 8)"
    by (auto simp: demo_lib_def demo_rsa_generate_def split: if_splits)
  with a show "\<exists>c. rsa_oaep_encrypt demo_lib (rsa_public_key demo_lib sk) m e' = Inr c \<and>
              rsa_oaep_decrypt demo_lib sk c = Inr m"
    by (auto simp: demo_lib_def demo_rsa_encrypt_def comp_def)
qed

lemma demo_ec_ok: "ec_ok demo_lib"
  by (simp add: ec_ok_def demo_lib_def demo_ec_exchange_def demo_ec_generate_def
      demo_sha256_length map2_add_commute)


section \<open>Properties: the security report\<close>


lemma no_tests_filter:
  assumes "no_tests_of db u"
  shows "filter (\<lambda>t. user_id t = u \<and> P t) (tests db) = []"
  using assms by (auto simp: no_tests_of_def filter_empty_conv)

lemma no_tests_joined:
  assumes "no_tests_of db u"
  shows "joined_count db u qs = 0"
  using assms by (auto simp: no_tests_of_def joined_count_def filter_empty_conv)

lemma analyse_no_tests:
  assumes "no_tests_of db u"
  shows "analyse db u a =
    \<lparr>sa_algorithm = a, total_tests = 0, successful_tests = 0, success_rate = Int_num 0,
     security_level = (if quantum_safe a then ''medium'' else ''low''),
     security_notes =
       (if quantum_safe a then ''Quantum-safe but implementation issues detected''
        else ''Classical algorithm with significant implementation issues'') # key_size_notes a,
     sa_quantum_safe = quantum_safe a\<rparr>"
  using assms
  by (simp add: analyse_def no_tests_filter percentage_def assess_def)

text \<open>
  Claim C7. When the caller has no test records, the security report is generated (the
  route has no failing step on this path: the report is inserted and returned), its
  quantum-readiness score is the integer 0, and every catalogue algorithm is analysed
  with the level of the below-80% bucket of the rule table: "medium" when it is
  quantum-safe, "low" when it is not. The level "unknown" is never assigned.
\<close>

theorem security_report_without_tests:
  assumes "no_tests_of db u"
  shows "quantum_readiness_score (content (fst (generate_security_report db u ttl))) = Int_num 0 \<and>
    map sa_algorithm (algorithm_analysis (content (fst (generate_security_report db u ttl))))
      = algorithms db \<and>
    (\<forall>x \<in> set (algorithm_analysis (content (fst (generate_security_report db u ttl)))).
       security_level x = (if sa_quantum_safe x then ''medium'' else ''low'') \<and>
       security_level x = fst (assess (sa_quantum_safe x) (Int_num 0)) \<and>
       success_rate x = Int_num 0 \<and> total_tests x = 0) \<and>
    reports (snd (generate_security_report db u ttl))
      = reports db @ [fst (generate_security_report db u ttl)] \<and>
    tests (snd (generate_security_report db u ttl)) = tests db \<and>
    algorithms (snd (generate_security_report db u ttl)) = algorithms db"
proof -
  have score: "quantum_readiness_score (content (fst (generate_security_report db u ttl))) = Int_num 0"
    by (simp add: generate_security_report_def Let_def add_report_def
        no_tests_joined[OF assms] percentage_def)
  have an: "algorithm_analysis (content (fst (generate_security_report db u ttl)))
      = map (analyse db u) (algorithms db)"
    by (simp add: generate_security_report_def Let_def add_report_def)
  have algs: "map sa_algorithm (map (analyse db u) (algorithms db)) = algorithms db"
    by (simp add: analyse_no_tests[OF assms] comp_def)
  have lv: "\<forall>x \<in> set (map (analyse db u) (algorithms db)).
       security_level x = (if sa_quantum_safe x then ''medium'' else ''low'') \<and>
       security_level x = fst (assess (sa_quantum_safe x) (Int_num 0)) \<and>
       success_rate x = Int_num 0 \<and> total_tests x = 0"
    by (auto simp: analyse_no_tests[OF assms] assess_def)
  have st: "reports (snd (generate_security_report db u ttl))
      = reports db @ [fst (generate_security_report db u ttl)]"
    "tests (snd (generate_security_report db u ttl)) = tests db"
    "algorithms (snd (generate_security_report db u ttl)) = algorithms db"
    by (simp_all add: generate_security_report_def Let_def add_report_def)
  from score algs lv st show ?thesis unfolding an by blast
qed


theorem security_report_without_tests_witness:
  "no_tests_of seeded_db 3 \<and> algorithms seeded_db \<noteq> [] \<and>
   quantum_readiness_score (content (fst (generate_security_report seeded_db 3 ''t'')))
     = Int_num 0 \<and>
   map sa_algorithm (algorithm_analysis (content (fst (generate_security_report seeded_db 3 ''t''))))
     = algorithms seeded_db"
proof -
  have h: "no_tests_of seeded_db 3"
    by (simp add: no_tests_of_def seeded_db_def two_tests_db_def)
  have "length (algorithms seeded_db) = 13"
    by (simp add: seeded_db_def seed_algorithms_def empty_db_def length_fold_add_algorithm
        all_algorithms_counts)
  then have n: "algorithms seeded_db \<noteq> []" by auto
  from h n security_report_without_tests [OF h, of "''t''"] show ?thesis by blast
qed

section \<open>Properties: the mock signature schemes\<close>


lemma get_random_bytes_ok:
  "0 \<le> n \<Longrightarrow> get_random_bytes n w =
     (Inr (map (sources w 0) [0..<nat n]), w\<lparr>sources := (\<lambda>i. sources w (Suc i))\<rparr>)"
  by (simp add: get_random_bytes_def fresh_entropy_def)

lemma mock_generate_keys_ok:
  assumes "0 \<le> a" "0 \<le> b"
  shows "mock_generate_keys L name a b s w =
       (Inr (mock_key_dict L name (inst_key_size s) (map (sources w 0) [0..<nat a])
               (map (sources w 1) [0..<nat b])),
        s\<lparr>public_key := Some (map (sources w 0) [0..<nat a]),
          private_key := Some (map (sources w 1) [0..<nat b])\<rparr>,
        w\<lparr>sources := (\<lambda>i. sources w (Suc (Suc i)))\<rparr>)"
  using assms by (simp add: mock_generate_keys_def get_random_bytes_ok)

lemma signature_sizes_nonneg:
  "0 \<le> Dilithium_signature_size ks" "0 \<le> Falcon_signature_size ks"
  "0 \<le> fst (Dilithium_key_sizes ks)" "0 \<le> snd (Dilithium_key_sizes ks)"
  "0 \<le> fst (Falcon_key_sizes ks)" "0 \<le> snd (Falcon_key_sizes ks)"
  "0 \<le> Kyber_public_key_size ks" "0 \<le> Kyber_private_key_size ks"
  by (simp_all add: Dilithium_signature_size_def Falcon_signature_size_def
      Dilithium_key_sizes_def Falcon_key_sizes_def Kyber_public_key_size_def
      Kyber_private_key_size_def)

lemma mock_sign_result:
  assumes n: "0 \<le> n"
    and gen: "\<And>s w. \<exists>d s' w'. gen L s w = (Inr d, s', w')"
  shows "\<exists>signature s' w'. length signature = nat n \<and>
     mock_sign L name gen n s m w =
       (Inr (json_dumps L (signature_envelope L name signature (sha256 L []))), s', w') \<and>
     (\<not> not_bytes (private_key s) \<longrightarrow> s' = s)"
proof (cases "not_bytes (private_key s)")
  case True
  from gen[of s w] obtain d s' w' where g: "gen L s w = (Inr d, s', w')" by blast
  show ?thesis
    using True g n
    by (intro exI[of _ "map (sources w' 0) [0..<nat n]"])
      (simp add: mock_sign_def get_random_bytes_ok signature_envelope_def)
next
  case False
  show ?thesis
    using False n
    by (intro exI[of _ "map (sources w 0) [0..<nat n]"])
      (simp add: mock_sign_def get_random_bytes_ok signature_envelope_def)
qed

lemma Dilithium_sign_result:
  "\<exists>signature s' w'. length signature = nat (Dilithium_signature_size (inst_key_size s)) \<and>
     Dilithium_sign L s m w =
       (Inr (json_dumps L (signature_envelope L ''Dilithium'' signature (sha256 L []))), s', w') \<and>
     (\<not> not_bytes (private_key s) \<longrightarrow> s' = s)"
  unfolding Dilithium_sign_def
proof (rule mock_sign_result)
  show "0 \<le> Dilithium_signature_size (inst_key_size s)" by (rule signature_sizes_nonneg)
  fix s w
  from mock_generate_keys_ok[OF signature_sizes_nonneg(3) signature_sizes_nonneg(4)]
  show "\<exists>d s' w'. Dilithium_generate_keys L s w = (Inr d, s', w')"
    unfolding Dilithium_generate_keys_def by simp
qed

lemma Falcon_sign_result:
  "\<exists>signature s' w'. length signature = nat (Falcon_signature_size (inst_key_size s)) \<and>
     Falcon_sign L s m w =
       (Inr (json_dumps L (signature_envelope L ''Falcon'' signature (sha256 L []))), s', w') \<and>
     (\<not> not_bytes (private_key s) \<longrightarrow> s' = s)"
  unfolding Falcon_sign_def
proof (rule mock_sign_result)
  show "0 \<le> Falcon_signature_size (inst_key_size s)" by (rule signature_sizes_nonneg)
  fix s w
  from mock_generate_keys_ok[OF signature_sizes_nonneg(5) signature_sizes_nonneg(6)]
  show "\<exists>d s' w'. Falcon_generate_keys L s w = (Inr d, s', w')"
    unfolding Falcon_generate_keys_def by simp
qed

lemma mock_verify_object:
  assumes "\<not> not_bytes (public_key s)" "json_loads L sd = Inr (JObject kvs)"
  shows "mock_verify L name s m sd =
           Inr (''signature'' \<in> fst ` set kvs \<and> ''algorithm'' \<in> fst ` set kvs)"
  using assms by (simp add: mock_verify_def reraise_def bind_def)

lemma mock_verify_envelope:
  assumes "codec_ok L" "\<not> not_bytes (public_key s)"
  shows "mock_verify L name s m (json_dumps L (signature_envelope L name' sg dg)) = Inr True"
proof -
  have d: "distinct (map fst (signature_envelope L name' sg dg))"
    by (simp add: signature_envelope_def)
  from assms(1) d have
    "json_loads L (json_dumps L (signature_envelope L name' sg dg))
       = Inr (JObject (map (\<lambda>(k, v). (k, JString v)) (signature_envelope L name' sg dg)))"
    unfolding codec_ok_def by blast
  from mock_verify_object[OF assms(2) this] show ?thesis
    by (simp add: signature_envelope_def)
qed

text \<open>
  Claim C1, as amended. For a Dilithium or Falcon object with key material present,
  \<^verbatim>\<open>verify(m, sign(m))\<close> returns True for every message, and the object is left as it
  was. For any envelope that decodes to a JSON object, \<^verbatim>\<open>verify\<close> does not raise and
  returns True exactly when the object has a member "signature" and a member
  "algorithm", whatever their values and whatever the message: the check is of the shape
  of the envelope only, so a tampered envelope that keeps both members verifies.
\<close>

theorem verify_checks_envelope_shape:
  assumes "codec_ok L" and "has_keys s"
  shows
    "(\<exists>env w'. Dilithium_sign L s m w = (Inr env, s, w') \<and>
               Dilithium_verify L s m env = Inr True) \<and>
     (\<exists>env w'. Falcon_sign L s m w = (Inr env, s, w') \<and>
               Falcon_verify L s m env = Inr True) \<and>
     (\<forall>sd kvs m'. json_loads L sd = Inr (JObject kvs) \<longrightarrow>
        Dilithium_verify L s m' sd =
          Inr (''signature'' \<in> fst ` set kvs \<and> ''algorithm'' \<in> fst ` set kvs) \<and>
        Falcon_verify L s m' sd =
          Inr (''signature'' \<in> fst ` set kvs \<and> ''algorithm'' \<in> fst ` set kvs))"
proof (intro conjI allI impI)
  from assms(2) have pub: "\<not> not_bytes (public_key s)" and priv: "\<not> not_bytes (private_key s)"
    by (simp_all add: has_keys_def)
  from Dilithium_sign_result[of s L m w] priv
  obtain sg w' where "Dilithium_sign L s m w =
       (Inr (json_dumps L (signature_envelope L ''Dilithium'' sg (sha256 L []))), s, w')"
    by blast
  with mock_verify_envelope[OF assms(1) pub]
  show "\<exists>env w'. Dilithium_sign L s m w = (Inr env, s, w') \<and>
               Dilithium_verify L s m env = Inr True"
    by (simp add: Dilithium_verify_def)
  from Falcon_sign_result[of s L m w] priv
  obtain sg w' where "Falcon_sign L s m w =
       (Inr (json_dumps L (signature_envelope L ''Falcon'' sg (sha256 L []))), s, w')"
    by blast
  with mock_verify_envelope[OF assms(1) pub]
  show "\<exists>env w'. Falcon_sign L s m w = (Inr env, s, w') \<and>
               Falcon_verify L s m env = Inr True"
    by (simp add: Falcon_verify_def)
  fix sd kvs m'
  assume "json_loads L sd = Inr (JObject kvs)"
  from mock_verify_object[OF pub this]
  show "Dilithium_verify L s m' sd =
          Inr (''signature'' \<in> fst ` set kvs \<and> ''algorithm'' \<in> fst ` set kvs)"
    "Falcon_verify L s m' sd =
          Inr (''signature'' \<in> fst ` set kvs \<and> ''algorithm'' \<in> fst ` set kvs)"
    by (simp_all add: Dilithium_verify_def Falcon_verify_def)
qed

lemma keyed_has_keys: "has_keys (keyed_instance ks)"
  by (simp add: has_keys_def keyed_instance_def not_bytes_def)

theorem verify_checks_envelope_shape_witness:
  "codec_ok demo_lib \<and> has_keys (keyed_instance 2) \<and>
   (\<exists>env w'. Dilithium_sign demo_lib (keyed_instance 2) ''hello'' demo_world
                = (Inr env, keyed_instance 2, w') \<and>
              Dilithium_verify demo_lib (keyed_instance 2) ''hello'' env = Inr True) \<and>
   Falcon_verify demo_lib (keyed_instance 2) ''hello''
     (demo_json_dumps [(''signature'', ''AAAA'')]) = Inr False"
proof -
  note t = verify_checks_envelope_shape [OF demo_codec_ok keyed_has_keys, of 2 "''hello''" demo_world]
  have l: "json_loads demo_lib (demo_json_dumps [(''signature'', ''AAAA'')])
             = Inr (JObject [(''signature'', JString ''AAAA'')])"
    by (simp add: demo_lib_def demo_json_roundtrip)
  from t l have "Falcon_verify demo_lib (keyed_instance 2) ''hello''
     (demo_json_dumps [(''signature'', ''AAAA'')]) =
       Inr (''signature'' \<in> fst ` set [(''signature'', JString ''AAAA'')] \<and>
            ''algorithm'' \<in> fst ` set [(''signature'', JString ''AAAA'')])"
    by blast
  then have "Falcon_verify demo_lib (keyed_instance 2) ''hello''
     (demo_json_dumps [(''signature'', ''AAAA'')]) = Inr False" by simp
  with t demo_codec_ok keyed_has_keys show ?thesis by blast
qed

text \<open>The claim as written has \<^verbatim>\<open>verify\<close> return False for a tampered envelope; an
  envelope whose signature and digest have been replaced verifies.\<close>

theorem tampered_envelope_counterexample:
  "Dilithium_verify demo_lib (keyed_instance 2) ''hello''
     (json_dumps demo_lib
        [(''signature'', ''tampered''), (''message_hash'', ''tampered''),
         (''algorithm'', ''Dilithium'')]) = Inr True \<and>
   Falcon_verify demo_lib (keyed_instance 512) ''hello''
     (json_dumps demo_lib
        [(''signature'', ''tampered''), (''message_hash'', ''tampered''),
         (''algorithm'', ''Falcon'')]) = Inr True"
proof -
  have "json_loads demo_lib (json_dumps demo_lib
        [(''signature'', ''tampered''), (''message_hash'', ''tampered''), (''algorithm'', a)])
      = Inr (JObject [(''signature'', JString ''tampered''),
                      (''message_hash'', JString ''tampered''), (''algorithm'', JString a)])" for a
    by (simp add: demo_lib_def demo_json_roundtrip)
  then show ?thesis
    by (simp add: Dilithium_verify_def Falcon_verify_def mock_verify_def reraise_def bind_def
        keyed_instance_def not_bytes_def)
qed

text \<open>
  Claim C9, what the code does. For every Dilithium or Falcon object, message and
  world, \<^verbatim>\<open>sign\<close> returns an envelope whose "signature" is the Base64 text of random
  bytes of the length fixed by the security level; its "message_hash" is the Base64
  text of the SHA-256 digest of the empty input, the same for every message, where the
  claim has the digest of the message.
\<close>

theorem sign_envelope_contents:
  "(\<exists>signature. length signature = nat (Dilithium_signature_size (inst_key_size s)) \<and>
      fst (Dilithium_sign L s m w) =
        Inr (json_dumps L
               [(''signature'', b64encode L signature),
                (''message_hash'', b64encode L (sha256 L [])),
                (''algorithm'', ''Dilithium'')])) \<and>
   (\<exists>signature. length signature = nat (Falcon_signature_size (inst_key_size s)) \<and>
      fst (Falcon_sign L s m w) =
        Inr (json_dumps L
               [(''signature'', b64encode L signature),
                (''message_hash'', b64encode L (sha256 L [])),
                (''algorithm'', ''Falcon'')]))"
proof
  from Dilithium_sign_result[of s L m w]
  show "\<exists>signature. length signature = nat (Dilithium_signature_size (inst_key_size s)) \<and>
      fst (Dilithium_sign L s m w) =
        Inr (json_dumps L
               [(''signature'', b64encode L signature),
                (''message_hash'', b64encode L (sha256 L [])),
                (''algorithm'', ''Dilithium'')])"
    unfolding signature_envelope_def by force
  from Falcon_sign_result[of s L m w]
  show "\<exists>signature. length signature = nat (Falcon_signature_size (inst_key_size s)) \<and>
      fst (Falcon_sign L s m w) =
        Inr (json_dumps L
               [(''signature'', b64encode L signature),
                (''message_hash'', b64encode L (sha256 L [])),
                (''algorithm'', ''Falcon'')])"
    unfolding signature_envelope_def by force
qed

theorem sign_envelope_contents_witness:
  "(\<exists>signature. length signature = 2420 \<and>
      fst (Dilithium_sign demo_lib (keyed_instance 2) ''hello'' demo_world) =
        Inr (json_dumps demo_lib
               [(''signature'', b64encode demo_lib signature),
                (''message_hash'', b64encode demo_lib (sha256 demo_lib [])),
                (''algorithm'', ''Dilithium'')])) \<and>
   sha256 demo_lib [] \<noteq> sha256 demo_lib (utf8_encode demo_lib ''hello'')"
proof -
  have "hd (sha256 demo_lib []) \<noteq> hd (sha256 demo_lib (utf8_encode demo_lib ''hello''))"
    by (simp add: demo_lib_def demo_sha256_def demo_utf8_encode_def)
  then have "sha256 demo_lib [] \<noteq> sha256 demo_lib (utf8_encode demo_lib ''hello'')"
    by auto
  moreover have "nat (Dilithium_signature_size (inst_key_size (keyed_instance 2))) = 2420"
    by (simp add: Dilithium_signature_size_def keyed_instance_def)
  ultimately show ?thesis
    using sign_envelope_contents [of "keyed_instance 2" demo_lib "''hello''" demo_world]
    by simp
qed

section \<open>Properties: the test route and the comparison route\<close>


lemma algorithm_get_id: "algorithm_get db i = Some a \<Longrightarrow> alg_id a = i"
  by (auto simp: algorithm_get_def find_Some_iff)

lemma time_time_eq: "time_time w = (clock w 0, w\<lparr>clock := (\<lambda>i. clock w (Suc i))\<rparr>)"
  by (simp add: time_time_def)

lemma supported_iff: "fst (run_operation L cls s tt v w) \<noteq> Unsupported \<longleftrightarrow> supported cls tt"
  by (auto simp: run_operation_def supported_def split: prod.splits sum.splits)

lemma test_algorithm_unfold:
  assumes "algorithm_get db aid = Some a" "ALGORITHM_IMPLEMENTATIONS (category a) = Some cls"
    and "bind request_json request_data = Inr data"
    and "sqlite_bind_error L (requested_input data) = None"
  shows "test_algorithm L db uid aid request_json w =
    (case run_operation L cls (new_instance (key_size a)) (executed_test_type a data)
            (requested_input data) (snd (time_time w)) of
       (Unsupported, w1) \<Rightarrow>
         (Unsupported_test_type
            (''Unsupported test type: '' @ py_str L (executed_test_type a data)), db, w1)
     | (Done out, w1) \<Rightarrow>
         completed_run db uid aid a (py_str L (executed_test_type a data))
           (requested_input data) (fst (time_time w)) out w1
     | (Raised e, w1) \<Rightarrow>
         failed_run db uid aid a (py_str L (executed_test_type a data))
           (requested_input data) (fst (time_time w)) e w1)"
  using assms
  by (simp add: test_algorithm_def executed_test_type_def requested_input_def Let_def
      commit_test_def add_test_def time_time_eq failed_run_def completed_run_def
      split: prod.splits outcome.splits)

text \<open>
  Claim C4, as amended. For an algorithm of the catalogue whose category has an
  implementation, a request whose body is empty or a JSON object, and an input that
  the database stores, a run of the test route returns a response and raises nothing.
  The response is fixed by what the methods of the class do on the input, test type by
  test type: encryption calls \<^verbatim>\<open>encrypt\<close>; decryption calls \<^verbatim>\<open>encrypt\<close> and then
  \<^verbatim>\<open>decrypt\<close> on its result; key generation calls \<^verbatim>\<open>generate_keys\<close>; signing, on a
  class that defines it, calls \<^verbatim>\<open>sign\<close>; verification, on such a class, calls
  \<^verbatim>\<open>sign\<close> and then \<^verbatim>\<open>verify\<close>. When a method raises, the failure is caught and one
  record is added with \<^verbatim>\<open>success\<close> false, no output and the message of the exception as
  its \<^verbatim>\<open>error_message\<close> (\<open>failed_run\<close>). When the methods return, one record is added
  with \<^verbatim>\<open>success\<close> true, the output and no message (\<open>completed_run\<close>). Either record
  has the caller, the algorithm, the executed test type, the input and the elapsed time.
  For any other test type (\<open>supported\<close> is false of it) the route answers
  "Unsupported test type" and writes no record.
\<close>

theorem test_run_yields_record:
  assumes "algorithm_get db aid = Some a"
    and "ALGORITHM_IMPLEMENTATIONS (category a) = Some cls"
    and "bind request_json request_data = Inr data"
    and "sqlite_bind_error L (requested_input data) = None"
  shows "test_algorithm L db uid aid request_json w =
    (let kind = executed_test_type a data; indata = requested_input data;
         s = new_instance (key_size a); start = fst (time_time w); w0 = snd (time_time w)
     in if kind = JString ''encryption'' then
          (case encrypt_value L cls s indata w0 of
             (Inl e, s1, w1) \<Rightarrow> failed_run db uid aid a ''encryption'' indata start e w1
           | (Inr result, s1, w1) \<Rightarrow>
               completed_run db uid aid a ''encryption'' indata start (Out_str result) w1)
        else if kind = JString ''decryption'' then
          (case encrypt_value L cls s indata w0 of
             (Inl e, s1, w1) \<Rightarrow> failed_run db uid aid a ''decryption'' indata start e w1
           | (Inr encrypted, s1, w1) \<Rightarrow>
               (case decrypt L cls s1 encrypted w1 of
                  (Inl e, w2) \<Rightarrow> failed_run db uid aid a ''decryption'' indata start e w2
                | (Inr result, w2) \<Rightarrow>
                    completed_run db uid aid a ''decryption'' indata start (Out_str result) w2))
        else if kind = JString ''key_generation'' then
          (case generate_keys L cls s w0 of
             (Inl e, s1, w1) \<Rightarrow> failed_run db uid aid a ''key_generation'' indata start e w1
           | (Inr result, s1, w1) \<Rightarrow>
               completed_run db uid aid a ''key_generation'' indata start
                 (Out_keys (str_len_of result ''public_key'')
                    (str_len_of result ''private_key'')) w1)
        else if kind = JString ''signing'' \<and> has_sign cls then
          (case sign_value L cls s indata w0 of
             (Inl e, s1, w1) \<Rightarrow> failed_run db uid aid a ''signing'' indata start e w1
           | (Inr result, s1, w1) \<Rightarrow>
               completed_run db uid aid a ''signing'' indata start (Out_str result) w1)
        else if kind = JString ''verification'' \<and> has_verify cls then
          (case sign_value L cls s indata w0 of
             (Inl e, s1, w1) \<Rightarrow> failed_run db uid aid a ''verification'' indata start e w1
           | (Inr signature, s1, w1) \<Rightarrow>
               (case verify_value L cls s1 indata signature of
                  Inl e \<Rightarrow> failed_run db uid aid a ''verification'' indata start e w1
                | Inr result \<Rightarrow>
                    completed_run db uid aid a ''verification'' indata start
                      (Out_verified result) w1))
        else (Unsupported_test_type (''Unsupported test type: '' @ py_str L kind), db, w0))"
  unfolding test_algorithm_unfold[OF assms] Let_def
  by (simp add: run_operation_def split: prod.splits sum.splits)

lemma small_db_rows:
  "algorithm_get small_db 6 = Some ((seed ''AES-256'' ''classical'' ''AES'' 256
            ''Advanced Encryption Standard with 256-bit key'' False)\<lparr>alg_id := 6\<rparr>)"
  "algorithm_get small_db 10 = Some ((seed ''Dilithium-2'' ''post-quantum'' ''Dilithium'' 2
            ''CRYSTALS-Dilithium with security level 2'' True)\<lparr>alg_id := 10\<rparr>)"
  "algorithm_get small_db 14 = Some ((seed ''SPHINCS-128'' ''post-quantum'' ''SPHINCS'' 128
            ''No implementation'' True)\<lparr>alg_id := 14\<rparr>)"
  "algorithm_get small_db 99 = None"
  by (simp_all add: small_db_def algorithm_get_def seed_def)

lemma implementations:
  "ALGORITHM_IMPLEMENTATIONS ''AES'' = Some AESCrypto"
  "ALGORITHM_IMPLEMENTATIONS ''Dilithium'' = Some DilithiumCrypto"
  "ALGORITHM_IMPLEMENTATIONS ''Falcon'' = Some FalconCrypto"
  "ALGORITHM_IMPLEMENTATIONS ''SPHINCS'' = None"
  by (simp_all add: ALGORITHM_IMPLEMENTATIONS_def)

lemma request_data_object: "kvs \<noteq> [] \<Longrightarrow> bind (Inr (JObject kvs)) request_data = Inr kvs"
  by (simp add: bind_def request_data_def)

theorem test_run_yields_record_witness:
  "algorithm_get small_db 10 = Some (algorithms small_db ! 1) \<and>
   ALGORITHM_IMPLEMENTATIONS (category (algorithms small_db ! 1)) = Some DilithiumCrypto \<and>
   bind (Inr decryption_body) request_data
     = Inr [(''test_type'', JString ''decryption''), (''input_data'', JString ''hi'')] \<and>
   sqlite_bind_error demo_lib
     (requested_input [(''test_type'', JString ''decryption''), (''input_data'', JString ''hi'')])
     = None \<and>
   fst (test_algorithm demo_lib small_db 7 10 (Inr decryption_body) demo_world)
     = Test_failed dilithium_decryption_record
         (''Dilithium is a signature algorithm, not for encryption. ''
          @ ''Use sign() method instead.'') \<and>
   tests (fst (snd (test_algorithm demo_lib small_db 7 10 (Inr decryption_body) demo_world)))
     = [dilithium_decryption_record] \<and>
   algorithm_get small_db 6 = Some (algorithms small_db ! 0) \<and>
   ALGORITHM_IMPLEMENTATIONS (category (algorithms small_db ! 0)) = Some AESCrypto \<and>
   bind (Inr key_generation_body) request_data
     = Inr [(''test_type'', JString ''key_generation'')] \<and>
   sqlite_bind_error demo_lib (requested_input [(''test_type'', JString ''key_generation'')])
     = None \<and>
   fst (test_algorithm demo_lib small_db 7 6 (Inr key_generation_body) demo_world)
     = Test_completed aes_key_generation_record (Out_keys 0 0) \<and>
   tests (fst (snd (test_algorithm demo_lib small_db 7 6 (Inr key_generation_body) demo_world)))
     = [aes_key_generation_record]"
proof -
  have g: "algorithm_get small_db 10 = Some (algorithms small_db ! 1)"
    by (simp add: small_db_def algorithm_get_def seed_def)
  have i: "ALGORITHM_IMPLEMENTATIONS (category (algorithms small_db ! 1)) = Some DilithiumCrypto"
    by (simp add: small_db_def seed_def ALGORITHM_IMPLEMENTATIONS_def)
  have b: "bind (Inr decryption_body) request_data
     = Inr [(''test_type'', JString ''decryption''), (''input_data'', JString ''hi'')]"
    by (simp add: decryption_body_def request_data_object)
  have s: "sqlite_bind_error demo_lib
     (requested_input [(''test_type'', JString ''decryption''), (''input_data'', JString ''hi'')])
     = None"
    by (simp add: requested_input_def dict_get_def demo_lib_def demo_bind_error_def)
  have a1: "algorithms small_db ! 1 = (seed ''Dilithium-2'' ''post-quantum'' ''Dilithium'' 2
            ''CRYSTALS-Dilithium with security level 2'' True)\<lparr>alg_id := 10\<rparr>"
    by (simp add: small_db_def)
  have r: "test_algorithm demo_lib small_db 7 10 (Inr decryption_body) demo_world
     = (Test_failed dilithium_decryption_record
          (''Dilithium is a signature algorithm, not for encryption. ''
           @ ''Use sign() method instead.''),
        small_db\<lparr>tests := [dilithium_decryption_record]\<rparr>,
        snd (time_time (snd (time_time demo_world))))"
    unfolding test_run_yields_record [OF g i b s, of 7 demo_world] a1
    by (simp add: executed_test_type_def requested_input_def dict_get_def seed_def
        Dilithium_encrypt_def failed_run_def dilithium_decryption_record_def small_db_def
        next_id_def time_time_eq demo_world_def Let_def)
  have g': "algorithm_get small_db 6 = Some (algorithms small_db ! 0)"
    by (simp add: small_db_def algorithm_get_def seed_def)
  have i': "ALGORITHM_IMPLEMENTATIONS (category (algorithms small_db ! 0)) = Some AESCrypto"
    by (simp add: small_db_def seed_def ALGORITHM_IMPLEMENTATIONS_def)
  have b': "bind (Inr key_generation_body) request_data
     = Inr [(''test_type'', JString ''key_generation'')]"
    by (simp add: key_generation_body_def request_data_object)
  have s': "sqlite_bind_error demo_lib
     (requested_input [(''test_type'', JString ''key_generation'')]) = None"
    by (simp add: requested_input_def dict_get_def demo_lib_def demo_bind_error_def)
  have a0: "algorithms small_db ! 0 = (seed ''AES-256'' ''classical'' ''AES'' 256
            ''Advanced Encryption Standard with 256-bit key'' False)\<lparr>alg_id := 6\<rparr>"
    by (simp add: small_db_def)
  have k: "\<exists>d s1. AES_generate_keys demo_lib (new_instance 256) w
            = (Inr [(''key'', PStr d), (''key_size'', PInt 256)], s1, snd (fresh_entropy w))" for w
    by (simp add: AES_generate_keys_def get_random_bytes_def new_instance_def
        split: prod.splits)
  have r': "test_algorithm demo_lib small_db 7 6 (Inr key_generation_body) demo_world
     = (Test_completed aes_key_generation_record (Out_keys 0 0),
        small_db\<lparr>tests := [aes_key_generation_record]\<rparr>,
        snd (time_time (snd (fresh_entropy (snd (time_time demo_world))))))"
  proof -
    from k[of "snd (time_time demo_world)"] obtain d s1 where
      "AES_generate_keys demo_lib (new_instance 256) (snd (time_time demo_world))
        = (Inr [(''key'', PStr d), (''key_size'', PInt 256)], s1,
           snd (fresh_entropy (snd (time_time demo_world))))" by blast
    then show ?thesis
      unfolding test_run_yields_record [OF g' i' b' s', of 7 demo_world] a0
      by (simp add: executed_test_type_def requested_input_def dict_get_def seed_def
          completed_run_def aes_key_generation_record_def small_db_def str_len_of_def
          next_id_def time_time_eq demo_world_def fresh_entropy_def Let_def)
  qed
  from g i b s g' i' b' s' show ?thesis unfolding r r' by simp
qed

text \<open>The claim as written has every run end with a test record; a signing test on
  AES-256 ends with the 400 answer and the tests table as it was.\<close>

theorem unsupported_test_type_counterexample:
  "algorithm_get small_db 6 \<noteq> None \<and>
   ALGORITHM_IMPLEMENTATIONS ''AES'' \<noteq> None \<and>
   fst (test_algorithm demo_lib small_db 7 6 (Inr signing_body) demo_world)
     = Unsupported_test_type ''Unsupported test type: signing'' \<and>
   fst (snd (test_algorithm demo_lib small_db 7 6 (Inr signing_body) demo_world)) = small_db"
  by (simp add: test_algorithm_def small_db_rows seed_def implementations signing_body_def
      bind_def request_data_def dict_get_def run_operation_def time_time_eq Let_def)

text \<open>
  Outside the hypotheses of the theorem the route writes no record either. A test type
  that is not a str is unsupported. A body that cannot be read or is not an object, and
  an input that the database refuses, end in the outer \<^verbatim>\<open>except\<close>: the session is
  rolled back and the answer is 500.
\<close>

lemma null_test_type_unsupported:
  "fst (test_algorithm demo_lib small_db 7 6 (Inr null_test_type_body) demo_world)
     = Unsupported_test_type ''Unsupported test type: None'' \<and>
   fst (snd (test_algorithm demo_lib small_db 7 6 (Inr null_test_type_body) demo_world))
     = small_db"
  by (simp add: test_algorithm_def small_db_rows seed_def implementations
      null_test_type_body_def bind_def request_data_def dict_get_def run_operation_def
      time_time_eq Let_def)

lemma unreadable_body_not_recorded:
  assumes "algorithm_get db aid = Some a" and "bind request_json request_data = Inl e"
  shows "test_algorithm L db uid aid request_json w = (Failed_to_test_algorithm e, db, w)"
  using assms by (simp add: test_algorithm_def)

lemma unstorable_input_not_recorded:
  assumes "algorithm_get db aid = Some a"
    and "bind request_json request_data = Inr data"
    and "sqlite_bind_error L (requested_input data) = Some m"
  shows "fst (snd (test_algorithm L db uid aid request_json w)) = db"
  using assms
  by (simp add: test_algorithm_def requested_input_def commit_test_def Let_def
      split: prod.splits outcome.splits option.splits)

lemma test_algorithm_unstorable:
  assumes "algorithm_get db aid = Some a" "ALGORITHM_IMPLEMENTATIONS (category a) = Some cls"
    and "bind request_json request_data = Inr data"
    and "sqlite_bind_error L (requested_input data) = Some m"
  shows "test_algorithm L db uid aid request_json w =
    (case run_operation L cls (new_instance (key_size a)) (executed_test_type a data)
            (requested_input data) (snd (time_time w)) of
       (Unsupported, w1) \<Rightarrow>
         (Unsupported_test_type
            (''Unsupported test type: '' @ py_str L (executed_test_type a data)), db, w1)
     | (Done out, w1) \<Rightarrow>
         (Failed_to_test_algorithm (pending_rollback_error L m), db,
          snd (time_time (snd (time_time w1))))
     | (Raised e, w1) \<Rightarrow> (Failed_to_test_algorithm m, db, snd (time_time w1)))"
  using assms
  by (simp add: test_algorithm_def executed_test_type_def requested_input_def Let_def
      commit_test_def time_time_eq split: prod.splits outcome.splits)

lemma array_input_not_recorded:
  "fst (test_algorithm demo_lib small_db 7 6 (Inr array_input_body) demo_world)
     = Failed_to_test_algorithm ''Error binding parameter: type list is not supported'' \<and>
   fst (snd (test_algorithm demo_lib small_db 7 6 (Inr array_input_body) demo_world))
     = small_db"
proof -
  let ?a = "(seed ''AES-256'' ''classical'' ''AES'' 256
            ''Advanced Encryption Standard with 256-bit key'' False)\<lparr>alg_id := 6\<rparr>"
  have i: "ALGORITHM_IMPLEMENTATIONS (category ?a) = Some AESCrypto"
    by (simp add: seed_def implementations)
  have b: "bind (Inr array_input_body) request_data = Inr [(''input_data'', JArray [JInt 1, JInt 2])]"
    by (simp add: array_input_body_def request_data_object)
  have s: "sqlite_bind_error demo_lib (requested_input [(''input_data'', JArray [JInt 1, JInt 2])])
             = Some ''Error binding parameter: type list is not supported''"
    by (simp add: requested_input_def dict_get_def demo_lib_def demo_bind_error_def)
  have "\<exists>e w1. run_operation demo_lib AESCrypto (new_instance 256) (JString ''encryption'')
          (JArray [JInt 1, JInt 2]) w = (Raised e, w1)" for w
    by (simp add: run_operation_def AES_encrypt_value_def AES_ensure_key_def
        AES_generate_keys_def get_random_bytes_def new_instance_def reraise_def bind_def
        CryptoAES_new_def Let_def split: prod.splits sum.splits option.splits)
  from this[of "snd (time_time demo_world)"] obtain e w1 where
    "run_operation demo_lib AESCrypto (new_instance 256) (JString ''encryption'')
          (JArray [JInt 1, JInt 2]) (snd (time_time demo_world)) = (Raised e, w1)" by blast
  then show ?thesis
    unfolding test_algorithm_unstorable[OF small_db_rows(1) i b s]
    by (simp add: executed_test_type_def requested_input_def dict_get_def seed_def)
qed





lemma compare_one_algorithm: "row_algorithm (fst (compare_one L a cls td w)) = a"
  by (simp add: compare_one_def failed_row_def Let_def split: prod.splits sum.splits)

lemma compare_one_signature_only:
  "fst (compare_one L a DilithiumCrypto td w) =
     failed_row a ''Dilithium is a signature algorithm, not for encryption. Use sign() method instead.''"
  "fst (compare_one L a FalconCrypto td w) =
     failed_row a ''Falcon is a signature algorithm, not for encryption. Use sign() method instead.''"
  by (simp_all add: compare_one_def Let_def Dilithium_encrypt_def Falcon_encrypt_def
      split: prod.splits)

lemma compare_loop_rows:
  "map (\<lambda>r. Some (row_algorithm r)) (fst (compare_loop L db td ids w))
     = map (algorithm_get db) (filter (resolvable db) ids)"
proof (induction ids arbitrary: w)
  case Nil
  then show ?case by simp
next
  case (Cons i ids)
  show ?case
  proof (cases "algorithm_get db i")
    case None
    then have "\<not> resolvable db i" by (simp add: resolvable_def)
    with None Cons show ?thesis by simp
  next
    case (Some a)
    show ?thesis
    proof (cases "ALGORITHM_IMPLEMENTATIONS (category a)")
      case None
      with Some have "\<not> resolvable db i" by (simp add: resolvable_def)
      with None Some Cons show ?thesis by simp
    next
      case (Some cls)
      with \<open>algorithm_get db i = Some a\<close> have ri: "resolvable db i"
        by (simp add: resolvable_def)
      obtain row w1 where o: "compare_one L a cls td w = (row, w1)" by (cases "compare_one L a cls td w")
      with compare_one_algorithm[of L a cls td w] have ra: "row_algorithm row = a" by simp
      obtain rows w2 where l: "compare_loop L db td ids w1 = (rows, w2)"
        by (cases "compare_loop L db td ids w1")
      from Cons[of w1] l have ih:
        "map (\<lambda>r. Some (row_algorithm r)) rows = map (algorithm_get db) (filter (resolvable db) ids)"
        by simp
      have "fst (compare_loop L db td (i # ids) w) = row # rows"
        using \<open>algorithm_get db i = Some a\<close> Some o l by simp
      with ih ra ri \<open>algorithm_get db i = Some a\<close> show ?thesis by simp
    qed
  qed
qed

lemma compare_loop_signature_only:
  assumes "r \<in> set (fst (compare_loop L db td ids w))"
    and "category (row_algorithm r) = ''Dilithium'' \<or> category (row_algorithm r) = ''Falcon''"
  shows "signature_only_row r"
  using assms
proof (induction ids arbitrary: w)
  case Nil
  then show ?case by simp
next
  case (Cons i ids)
  show ?case
  proof (cases "algorithm_get db i")
    case None
    with Cons show ?thesis by simp
  next
    case (Some a)
    show ?thesis
    proof (cases "ALGORITHM_IMPLEMENTATIONS (category a)")
      case None
      with Some Cons show ?thesis by simp
    next
      case (Some cls)
      obtain row w1 where o: "compare_one L a cls td w = (row, w1)" by (cases "compare_one L a cls td w")
      with compare_one_algorithm[of L a cls td w] have ra: "row_algorithm row = a" by simp
      obtain rows w2 where l: "compare_loop L db td ids w1 = (rows, w2)"
        by (cases "compare_loop L db td ids w1")
      from Cons.prems(1) \<open>algorithm_get db i = Some a\<close> Some o l
      have "r = row \<or> r \<in> set (fst (compare_loop L db td ids w1))" by auto
      then show ?thesis
      proof
        assume "r \<in> set (fst (compare_loop L db td ids w1))"
        from Cons.IH[OF this Cons.prems(2)] show ?thesis .
      next
        assume rr: "r = row"
        with ra Cons.prems(2) have ca: "category a = ''Dilithium'' \<or> category a = ''Falcon''"
          by simp
        then show ?thesis
        proof
          assume d: "category a = ''Dilithium''"
          with Some have "cls = DilithiumCrypto" by (simp add: ALGORITHM_IMPLEMENTATIONS_def)
          with compare_one_signature_only(1)[of L a td w] o rr d show ?thesis
            by (simp add: signature_only_row_def failed_row_def)
        next
          assume d: "category a = ''Falcon''"
          with Some have "cls = FalconCrypto" by (simp add: ALGORITHM_IMPLEMENTATIONS_def)
          with compare_one_signature_only(2)[of L a td w] o rr d show ?thesis
            by (simp add: signature_only_row_def failed_row_def)
        qed
      qed
    qed
  qed
qed

lemma compare_algorithms_rows:
  assumes "2 \<le> length ids"
  shows "\<exists>d ts. fst (compare_algorithms L db ids td w)
            = Comparison (fst (compare_loop L db
                (case td of None \<Rightarrow> ''Hello, Quantum World!'' | Some d \<Rightarrow> d) ids w)) d ts"
  using assms
  by (auto simp: compare_algorithms_def Let_def split: prod.splits)

text \<open>
  Claim C6, as amended. The comparison of fewer than two ids is refused. For two ids
  or more, the rows of the answer are, in the order of the request, one row for each
  requested id that has a catalogue row whose category has an implementation, each with
  that catalogue row; the other ids are passed over without a row. A row of a
  Dilithium or Falcon algorithm has no performance, \<^verbatim>\<open>success\<close> false and the
  message that the family is a signature algorithm, not for encryption.
\<close>

theorem compare_rows:
  "(length ids < 2 \<longrightarrow> fst (compare_algorithms L db ids td w) = Insufficient_algorithms) \<and>
   (2 \<le> length ids \<longrightarrow>
      (\<exists>rows d ts.
         fst (compare_algorithms L db ids td w) = Comparison rows d ts \<and>
         map (\<lambda>r. Some (row_algorithm r)) rows
           = map (algorithm_get db) (filter (resolvable db) ids) \<and>
         (\<forall>r \<in> set rows.
            category (row_algorithm r) = ''Dilithium'' \<or> category (row_algorithm r) = ''Falcon''
            \<longrightarrow> signature_only_row r)))"
proof (intro conjI impI)
  assume "length ids < 2"
  then show "fst (compare_algorithms L db ids td w) = Insufficient_algorithms"
    by (simp add: compare_algorithms_def)
next
  assume "2 \<le> length ids"
  from compare_algorithms_rows[OF this, of L db td w] obtain d ts where
    "fst (compare_algorithms L db ids td w)
       = Comparison (fst (compare_loop L db
           (case td of None \<Rightarrow> ''Hello, Quantum World!'' | Some d \<Rightarrow> d) ids w)) d ts"
    by blast
  then show "\<exists>rows d ts.
         fst (compare_algorithms L db ids td w) = Comparison rows d ts \<and>
         map (\<lambda>r. Some (row_algorithm r)) rows
           = map (algorithm_get db) (filter (resolvable db) ids) \<and>
         (\<forall>r \<in> set rows.
            category (row_algorithm r) = ''Dilithium'' \<or> category (row_algorithm r) = ''Falcon''
            \<longrightarrow> signature_only_row r)"
    using compare_loop_rows compare_loop_signature_only by blast
qed

lemma small_db_resolvable:
  "resolvable small_db 6" "resolvable small_db 10" "\<not> resolvable small_db 14"
  "\<not> resolvable small_db 99"
  by (simp_all add: resolvable_def small_db_rows seed_def implementations)

theorem compare_rows_witness:
  "length [6, 10, 14, 99 :: nat] \<ge> 2 \<and>
   (\<exists>rows d ts.
      fst (compare_algorithms demo_lib small_db [6, 10, 14, 99] None demo_world)
        = Comparison rows d ts \<and>
      map (\<lambda>r. Some (row_algorithm r)) rows
        = [algorithm_get small_db 6, algorithm_get small_db 10]) \<and>
   length [10 :: nat] < 2 \<and>
   fst (compare_algorithms demo_lib small_db [10] None demo_world) = Insufficient_algorithms"
proof -
  have f: "filter (resolvable small_db) [6, 10, 14, 99] = [6, 10]"
    by (simp add: small_db_resolvable)
  from compare_rows [of "[6, 10, 14, 99]" demo_lib small_db None demo_world]
  obtain rows d ts where
    "fst (compare_algorithms demo_lib small_db [6, 10, 14, 99] None demo_world)
        = Comparison rows d ts"
    "map (\<lambda>r. Some (row_algorithm r)) rows
        = map (algorithm_get small_db) (filter (resolvable small_db) [6, 10, 14, 99])"
    by auto
  then have "\<exists>rows d ts.
      fst (compare_algorithms demo_lib small_db [6, 10, 14, 99] None demo_world)
        = Comparison rows d ts \<and>
      map (\<lambda>r. Some (row_algorithm r)) rows
        = [algorithm_get small_db 6, algorithm_get small_db 10]"
    unfolding f by auto
  moreover from compare_rows [of "[10]" demo_lib small_db None demo_world]
  have "fst (compare_algorithms demo_lib small_db [10] None demo_world) = Insufficient_algorithms"
    by simp
  ultimately show ?thesis by simp
qed

text \<open>The claim as written has one row for each requested id; an id without a
  catalogue row gets none.\<close>

theorem unresolvable_dropped_counterexample:
  "length [6, 99 :: nat] = 2 \<and>
   length (comparison_rows (fst (compare_algorithms demo_lib small_db [6, 99] None demo_world))) = 1"
proof -
  have "map (\<lambda>r. Some (row_algorithm r))
          (fst (compare_loop demo_lib small_db ''Hello, Quantum World!'' [6, 99] demo_world))
        = [algorithm_get small_db 6]"
    unfolding compare_loop_rows by (simp add: small_db_resolvable)
  then have "length (fst (compare_loop demo_lib small_db ''Hello, Quantum World!'' [6, 99]
                 demo_world)) = 1"
    by (metis length_map length_Cons list.size(3) One_nat_def)
  moreover from compare_algorithms_rows[of "[6, 99]" demo_lib small_db None demo_world]
  have "comparison_rows (fst (compare_algorithms demo_lib small_db [6, 99] None demo_world))
        = fst (compare_loop demo_lib small_db ''Hello, Quantum World!'' [6, 99] demo_world)"
    by auto
  ultimately show ?thesis by simp
qed


section \<open>Properties: padding and CBC mode\<close>


declare split_blocks.simps [simp del]

lemma pad_arith: "(n + (16 - n mod 16)) mod 16 = (0::nat)"
  by presburger

lemma unat_small_byte: "n \<le> 16 \<Longrightarrow> unat (of_nat n :: byte) = n"
  by (simp add: unsigned_of_nat take_bit_nat_eq_self)

lemma pad_length: "length (pad bs 16) mod 16 = 0"
  by (simp only: pad_def Let_def length_append length_replicate pad_arith)

lemma unpad_pad: "unpad (pad bs 16) 16 = Inr bs"
proof -
  define n where "n = 16 - length bs mod 16"
  have n1: "1 \<le> n" and n16: "n \<le> 16" unfolding n_def by simp_all
  have p: "pad bs 16 = bs @ replicate n (of_nat n)" by (simp add: pad_def n_def Let_def)
  have len: "length (pad bs 16) = length bs + n" by (simp add: p)
  have m: "(length bs + n) mod 16 = 0" unfolding n_def by (rule pad_arith)
  have l: "last (pad bs 16) = of_nat n" using n1 by (simp add: p)
  have u: "unat (last (pad bs 16)) = n" unfolding l by (rule unat_small_byte[OF n16])
  have d: "drop (length (pad bs 16) - n) (pad bs 16) = replicate n (of_nat n)"
    unfolding len unfolding p by simp
  have t: "take (length (pad bs 16) - n) (pad bs 16) = bs"
    unfolding len unfolding p by simp
  have c: "\<not> (n < 1 \<or> n > min 16 (length (pad bs 16)))" using n1 n16 by (simp add: len)
  have z: "length (pad bs 16) \<noteq> 0" using n1 by (simp add: len)
  have mm: "length (pad bs 16) mod 16 = 0" by (rule pad_length)
  show ?thesis
    unfolding unpad_def Let_def u d t using c z mm by simp
qed

lemma split_blocks_Nil: "split_blocks [] = []"
  by (simp add: split_blocks.simps)

lemma split_blocks_append:
  "length c = 16 \<Longrightarrow> split_blocks (c @ rest) = c # split_blocks rest"
  by (subst split_blocks.simps) auto

lemma concat_split_blocks: "concat (split_blocks xs) = xs"
proof (induction xs rule: split_blocks.induct)
  case (1 xs)
  then show ?case by (subst split_blocks.simps) simp
qed

lemma split_blocks_lengths:
  "length xs mod 16 = 0 \<Longrightarrow> \<forall>p \<in> set (split_blocks xs). length p = 16"
proof (induction xs rule: split_blocks.induct)
  case (1 xs)
  show ?case
  proof (cases "xs = []")
    case True
    then show ?thesis by (simp add: split_blocks_Nil)
  next
    case False
    from False have "length xs \<noteq> 0" by simp
    with "1.prems" have ge: "16 \<le> length xs" by presburger
    with "1.prems" have "(length xs - 16) mod 16 = 0" by presburger
    with "1.IH"[OF False] have ih: "\<forall>p \<in> set (split_blocks (drop 16 xs)). length p = 16"
      by simp
    have eq: "split_blocks xs = take 16 xs # split_blocks (drop 16 xs)"
      using False by (subst split_blocks.simps) simp
    show ?thesis
    proof
      fix p
      assume "p \<in> set (split_blocks xs)"
      then have "p = take 16 xs \<or> p \<in> set (split_blocks (drop 16 xs))"
        unfolding eq by simp
      then show "length p = 16"
      proof
        assume "p = take 16 xs"
        with ge show ?thesis by simp
      next
        assume "p \<in> set (split_blocks (drop 16 xs))"
        with ih show ?thesis by blast
      qed
    qed
  qed
qed

lemma xor_bytes_length: "length a = length b \<Longrightarrow> length (xor_bytes a b) = length a"
  by (simp add: xor_bytes_def)

lemma xor_bytes_cancel: "length a = length b \<Longrightarrow> xor_bytes (xor_bytes a b) b = a"
proof (induction a arbitrary: b)
  case Nil
  then show ?case by (simp add: xor_bytes_def)
next
  case (Cons x a)
  then obtain y b' where b: "b = y # b'" by (cases b) auto
  with Cons have "xor_bytes (xor_bytes a b') b' = a" by simp
  then show ?case by (simp add: b xor_bytes_def xor.assoc)
qed

lemma split_blocks_all:
  "length xs mod 16 = 0 \<Longrightarrow> list_all (\<lambda>p. length p = 16) (split_blocks xs)"
  unfolding list_all_iff by (rule split_blocks_lengths)

lemma cbc_roundtrip_blocks:
  assumes "aes_ok L"
  shows "length prev = 16 \<Longrightarrow> list_all (\<lambda>p. length p = 16) ps \<Longrightarrow>
    length (cbc_encrypt_blocks L k prev ps) mod 16 = 0 \<and>
    cbc_decrypt_blocks L k prev (split_blocks (cbc_encrypt_blocks L k prev ps)) = concat ps"
proof (induction ps arbitrary: prev)
  case Nil
  then show ?case by (simp add: split_blocks_Nil)
next
  case (Cons p ps)
  let ?c = "aes_encrypt_block L k (xor_bytes p prev)"
  from Cons.prems(2) have lp: "length p = 16" and rest: "list_all (\<lambda>p. length p = 16) ps"
    by simp_all
  from lp Cons.prems(1) have lx: "length (xor_bytes p prev) = 16"
    by (simp add: xor_bytes_length)
  from assms lx have lc: "length ?c = 16" and dc: "aes_decrypt_block L k ?c = xor_bytes p prev"
    unfolding aes_ok_def by blast+
  from Cons.IH[OF lc rest] have ih:
    "length (cbc_encrypt_blocks L k ?c ps) mod 16 = 0"
    "cbc_decrypt_blocks L k ?c (split_blocks (cbc_encrypt_blocks L k ?c ps)) = concat ps"
    by simp_all
  have x: "xor_bytes (xor_bytes p prev) prev = p"
    using lp Cons.prems(1) by (simp add: xor_bytes_cancel)
  have e: "cbc_encrypt_blocks L k prev (p # ps) = ?c @ cbc_encrypt_blocks L k ?c ps"
    by (simp add: Let_def)
  have s: "split_blocks (?c @ cbc_encrypt_blocks L k ?c ps)
            = ?c # split_blocks (cbc_encrypt_blocks L k ?c ps)"
    using lc by (rule split_blocks_append)
  show ?case
    unfolding e s using ih lc dc x by simp
qed

lemma cbc_roundtrip:
  assumes "aes_ok L" "length iv = 16" "length data mod 16 = 0"
  shows "length (cbc_encrypt_blocks L k iv (split_blocks data)) mod 16 = 0"
    and "cbc_decrypt_blocks L k iv (split_blocks (cbc_encrypt_blocks L k iv (split_blocks data)))
         = data"
  using cbc_roundtrip_blocks[OF assms(1,2) split_blocks_all[OF assms(3)], of k]
  by (simp_all add: concat_split_blocks)


section \<open>Properties: the encryption round trips\<close>


lemma bind_Inr: "bind (Inr x) f = f x" by (simp add: bind_def)
lemma bind_Inl: "bind (Inl e) f = Inl e" by (simp add: bind_def)
lemma reraise_Inr: "reraise msg (Inr x) = Inr x" by (simp add: reraise_def)

lemma fresh_bytes:
  "0 \<le> n \<Longrightarrow> \<exists>b w'. get_random_bytes n w = (Inr b, w') \<and> length b = nat n"
  by (simp add: get_random_bytes_ok)

lemma codec_json:
  assumes "codec_ok L" "distinct (map fst kvs)"
  shows "json_loads L (json_dumps L kvs) = Inr (JObject (map (\<lambda>(k, v). (k, JString v)) kvs))"
  using assms unfolding codec_ok_def by blast

lemma codec_b64: "codec_ok L \<Longrightarrow> b64decode_json L (JString (b64encode L b)) = Inr b"
  unfolding codec_ok_def b64decode_json_def by simp

lemma codec_utf8: "codec_ok L \<Longrightarrow> utf8_decode L (utf8_encode L s) = Inr s"
  unfolding codec_ok_def by blast

lemma AES_decrypt_envelope:
  assumes c: "codec_ok L" and a: "aes_ok L"
    and k: "key s = Some k" "length k \<in> {16, 24, 32}" and iv: "length iv = 16"
  shows "AES_decrypt L s
           (json_dumps L [(''ciphertext'',
                            b64encode L (cbc_encrypt_blocks L k iv
                                           (split_blocks (pad (utf8_encode L m) 16)))),
                          (''iv'', b64encode L iv)])
         = Inr m"
proof -
  let ?ct = "cbc_encrypt_blocks L k iv (split_blocks (pad (utf8_encode L m) 16))"
  have j: "json_loads L (json_dumps L [(''ciphertext'', b64encode L ?ct), (''iv'', b64encode L iv)])
        = Inr (JObject [(''ciphertext'', JString (b64encode L ?ct)),
                        (''iv'', JString (b64encode L iv))])"
    using codec_json[OF c, of "[(''ciphertext'', b64encode L ?ct), (''iv'', b64encode L iv)]"]
    by simp
  have g1: "py_getitem (JObject [(''ciphertext'', JString (b64encode L ?ct)),
                        (''iv'', JString (b64encode L iv))]) ''ciphertext''
            = Inr (JString (b64encode L ?ct))" by simp
  have g2: "py_getitem (JObject [(''ciphertext'', JString (b64encode L ?ct)),
                        (''iv'', JString (b64encode L iv))]) ''iv''
            = Inr (JString (b64encode L iv))" by simp
  have n: "CryptoAES_new k iv = Inr ()" using k(2) iv by (simp add: CryptoAES_new_def)
  have d: "CryptoAES_decrypt L k iv ?ct = Inr (pad (utf8_encode L m) 16)"
    using cbc_roundtrip[OF a iv pad_length, of k "utf8_encode L m"]
    by (simp add: CryptoAES_decrypt_def)
  show ?thesis
    unfolding AES_decrypt_def k(1) option.case j bind_Inr g1 g2 codec_b64[OF c] n d unpad_pad
      codec_utf8[OF c] reraise_Inr ..
qed

lemma AES_encrypt_with_key:
  assumes k: "key s = Some k" "length k \<in> {16, 24, 32}"
  shows "\<exists>iv w'. length iv = 16 \<and>
     AES_encrypt L s m w =
       (Inr (json_dumps L [(''ciphertext'',
                            b64encode L (cbc_encrypt_blocks L k iv
                                           (split_blocks (pad (utf8_encode L m) 16)))),
                          (''iv'', b64encode L iv)]), s, w')"
proof -
  from fresh_bytes[of 16 w] obtain iv w' where
    r: "get_random_bytes 16 w = (Inr iv, w')" and iv: "length iv = 16" by auto
  have n: "CryptoAES_new k iv = Inr ()" using k(2) iv by (simp add: CryptoAES_new_def)
  have e: "CryptoAES_encrypt L k iv (pad (utf8_encode L m) 16)
         = Inr (cbc_encrypt_blocks L k iv (split_blocks (pad (utf8_encode L m) 16)))"
    using pad_length[of "utf8_encode L m"] by (simp add: CryptoAES_encrypt_def)
  have "AES_encrypt L s m w =
       (Inr (json_dumps L [(''ciphertext'',
                            b64encode L (cbc_encrypt_blocks L k iv
                                           (split_blocks (pad (utf8_encode L m) 16)))),
                          (''iv'', b64encode L iv)]), s, w')"
    by (simp add: AES_encrypt_def AES_ensure_key_def k(1) r n e bind_Inr reraise_Inr)
  with iv show ?thesis by blast
qed

lemma AES_roundtrip_with_key:
  assumes "codec_ok L" "aes_ok L" "key s = Some k" "length k \<in> {16, 24, 32}"
  shows "\<exists>c w'. AES_encrypt L s m w = (Inr c, s, w') \<and> AES_decrypt L s c = Inr m"
proof -
  from AES_encrypt_with_key[OF assms(3,4), of L m w] obtain iv w' where
    iv: "length iv = 16" and
    e: "AES_encrypt L s m w =
       (Inr (json_dumps L [(''ciphertext'',
                            b64encode L (cbc_encrypt_blocks L k iv
                                           (split_blocks (pad (utf8_encode L m) 16)))),
                          (''iv'', b64encode L iv)]), s, w')"
    by blast
  from AES_decrypt_envelope[OF assms iv, of m] e show ?thesis by blast
qed

lemma AES_encrypt_generates:
  assumes "key s = None" "inst_key_size s div 8 \<in> {16, 24, 32}"
  shows "\<exists>k w1. length k \<in> {16, 24, 32} \<and>
           AES_encrypt L s m w = AES_encrypt L (s\<lparr>key := Some k\<rparr>) m w1"
proof -
  from assms(2) have "0 \<le> inst_key_size s div 8" by auto
  from fresh_bytes[OF this, of w] obtain k w1 where
    r: "get_random_bytes (inst_key_size s div 8) w = (Inr k, w1)"
    and l: "length k = nat (inst_key_size s div 8)" by blast
  from l assms(2) have lk: "length k \<in> {16, 24, 32}" by auto
  have "AES_encrypt L s m w = AES_encrypt L (s\<lparr>key := Some k\<rparr>) m w1"
    by (simp add: AES_encrypt_def AES_ensure_key_def AES_generate_keys_def assms(1) r)
  with lk show ?thesis by blast
qed

lemma AES_roundtrip:
  assumes "codec_ok L" "aes_ok L" "aes_instance_ok s"
  shows "\<exists>c s' w'. AES_encrypt L s m w = (Inr c, s', w') \<and> AES_decrypt L s' c = Inr m"
proof (cases "key s")
  case None
  with assms(3) have "inst_key_size s div 8 \<in> {16, 24, 32}" by (simp add: aes_instance_ok_def)
  from AES_encrypt_generates[OF None this, of L m w] obtain k w1 where
    lk: "length k \<in> {16, 24, 32}"
    and e: "AES_encrypt L s m w = AES_encrypt L (s\<lparr>key := Some k\<rparr>) m w1" by blast
  have "key (s\<lparr>key := Some k\<rparr>) = Some k" by simp
  from AES_roundtrip_with_key[OF assms(1,2) this lk, of m w1] e show ?thesis by auto
next
  case (Some k)
  with assms(3) have "length k \<in> {16, 24, 32}" by (simp add: aes_instance_ok_def)
  from AES_roundtrip_with_key[OF assms(1,2) Some this, of m w] show ?thesis by blast
qed

lemma codec_b64_bytes:
  "codec_ok L \<Longrightarrow> b64decode_bytes L (utf8_encode L (b64encode L b)) = Inr b"
  unfolding codec_ok_def by blast

lemma RSA_roundtrip_with_keys:
  assumes c: "codec_ok L" and r: "rsa_ok L"
    and g: "rsa_generate_private_key L (inst_key_size s) e = Inr sk"
    and k: "private_key s = Some sk" "public_key s = Some (rsa_public_key L sk)"
    and b: "int (length (utf8_encode L m)) + 66 \<le> inst_key_size s div 8"
  shows "\<exists>ct w'. RSA_encrypt L s m w = (Inr ct, s, w') \<and> RSA_decrypt L s ct = Inr m"
proof -
  obtain e' w2 where f: "fresh_entropy w = (e', w2)" by (cases "fresh_entropy w")
  from r g b obtain ct where
    en: "rsa_oaep_encrypt L (rsa_public_key L sk) (utf8_encode L m) e' = Inr ct"
    and de: "rsa_oaep_decrypt L sk ct = Inr (utf8_encode L m)"
    unfolding rsa_ok_def by blast
  have "RSA_encrypt L s m w = (Inr (b64encode L ct), s, w2)"
    by (simp add: RSA_encrypt_def RSA_ensure_public_key_def k(2) f en bind_Inr reraise_Inr)
  moreover have "RSA_decrypt L s (b64encode L ct) = Inr m"
    unfolding RSA_decrypt_def k(1) option.case codec_b64_bytes[OF c] bind_Inr de
      codec_utf8[OF c] reraise_Inr ..
  ultimately show ?thesis by blast
qed

lemma RSA_encrypt_generates:
  assumes r: "rsa_ok L" and n: "public_key s = None" and ks: "1024 \<le> inst_key_size s"
  shows "\<exists>e sk w1. rsa_generate_private_key L (inst_key_size s) e = Inr sk \<and>
     RSA_encrypt L s m w =
       RSA_encrypt L (s\<lparr>private_key := Some sk, public_key := Some (rsa_public_key L sk)\<rparr>) m w1"
proof -
  obtain e w1 where f: "fresh_entropy w = (e, w1)" by (cases "fresh_entropy w")
  from r ks obtain sk where g: "rsa_generate_private_key L (inst_key_size s) e = Inr sk"
    unfolding rsa_ok_def by blast
  have "RSA_encrypt L s m w =
       RSA_encrypt L (s\<lparr>private_key := Some sk, public_key := Some (rsa_public_key L sk)\<rparr>) m w1"
    by (simp add: RSA_encrypt_def RSA_ensure_public_key_def RSA_generate_keys_def n f g)
  with g show ?thesis by blast
qed

lemma RSA_roundtrip:
  assumes c: "codec_ok L" and r: "rsa_ok L" and i: "rsa_instance_ok L s"
    and b: "int (length (utf8_encode L m)) + 66 \<le> inst_key_size s div 8"
  shows "\<exists>ct s' w'. RSA_encrypt L s m w = (Inr ct, s', w') \<and> RSA_decrypt L s' ct = Inr m"
proof (cases "public_key s")
  case None
  with i have "1024 \<le> inst_key_size s" by (simp add: rsa_instance_ok_def)
  from RSA_encrypt_generates[OF r None this, of m w] obtain e sk w1 where
    g: "rsa_generate_private_key L (inst_key_size s) e = Inr sk"
    and en: "RSA_encrypt L s m w =
       RSA_encrypt L (s\<lparr>private_key := Some sk, public_key := Some (rsa_public_key L sk)\<rparr>) m w1"
    by blast
  let ?s = "s\<lparr>private_key := Some sk, public_key := Some (rsa_public_key L sk)\<rparr>"
  have "rsa_generate_private_key L (inst_key_size ?s) e = Inr sk" using g by simp
  from RSA_roundtrip_with_keys[OF c r this, of m w1] b en show ?thesis by auto
next
  case (Some pk)
  with i obtain e sk where
    "rsa_generate_private_key L (inst_key_size s) e = Inr sk"
    "private_key s = Some sk" "pk = rsa_public_key L sk"
    by (auto simp: rsa_instance_ok_def)
  with RSA_roundtrip_with_keys[OF c r this(1) this(2) _ b, of w] Some show ?thesis by blast
qed

lemma dropWhile_replicate_append:
  "dropWhile (\<lambda>x. x = a) (replicate n a @ ys) = dropWhile (\<lambda>x. x = a) ys"
  by (induction n) simp_all

lemma rstrip_space_pad: "rstrip_space (space_pad b) = rstrip_space b"
  by (simp add: rstrip_space_def space_pad_def dropWhile_replicate_append)

lemma rstrip_space_keep:
  assumes "ys \<noteq> []" "last ys \<noteq> 0x20"
  shows "rstrip_space (xs @ ys) = xs @ ys"
proof -
  from assms(1) obtain zs y where ys: "ys = zs @ [y]" by (cases ys rule: rev_cases) auto
  with assms(2) have "y \<noteq> 0x20" by simp
  then show ?thesis by (simp add: ys rstrip_space_def)
qed

lemma rstrip_space_snoc: "rstrip_space (xs @ [0x20]) = rstrip_space xs"
  by (simp add: rstrip_space_def)

lemma strip_spaces_snoc:
  "strip_spaces (m @ [c]) = (if c = CHR '' '' then strip_spaces m else m @ [c])"
  by (simp add: strip_spaces_def)

lemma utf8_encode_Nil: "utf8_space_ok L \<Longrightarrow> utf8_encode L [] = []"
proof -
  assume "utf8_space_ok L"
  then have "utf8_encode L ([] @ []) = utf8_encode L [] @ utf8_encode L []"
    unfolding utf8_space_ok_def by blast
  then show ?thesis by simp
qed

lemma rstrip_utf8:
  assumes u: "utf8_space_ok L"
  shows "rstrip_space (utf8_encode L m) = utf8_encode L (strip_spaces m)"
proof (induction m rule: rev_induct)
  case Nil
  then show ?case by (simp add: utf8_encode_Nil[OF u] rstrip_space_def strip_spaces_def)
next
  case (snoc c m)
  from u have ap: "utf8_encode L (m @ [c]) = utf8_encode L m @ utf8_encode L [c]"
    unfolding utf8_space_ok_def by blast
  show ?case
  proof (cases "c = CHR '' ''")
    case True
    with u have "utf8_encode L [c] = [0x20]" unfolding utf8_space_ok_def by simp
    with ap snoc True show ?thesis by (simp add: rstrip_space_snoc strip_spaces_snoc)
  next
    case False
    with u have "utf8_encode L [c] \<noteq> []" "last (utf8_encode L [c]) \<noteq> 0x20"
      unfolding utf8_space_ok_def by blast+
    from rstrip_space_keep[OF this, of "utf8_encode L m"] ap False show ?thesis
      by (simp add: strip_spaces_snoc)
  qed
qed

lemma space_pad_length: "length (space_pad b) mod 16 = 0"
  by (simp only: space_pad_def length_append length_replicate pad_arith)

lemma ec_shared:
  assumes "ec_ok L"
  shows "\<exists>shared.
         ec_exchange L (ec_generate_private_key L c e1)
           (ec_public_key L (ec_generate_private_key L c e2)) = Inr shared \<and>
         ec_exchange L (ec_generate_private_key L c e2)
           (ec_public_key L (ec_generate_private_key L c e1)) = Inr shared"
  using assms unfolding ec_ok_def by blast

lemma ec_pem: "ec_ok L \<Longrightarrow> load_pem_public_key L (ec_public_pem L pk) = Inr pk"
  unfolding ec_ok_def by blast

lemma aes_key_length: "ec_ok L \<Longrightarrow> length (take 32 (sha256 L b)) = 32"
  unfolding ec_ok_def by simp

lemma hazmat_Cipher_ok: "length k = 32 \<Longrightarrow> length iv = 16 \<Longrightarrow> hazmat_Cipher k iv = Inr ()"
  by (simp add: hazmat_Cipher_def)

lemma ECC_decrypt_envelope:
  assumes c: "codec_ok L" and a: "aes_ok L" and ec: "ec_ok L" and u: "utf8_space_ok L"
    and sk: "private_key s = Some sk"
    and ex: "ec_exchange L sk epk = Inr shared"
    and iv: "length iv = 16"
  shows "ECC_decrypt L s
           (json_dumps L
              [(''ciphertext'',
                b64encode L (cbc_encrypt_blocks L (take 32 (sha256 L shared)) iv
                               (split_blocks (space_pad (utf8_encode L m))))),
               (''iv'', b64encode L iv),
               (''ephemeral_public_key'', b64encode L (ec_public_pem L epk))])
         = Inr (strip_spaces m)"
proof -
  let ?k = "take 32 (sha256 L shared)"
  let ?ct = "cbc_encrypt_blocks L ?k iv (split_blocks (space_pad (utf8_encode L m)))"
  let ?obj = "JObject [(''ciphertext'', JString (b64encode L ?ct)),
                       (''iv'', JString (b64encode L iv)),
                       (''ephemeral_public_key'', JString (b64encode L (ec_public_pem L epk)))]"
  have j: "json_loads L (json_dumps L
              [(''ciphertext'', b64encode L ?ct), (''iv'', b64encode L iv),
               (''ephemeral_public_key'', b64encode L (ec_public_pem L epk))]) = Inr ?obj"
    using codec_json[OF c, of "[(''ciphertext'', b64encode L ?ct), (''iv'', b64encode L iv),
               (''ephemeral_public_key'', b64encode L (ec_public_pem L epk))]"]
    by simp
  have g1: "py_getitem ?obj ''ciphertext'' = Inr (JString (b64encode L ?ct))" by simp
  have g2: "py_getitem ?obj ''iv'' = Inr (JString (b64encode L iv))" by simp
  have g3: "py_getitem ?obj ''ephemeral_public_key''
              = Inr (JString (b64encode L (ec_public_pem L epk)))" by simp
  have n: "hazmat_Cipher ?k iv = Inr ()"
    using aes_key_length[OF ec] iv by (rule hazmat_Cipher_ok)
  have d: "hazmat_decrypt L ?k iv ?ct = Inr (space_pad (utf8_encode L m))"
    using cbc_roundtrip[OF a iv space_pad_length, of ?k "utf8_encode L m"]
    by (simp add: hazmat_decrypt_def)
  have r: "utf8_decode L (rstrip_space (space_pad (utf8_encode L m))) = Inr (strip_spaces m)"
    unfolding rstrip_space_pad rstrip_utf8[OF u] by (rule codec_utf8[OF c])
  show ?thesis
    unfolding ECC_decrypt_def sk option.case j bind_Inr g1 g2 g3 codec_b64[OF c] ec_pem[OF ec]
      ex n d r reraise_Inr ..
qed

lemma ECC_roundtrip_with_keys:
  assumes c: "codec_ok L" and a: "aes_ok L" and ec: "ec_ok L" and u: "utf8_space_ok L"
    and sk: "private_key s = Some (ec_generate_private_key L (curve_map_get (inst_key_size s)) e0)"
    and pk: "public_key s
             = Some (ec_public_key L (ec_generate_private_key L (curve_map_get (inst_key_size s)) e0))"
  shows "\<exists>ct w'. ECC_encrypt L s m w = (Inr ct, s, w') \<and> ECC_decrypt L s ct = Inr (strip_spaces m)"
proof -
  let ?c = "curve_map_get (inst_key_size s)"
  obtain e1 w2 where f: "fresh_entropy w = (e1, w2)" by (cases "fresh_entropy w")
  let ?esk = "ec_generate_private_key L ?c e1"
  from ec_shared[OF ec, of ?c e1 e0] obtain shared where
    x1: "ec_exchange L ?esk (ec_public_key L (ec_generate_private_key L ?c e0)) = Inr shared"
    and x2: "ec_exchange L (ec_generate_private_key L ?c e0) (ec_public_key L ?esk) = Inr shared"
    by blast
  from fresh_bytes[of 16 w2] obtain iv w3 where
    rb: "get_random_bytes 16 w2 = (Inr iv, w3)" and iv: "length iv = 16" by auto
  let ?k = "take 32 (sha256 L shared)"
  have n: "hazmat_Cipher ?k iv = Inr ()"
    using aes_key_length[OF ec] iv by (rule hazmat_Cipher_ok)
  have en: "hazmat_encrypt L ?k iv (space_pad (utf8_encode L m))
         = Inr (cbc_encrypt_blocks L ?k iv (split_blocks (space_pad (utf8_encode L m))))"
    using space_pad_length[of "utf8_encode L m"] by (simp add: hazmat_encrypt_def)
  have "ECC_encrypt L s m w =
     (Inr (json_dumps L
              [(''ciphertext'',
                b64encode L (cbc_encrypt_blocks L ?k iv
                               (split_blocks (space_pad (utf8_encode L m))))),
               (''iv'', b64encode L iv),
               (''ephemeral_public_key'', b64encode L (ec_public_pem L (ec_public_key L ?esk)))]),
      s, w3)"
    by (simp add: ECC_encrypt_def ECC_ensure_public_key_def pk f x1 rb n en bind_Inr reraise_Inr
        Let_def)
  with ECC_decrypt_envelope[OF c a ec u sk x2 iv, of m] show ?thesis by simp
qed

lemma ECC_encrypt_generates:
  assumes "public_key s = None"
  shows "\<exists>e0 w1.
     ECC_encrypt L s m w =
       ECC_encrypt L
         (s\<lparr>private_key := Some (ec_generate_private_key L (curve_map_get (inst_key_size s)) e0),
            public_key := Some (ec_public_key L
                                 (ec_generate_private_key L (curve_map_get (inst_key_size s)) e0))\<rparr>)
         m w1"
proof -
  obtain e0 w1 where f: "fresh_entropy w = (e0, w1)" by (cases "fresh_entropy w")
  have "ECC_encrypt L s m w =
       ECC_encrypt L
         (s\<lparr>private_key := Some (ec_generate_private_key L (curve_map_get (inst_key_size s)) e0),
            public_key := Some (ec_public_key L
                                 (ec_generate_private_key L (curve_map_get (inst_key_size s)) e0))\<rparr>)
         m w1"
    by (simp add: ECC_encrypt_def ECC_ensure_public_key_def ECC_generate_keys_def assms f Let_def)
  then show ?thesis by blast
qed

lemma ECC_roundtrip:
  assumes c: "codec_ok L" and a: "aes_ok L" and ec: "ec_ok L" and u: "utf8_space_ok L"
    and i: "ecc_instance_ok L s"
  shows "\<exists>ct s' w'. ECC_encrypt L s m w = (Inr ct, s', w') \<and>
                    ECC_decrypt L s' ct = Inr (strip_spaces m)"
proof (cases "public_key s")
  case None
  from ECC_encrypt_generates[OF None, of L m w] obtain e0 w1 where
    en: "ECC_encrypt L s m w =
       ECC_encrypt L
         (s\<lparr>private_key := Some (ec_generate_private_key L (curve_map_get (inst_key_size s)) e0),
            public_key := Some (ec_public_key L
                                 (ec_generate_private_key L (curve_map_get (inst_key_size s)) e0))\<rparr>)
         m w1" by blast
  let ?s = "s\<lparr>private_key := Some (ec_generate_private_key L (curve_map_get (inst_key_size s)) e0),
            public_key := Some (ec_public_key L
                                 (ec_generate_private_key L (curve_map_get (inst_key_size s)) e0))\<rparr>"
  have "private_key ?s = Some (ec_generate_private_key L (curve_map_get (inst_key_size ?s)) e0)"
    "public_key ?s
       = Some (ec_public_key L (ec_generate_private_key L (curve_map_get (inst_key_size ?s)) e0))"
    by simp_all
  from ECC_roundtrip_with_keys[OF c a ec u this, of m w1] en show ?thesis by auto
next
  case (Some pk)
  with i obtain e0 where
    "private_key s = Some (ec_generate_private_key L (curve_map_get (inst_key_size s)) e0)"
    "public_key s
       = Some (ec_public_key L (ec_generate_private_key L (curve_map_get (inst_key_size s)) e0))"
    by (auto simp: ecc_instance_ok_def)
  from ECC_roundtrip_with_keys[OF c a ec u this, of m w] show ?thesis by blast
qed

lemma strip_spaces_id: "m = [] \<or> last m \<noteq> CHR '' '' \<Longrightarrow> strip_spaces m = m"
proof (cases m rule: rev_cases)
  case Nil
  then show ?thesis by (simp add: strip_spaces_def)
next
  case (snoc ys y)
  assume "m = [] \<or> last m \<noteq> CHR '' ''"
  with snoc show ?thesis by (simp add: strip_spaces_snoc)
qed

text \<open>
  Claim C2. Let the codecs invert and the RSA and AES primitives of the libraries be
  correct. For an RSA object (fresh with a key size of at least 1024 bits, or holding a
  generated key pair) and a plaintext whose UTF-8 encoding has at most \<open>key_size/8 - 66\<close>
  bytes, the bound of OAEP with SHA-256, \<^verbatim>\<open>encrypt\<close> returns a ciphertext and
  \<^verbatim>\<open>decrypt\<close> on the same object returns the plaintext. For an AES object with a key of
  an AES length (present, or to be generated from the key size) and any plaintext,
  \<^verbatim>\<open>encrypt\<close> returns an envelope and \<^verbatim>\<open>decrypt\<close> on the same object returns the
  plaintext.
\<close>

theorem rsa_aes_round_trip:
  assumes "codec_ok L" "rsa_ok L" "aes_ok L"
  shows
    "(rsa_instance_ok L s \<and> int (length (utf8_encode L m)) + 66 \<le> inst_key_size s div 8 \<longrightarrow>
        (\<exists>ct s' w'. RSA_encrypt L s m w = (Inr ct, s', w') \<and> RSA_decrypt L s' ct = Inr m)) \<and>
     (aes_instance_ok s \<longrightarrow>
        (\<exists>ct s' w'. AES_encrypt L s m w = (Inr ct, s', w') \<and> AES_decrypt L s' ct = Inr m))"
  using RSA_roundtrip[OF assms(1,2), of s m w] AES_roundtrip[OF assms(1,3), of s m w]
  by blast

theorem rsa_aes_round_trip_witness:
  "codec_ok demo_lib \<and> rsa_ok demo_lib \<and> aes_ok demo_lib \<and>
   rsa_instance_ok demo_lib (new_instance 2048) \<and>
   int (length (utf8_encode demo_lib ''Hello, Quantum World!'')) + 66
     \<le> inst_key_size (new_instance 2048) div 8 \<and>
   (\<exists>ct s' w'. RSA_encrypt demo_lib (new_instance 2048) ''Hello, Quantum World!'' demo_world
                   = (Inr ct, s', w') \<and>
                 RSA_decrypt demo_lib s' ct = Inr ''Hello, Quantum World!'') \<and>
   aes_instance_ok (new_instance 256) \<and>
   (\<exists>ct s' w'. AES_encrypt demo_lib (new_instance 256) ''Hello, Quantum World!'' demo_world
                   = (Inr ct, s', w') \<and>
                 AES_decrypt demo_lib s' ct = Inr ''Hello, Quantum World!'')"
proof -
  have r: "rsa_instance_ok demo_lib (new_instance 2048)"
    by (simp add: rsa_instance_ok_def new_instance_def)
  have b: "int (length (utf8_encode demo_lib ''Hello, Quantum World!'')) + 66
             \<le> inst_key_size (new_instance 2048) div 8"
    by (simp add: demo_lib_def demo_utf8_encode_def new_instance_def)
  have a: "aes_instance_ok (new_instance 256)"
    by (simp add: aes_instance_ok_def new_instance_def)
  note t = rsa_aes_round_trip [OF demo_codec_ok demo_rsa_ok demo_aes_ok]
  from t [of "new_instance 2048" "''Hello, Quantum World!''" demo_world] r b
  have 1: "\<exists>ct s' w'. RSA_encrypt demo_lib (new_instance 2048) ''Hello, Quantum World!'' demo_world
                   = (Inr ct, s', w') \<and>
                 RSA_decrypt demo_lib s' ct = Inr ''Hello, Quantum World!''"
    by blast
  from t [of "new_instance 256" "''Hello, Quantum World!''" demo_world] a
  have 2: "\<exists>ct s' w'. AES_encrypt demo_lib (new_instance 256) ''Hello, Quantum World!'' demo_world
                   = (Inr ct, s', w') \<and>
                 AES_decrypt demo_lib s' ct = Inr ''Hello, Quantum World!''"
    by blast
  from demo_codec_ok demo_rsa_ok demo_aes_ok r b a 1 2 show ?thesis by blast
qed

text \<open>
  Claim C3. Let the codecs invert, UTF-8 encode the space as the byte 0x20 and no
  other character to bytes ending in it, and the ECDH, SHA-256 and AES primitives be
  correct. For an ECC object (fresh, or holding a key pair generated on its curve) and
  any plaintext, \<^verbatim>\<open>encrypt\<close> returns an envelope and \<^verbatim>\<open>decrypt\<close> on the same
  object returns the plaintext without its trailing spaces: the plaintext itself when
  it does not end in a space.
\<close>

theorem ecc_round_trip_strips_spaces:
  assumes "codec_ok L" "aes_ok L" "ec_ok L" "utf8_space_ok L" "ecc_instance_ok L s"
  shows "\<exists>ct s' w'.
     ECC_encrypt L s m w = (Inr ct, s', w') \<and>
     ECC_decrypt L s' ct = Inr (strip_spaces m) \<and>
     (m = [] \<or> last m \<noteq> CHR '' '' \<longrightarrow> ECC_decrypt L s' ct = Inr m)"
proof -
  from ECC_roundtrip[OF assms, of m w] obtain ct s' w' where
    e: "ECC_encrypt L s m w = (Inr ct, s', w')"
    and d: "ECC_decrypt L s' ct = Inr (strip_spaces m)" by blast
  from d strip_spaces_id[of m]
  have "m = [] \<or> last m \<noteq> CHR '' '' \<longrightarrow> ECC_decrypt L s' ct = Inr m" by auto
  with e d show ?thesis by blast
qed

theorem ecc_round_trip_strips_spaces_witness:
  "codec_ok demo_lib \<and> aes_ok demo_lib \<and> ec_ok demo_lib \<and> utf8_space_ok demo_lib \<and>
   ecc_instance_ok demo_lib (new_instance 256) \<and>
   (\<exists>ct s' w'.
      ECC_encrypt demo_lib (new_instance 256) ''hello '' demo_world = (Inr ct, s', w') \<and>
      ECC_decrypt demo_lib s' ct = Inr ''hello'') \<and>
   (\<exists>ct s' w'.
      ECC_encrypt demo_lib (new_instance 256) ''hello'' demo_world = (Inr ct, s', w') \<and>
      ECC_decrypt demo_lib s' ct = Inr ''hello'')"
proof -
  have i: "ecc_instance_ok demo_lib (new_instance 256)"
    by (simp add: ecc_instance_ok_def new_instance_def)
  have s: "strip_spaces ''hello '' = ''hello''" by (simp add: strip_spaces_def)
  note t = ecc_round_trip_strips_spaces
             [OF demo_codec_ok demo_aes_ok demo_ec_ok demo_utf8_space_ok i]
  from t [of "''hello ''" demo_world]
  have 1: "\<exists>ct s' w'.
      ECC_encrypt demo_lib (new_instance 256) ''hello '' demo_world = (Inr ct, s', w') \<and>
      ECC_decrypt demo_lib s' ct = Inr ''hello''"
    unfolding s by blast
  from t [of "''hello''" demo_world]
  have 2: "\<exists>ct s' w'.
      ECC_encrypt demo_lib (new_instance 256) ''hello'' demo_world = (Inr ct, s', w') \<and>
      ECC_decrypt demo_lib s' ct = Inr ''hello''"
    by auto
  from demo_codec_ok demo_aes_ok demo_ec_ok demo_utf8_space_ok i 1 2 show ?thesis by blast
qed


end
